theory Spec2Isabelle
  imports Main "HOL-Library.AList"
begin

section \<open>JavaScript values\<close>

text \<open>
  The values that flow through the resolvers of \<^verbatim>\<open>src/graphql/schemas/ParseClass.js\<close>:
  resolver arguments, the request context, storage responses. An object is an association
  list (the first binding of a key is the property); an array carries its elements and its
  named own properties. The program never does arithmetic on a number, it only tests
  values for truthiness, so numbers are integers here.
\<close>

datatype jsval =
    JUndefined
  | JNull
  | JBool bool
  | JNum int
  | JStr string
  | JArr "jsval list" "(string \<times> jsval) list"
  | JObj "(string \<times> jsval) list"

type_synonym jsobj = "(string \<times> jsval) list"

text \<open>What \<^verbatim>\<open>throw\<close> and the runtime raise: a \<^verbatim>\<open>TypeError\<close>, or any thrown value.\<close>

datatype error = TypeError | Thrown jsval

fun truthy :: "jsval \<Rightarrow> bool" where
  "truthy JUndefined = False"
| "truthy JNull = False"
| "truthy (JBool b) = b"
| "truthy (JNum n) = (n \<noteq> 0)"
| "truthy (JStr s) = (s \<noteq> [])"
| "truthy (JArr xs ps) = True"
| "truthy (JObj kvs) = True"

text \<open>\<^verbatim>\<open>o[k]\<close> on an object known to be one: a missing key reads \<^verbatim>\<open>undefined\<close>.\<close>

definition obj_get :: "jsobj \<Rightarrow> string \<Rightarrow> jsval" where
  "obj_get kvs k = (case map_of kvs k of None \<Rightarrow> JUndefined | Some v \<Rightarrow> v)"

text \<open>
  \<^verbatim>\<open>v.k\<close> on any value: reading a property of \<^verbatim>\<open>undefined\<close> or \<^verbatim>\<open>null\<close> raises a
  TypeError; a primitive has none of the properties this program reads.
\<close>

fun js_get :: "jsval \<Rightarrow> string \<Rightarrow> error + jsval" where
  "js_get JUndefined k = Inl TypeError"
| "js_get JNull k = Inl TypeError"
| "js_get (JObj kvs) k = Inr (obj_get kvs k)"
| "js_get (JArr xs ps) k = Inr (obj_get ps k)"
| "js_get v k = Inr JUndefined"

text \<open>
  \<^verbatim>\<open>v.k = x\<close>. The file is an ES module, hence strict code: assigning a property of a
  primitive raises a TypeError, as it does for \<^verbatim>\<open>undefined\<close> and \<^verbatim>\<open>null\<close>.
  An existing key keeps its position, a new key is appended.
\<close>

fun js_set :: "jsval \<Rightarrow> string \<Rightarrow> jsval \<Rightarrow> error + jsval" where
  "js_set (JObj kvs) k x = Inr (JObj (AList.update k x kvs))"
| "js_set (JArr xs ps) k x = Inr (JArr xs (AList.update k x ps))"
| "js_set v k x = Inl TypeError"

section \<open>Computations with exceptions and state\<close>

text \<open>
  A resolver or a builder runs on a state and either throws or returns; an
  \<^verbatim>\<open>await\<close> is sequential composition.
\<close>

type_synonym ('a, 's) comp = "'s \<Rightarrow> (error + 'a) \<times> 's"

definition returnM :: "'a \<Rightarrow> ('a, 's) comp" where
  "returnM x = (\<lambda>s. (Inr x, s))"

definition throwM :: "error \<Rightarrow> ('a, 's) comp" where
  "throwM e = (\<lambda>s. (Inl e, s))"

definition liftE :: "error + 'a \<Rightarrow> ('a, 's) comp" where
  "liftE r = (\<lambda>s. (r, s))"

definition bindM :: "('a, 's) comp \<Rightarrow> ('a \<Rightarrow> ('b, 's) comp) \<Rightarrow> ('b, 's) comp" where
  "bindM m f = (\<lambda>s. case m s of (Inl e, s') \<Rightarrow> (Inl e, s') | (Inr x, s') \<Rightarrow> f x s')"

section \<open>The backend schema\<close>

text \<open>
  \<^verbatim>\<open>schema[className].fields[fieldName]\<close> is \<^verbatim>\<open>{ type, targetClass }\<close>;
  \<^verbatim>\<open>targetClass\<close> is there for Pointer and Relation fields. The schema object maps a
  class name to its class and carries the list \<^verbatim>\<open>__classNames\<close>; the record keeps the
  two apart. The fields of a class are listed in the order of \<^verbatim>\<open>Object.keys\<close>.
\<close>

record field_def =
  ftype :: string
  targetClass :: "string option"

record class_def =
  class_fields :: "(string \<times> field_def) list"

record schema =
  classNames :: "string list"
  classes :: "(string \<times> class_def) list"

text \<open>
  What \<^verbatim>\<open>schema[className]\<close> reads. The schema is a plain object, so a name that is
  no own class key still finds the members that every object inherits from
  \<^verbatim>\<open>Object.prototype\<close>, and \<^verbatim>\<open>__classNames\<close> finds the list of names: values that
  are truthy and have no \<^verbatim>\<open>fields\<close>. Any other name reads \<^verbatim>\<open>undefined\<close>.
\<close>

datatype schema_entry = Undeclared | Declared class_def | NotAClass

definition objectPrototypeNames :: "string list" where
  "objectPrototypeNames =
     [''constructor'', ''__defineGetter__'', ''__defineSetter__'', ''hasOwnProperty'',
      ''__lookupGetter__'', ''__lookupSetter__'', ''isPrototypeOf'', ''propertyIsEnumerable'',
      ''toString'', ''valueOf'', ''__proto__'', ''toLocaleString'']"

definition schema_class :: "schema \<Rightarrow> string \<Rightarrow> schema_entry" where
  "schema_class sch className =
     (if className = ''__classNames'' then NotAClass
      else case map_of (classes sch) className of
             Some c \<Rightarrow> Declared c
           | None \<Rightarrow> if className \<in> set objectPrototypeNames then NotAClass else Undeclared)"

section \<open>Identifier extraction and input normalisation\<close>

definition MissingIdentifier :: error where
  "MissingIdentifier = Thrown (JStr ''id or objectId are required'')"

text \<open>
  \<^verbatim>\<open>getObjectId(input)\<close>. \<^verbatim>\<open>args.input\<close> is a nullable input object: \<open>None\<close> is
  \<^verbatim>\<open>undefined\<close>/\<^verbatim>\<open>null\<close>, whose property read raises. The function deletes a key
  of its argument; the model returns the object as it is left. \<^verbatim>\<open>parseID\<close> comes from
  \<^verbatim>\<open>../execute\<close> and is a parameter.
\<close>

definition getObjectId ::
  "(jsval \<Rightarrow> error + jsval) \<Rightarrow> jsobj option \<Rightarrow> error + (jsval \<times> jsobj)" where
  "getObjectId parseID input =
     (case input of
        None \<Rightarrow> Inl TypeError
      | Some kvs \<Rightarrow>
          if \<not> truthy (obj_get kvs ''id'') \<and> \<not> truthy (obj_get kvs ''objectId'')
          then Inl MissingIdentifier
          else if truthy (obj_get kvs ''objectId'')
          then Inr (obj_get kvs ''objectId'', AList.delete ''objectId'' kvs)
          else (case parseID (obj_get kvs ''id'') of
                  Inl e \<Rightarrow> Inl e
                | Inr p \<Rightarrow>
                    (case js_get p ''objectId'' of
                       Inl e \<Rightarrow> Inl e
                     | Inr objectId \<Rightarrow> Inr (objectId, AList.delete ''id'' kvs))))"

text \<open>The body of the \<^verbatim>\<open>forEach\<close> of \<^verbatim>\<open>transformInput\<close>, for one key.\<close>

definition tagValue :: "(string \<times> field_def) list \<Rightarrow> string \<Rightarrow> jsval \<Rightarrow> error + jsval" where
  "tagValue fs key v =
     (case map_of fs key of
        None \<Rightarrow> Inr v
      | Some f \<Rightarrow>
          if ftype f = ''Pointer'' then js_set v ''__type'' (JStr ''Pointer'')
          else if ftype f = ''GeoPoint'' then js_set v ''__type'' (JStr ''GeoPoint'')
          else Inr v)"

fun transformEntries :: "(string \<times> field_def) list \<Rightarrow> jsobj \<Rightarrow> error + jsobj" where
  "transformEntries fs [] = Inr []"
| "transformEntries fs ((k, v) # kvs) =
     (case tagValue fs k v of
        Inl e \<Rightarrow> Inl e
      | Inr v' \<Rightarrow>
          (case transformEntries fs kvs of
             Inl e \<Rightarrow> Inl e
           | Inr kvs' \<Rightarrow> Inr ((k, v') # kvs')))"

text \<open>
  \<^verbatim>\<open>transformInput(input, schema[className])\<close>: destructuring \<^verbatim>\<open>undefined\<close> raises,
  and so does \<^verbatim>\<open>Object.keys\<close> of an absent input. For a value that is no class,
  \<^verbatim>\<open>fields\<close> is \<^verbatim>\<open>undefined\<close> and \<^verbatim>\<open>fields[key]\<close> raises at the first key.
\<close>

definition transformInput :: "jsobj option \<Rightarrow> schema_entry \<Rightarrow> error + jsobj" where
  "transformInput input cls =
     (case cls of
        Undeclared \<Rightarrow> Inl TypeError
      | Declared c \<Rightarrow>
          (case input of
             None \<Rightarrow> Inl TypeError
           | Some kvs \<Rightarrow> transformEntries (class_fields c) kvs)
      | NotAClass \<Rightarrow>
          (case input of
             None \<Rightarrow> Inl TypeError
           | Some kvs \<Rightarrow> if kvs = [] then Inr [] else Inl TypeError))"

section \<open>The storage and authorisation collaborators\<close>

text \<open>
  \<^verbatim>\<open>runGet\<close>, \<^verbatim>\<open>runFind\<close>, \<^verbatim>\<open>rest.create\<close>, \<^verbatim>\<open>rest.update\<close>,
  \<^verbatim>\<open>rest.del\<close> and \<^verbatim>\<open>getAuthForSessionToken\<close> are imported. A call is recorded
  with its arguments in the order of the source (the trailing \<^verbatim>\<open>schema\<close> argument of
  \<^verbatim>\<open>runGet\<close>/\<^verbatim>\<open>runFind\<close> is the constant schema of the pass and is left out); what it
  answers, and what it does to the world \<open>'w\<close>, is a parameter.
\<close>

datatype call =
    RunGet jsval jsval string jsval
  | RunFind jsval jsval jsval jsval "jsval option"
  | RestCreate jsval jsval string jsval
  | RestUpdate jsval jsval string jsval jsval
  | RestDel jsval jsval string jsval
  | GetAuthForSessionToken jsval

type_synonym 'w backend = "call \<Rightarrow> 'w \<Rightarrow> (error + jsval) \<times> 'w"

text \<open>The state of a request: the calls issued so far, oldest first, and the world.\<close>

type_synonym 'w io = "call list \<times> 'w"

definition perform :: "'w backend \<Rightarrow> call \<Rightarrow> (jsval, 'w io) comp" where
  "perform be c = (\<lambda>s. case be c (snd s) of (r, w') \<Rightarrow> (r, (fst s @ [c], w')))"

section \<open>The mutation resolvers\<close>

record mutation_result =
  object :: jsval
  clientMutationId :: jsval

text \<open>\<^verbatim>\<open>destroy.resolve\<close> of \<^verbatim>\<open>loadClass(className, schema)\<close>.\<close>

definition destroy_resolve ::
  "'w backend \<Rightarrow> (jsval \<Rightarrow> error + jsval) \<Rightarrow> string \<Rightarrow> jsobj option \<Rightarrow> jsval \<Rightarrow> jsval
     \<Rightarrow> (mutation_result, 'w io) comp" where
  "destroy_resolve be parseID className input context info =
     bindM (liftE (getObjectId parseID input)) (\<lambda>(objectId, input1).
     bindM (returnM (obj_get input1 ''clientMutationId'')) (\<lambda>cmid.
     bindM (perform be (RunGet context info className objectId)) (\<lambda>obj.
     bindM (liftE (js_get context ''config'')) (\<lambda>config.
     bindM (liftE (js_get context ''auth'')) (\<lambda>auth.
     bindM (perform be (RestDel config auth className objectId)) (\<lambda>_.
     returnM \<lparr>object = obj, clientMutationId = cmid\<rparr>))))))"

text \<open>\<^verbatim>\<open>update.resolve\<close>.\<close>

definition update_resolve ::
  "'w backend \<Rightarrow> (jsval \<Rightarrow> error + jsval) \<Rightarrow> schema \<Rightarrow> string \<Rightarrow> jsobj option \<Rightarrow> jsval \<Rightarrow> jsval
     \<Rightarrow> (mutation_result, 'w io) comp" where
  "update_resolve be parseID sch className input context info =
     bindM (liftE (getObjectId parseID input)) (\<lambda>(objectId, input1).
     bindM (liftE (transformInput (Some input1) (schema_class sch className))) (\<lambda>input2.
     bindM (returnM (obj_get input2 ''clientMutationId'')) (\<lambda>cmid.
     bindM (returnM (AList.delete ''clientMutationId'' input2)) (\<lambda>input3.
     bindM (liftE (js_get context ''config'')) (\<lambda>config.
     bindM (liftE (js_get context ''auth'')) (\<lambda>auth.
     bindM (perform be (RestUpdate config auth className
                          (JObj [(''objectId'', objectId)]) (JObj input3))) (\<lambda>_.
     bindM (perform be (RunGet context info className objectId)) (\<lambda>obj.
     returnM \<lparr>object = obj, clientMutationId = cmid\<rparr>))))))))"

text \<open>
  \<^verbatim>\<open>create.resolve\<close>. \<^verbatim>\<open>a && b\<close> is \<open>b\<close> when \<open>a\<close> is truthy and \<open>a\<close> otherwise.
\<close>

definition installationId_of :: "jsval \<Rightarrow> error + jsval" where
  "installationId_of context =
     (case js_get context ''info'' of
        Inl e \<Rightarrow> Inl e
      | Inr i \<Rightarrow> if truthy i then js_get i ''installationId'' else Inr i)"

definition session_auth ::
  "'w backend \<Rightarrow> string \<Rightarrow> jsval \<Rightarrow> jsval \<Rightarrow> jsval \<Rightarrow> jsval \<Rightarrow> (jsval, 'w io) comp" where
  "session_auth be className context config auth res =
     (if className = ''_User'' then
        bindM (liftE (js_get res ''response'')) (\<lambda>response.
        if truthy response then
          bindM (liftE (js_get response ''sessionToken'')) (\<lambda>sessionToken.
          if truthy sessionToken then
            bindM (liftE (installationId_of context)) (\<lambda>installationId.
            perform be (GetAuthForSessionToken
              (JObj [(''config'', config), (''installationId'', installationId),
                     (''sessionToken'', sessionToken)])))
          else returnM auth)
        else returnM auth)
      else returnM auth)"

definition create_resolve ::
  "'w backend \<Rightarrow> schema \<Rightarrow> string \<Rightarrow> jsobj option \<Rightarrow> jsval \<Rightarrow> jsval
     \<Rightarrow> (mutation_result, 'w io) comp" where
  "create_resolve be sch className input context info =
     bindM (liftE (js_get context ''auth'')) (\<lambda>auth.
     bindM (liftE (js_get context ''config'')) (\<lambda>config.
     bindM (liftE (transformInput input (schema_class sch className))) (\<lambda>input2.
     bindM (returnM (obj_get input2 ''clientMutationId'')) (\<lambda>cmid.
     bindM (returnM (AList.delete ''clientMutationId'' input2)) (\<lambda>input3.
     bindM (perform be (RestCreate config auth className (JObj input3))) (\<lambda>res.
     bindM (session_auth be className context config auth res) (\<lambda>auth'.
     bindM (liftE (js_get res ''response'')) (\<lambda>response.
     bindM (liftE (js_get response ''objectId'')) (\<lambda>objectId.
     bindM (perform be (RunGet (JObj [(''auth'', auth'), (''config'', config)])
                          info className objectId)) (\<lambda>obj.
     returnM \<lparr>object = obj, clientMutationId = cmid\<rparr>))))))))))"

section \<open>Connections and the list resolvers\<close>

text \<open>
  A Connection: the nodes of the page, the parallel \<^verbatim>\<open>{ node, cursor }\<close> edges, and the
  page-info record.
\<close>

record connection =
  nodes :: "jsval list"
  edges :: "(jsval \<times> jsval) list"
  pageInfo :: jsval

text \<open>
  The cursor encoding and the computation of the page-info record belong to the
  pagination helper of \<^verbatim>\<open>../execute\<close>; they are parameters.
\<close>

record paging =
  cursorOf :: "jsobj \<Rightarrow> jsval \<Rightarrow> jsval"
  pageInfoOf :: "jsval list \<Rightarrow> jsobj \<Rightarrow> nat \<Rightarrow> jsval"

text \<open>The page size a caller asks for: \<^verbatim>\<open>first\<close>, or else \<^verbatim>\<open>last\<close>.\<close>

definition requestedPageSize :: "jsobj \<Rightarrow> nat option" where
  "requestedPageSize args =
     (case obj_get args ''first'' of
        JNum n \<Rightarrow> Some (nat n)
      | _ \<Rightarrow> (case obj_get args ''last'' of JNum n \<Rightarrow> Some (nat n) | _ \<Rightarrow> None))"

definition pageSize :: "jsobj \<Rightarrow> nat \<Rightarrow> nat" where
  "pageSize args maxPageSize =
     (case requestedPageSize args of None \<Rightarrow> maxPageSize | Some n \<Rightarrow> min n maxPageSize)"

text \<open>
  Modelled from the spec: \<^verbatim>\<open>connectionResultsArray(results, args, 100)\<close> is imported from
  \<^verbatim>\<open>../execute\<close>, which is not among the sources. The spec describes it as the windowing
  function that wraps a result sequence as a Connection, "capping page size at a fixed
  maximum (100) regardless of requested size", the nodes being the results "possibly
  truncated to a page window" and the edges the parallel sequence of node and cursor.
  The third argument is that maximum. A result that is no sequence cannot be wrapped.
\<close>

definition connectionResultsArray ::
  "paging \<Rightarrow> jsval \<Rightarrow> jsobj \<Rightarrow> nat \<Rightarrow> error + connection" where
  "connectionResultsArray pg results args maxPageSize =
     (case results of
        JArr xs ps \<Rightarrow>
          Inr \<lparr>nodes = take (pageSize args maxPageSize) xs,
               edges = map (\<lambda>n. (n, cursorOf pg args n)) (take (pageSize args maxPageSize) xs),
               pageInfo = pageInfoOf pg xs args maxPageSize\<rparr>
      | _ \<Rightarrow> Inl TypeError)"

text \<open>\<^verbatim>\<open>get.resolve\<close> and \<^verbatim>\<open>find.resolve\<close> of \<^verbatim>\<open>loadClass(className, schema)\<close>.\<close>

definition get_resolve ::
  "'w backend \<Rightarrow> string \<Rightarrow> jsobj \<Rightarrow> jsval \<Rightarrow> jsval \<Rightarrow> (jsval, 'w io) comp" where
  "get_resolve be className args context info =
     perform be (RunGet context info className (obj_get args ''objectId''))"

definition find_resolve ::
  "'w backend \<Rightarrow> paging \<Rightarrow> string \<Rightarrow> jsobj \<Rightarrow> jsval \<Rightarrow> jsval \<Rightarrow> (connection, 'w io) comp" where
  "find_resolve be pg className args context info =
     bindM (perform be (RunFind context info (JStr className) (JObj args) None)) (\<lambda>results.
     liftE (connectionResultsArray pg results args 100))"

text \<open>
  The resolver that \<^verbatim>\<open>getRelationField(fieldName, field, schema)\<close> installs.
  \<^verbatim>\<open>getGloballyUniqueId\<close> comes from \<^verbatim>\<open>../execute\<close> and is a parameter.
\<close>

definition relatedToQuery :: "jsval \<Rightarrow> jsval \<Rightarrow> string \<Rightarrow> jsval" where
  "relatedToQuery parentClassName parentObjectId fieldName =
     JObj [(''$relatedTo'',
            JObj [(''object'', JObj [(''__type'', JStr ''Pointer''),
                                     (''className'', parentClassName),
                                     (''objectId'', parentObjectId)]),
                  (''key'', JStr fieldName)])]"

text \<open>The body of \<^verbatim>\<open>results.forEach\<close>: \<^verbatim>\<open>result.id = getGloballyUniqueId(...)\<close>.\<close>

definition assignId :: "(jsval \<Rightarrow> jsval \<Rightarrow> jsval) \<Rightarrow> jsval \<Rightarrow> error + jsval" where
  "assignId getGloballyUniqueId result =
     (case js_get result ''className'' of
        Inl e \<Rightarrow> Inl e
      | Inr cn \<Rightarrow>
          (case js_get result ''objectId'' of
             Inl e \<Rightarrow> Inl e
           | Inr oid \<Rightarrow> js_set result ''id'' (getGloballyUniqueId cn oid)))"

fun assignIds :: "(jsval \<Rightarrow> jsval \<Rightarrow> jsval) \<Rightarrow> jsval list \<Rightarrow> error + jsval list" where
  "assignIds g [] = Inr []"
| "assignIds g (x # xs) =
     (case assignId g x of
        Inl e \<Rightarrow> Inl e
      | Inr x' \<Rightarrow> (case assignIds g xs of Inl e \<Rightarrow> Inl e | Inr xs' \<Rightarrow> Inr (x' # xs')))"

text \<open>\<^verbatim>\<open>results.forEach(...)\<close>: only an array has the method.\<close>

definition forEachAssignId :: "(jsval \<Rightarrow> jsval \<Rightarrow> jsval) \<Rightarrow> jsval \<Rightarrow> error + jsval" where
  "forEachAssignId g results =
     (case results of
        JArr xs ps \<Rightarrow> (case assignIds g xs of Inl e \<Rightarrow> Inl e | Inr xs' \<Rightarrow> Inr (JArr xs' ps))
      | _ \<Rightarrow> Inl TypeError)"

definition relation_resolve ::
  "'w backend \<Rightarrow> (jsval \<Rightarrow> jsval \<Rightarrow> jsval) \<Rightarrow> paging \<Rightarrow> string \<Rightarrow> jsval \<Rightarrow> jsobj \<Rightarrow> jsval
     \<Rightarrow> jsval \<Rightarrow> (connection, 'w io) comp" where
  "relation_resolve be getGloballyUniqueId pg fieldName parent args context info =
     bindM (liftE (js_get parent ''className'')) (\<lambda>parentClassName.
     bindM (liftE (js_get parent ''objectId'')) (\<lambda>parentObjectId.
     bindM (returnM (relatedToQuery parentClassName parentObjectId fieldName)) (\<lambda>query.
     bindM (returnM (AList.update ''redirectClassNameForKey'' (JStr fieldName) args)) (\<lambda>args1.
     bindM (perform be (RunFind context info parentClassName (JObj args1) (Some query)))
       (\<lambda>results.
     bindM (liftE (forEachAssignId getGloballyUniqueId results)) (\<lambda>results1.
     liftE (connectionResultsArray pg results1 args1 100)))))))"

section \<open>Generated types and the type cache\<close>

text \<open>
  Objects created with \<^verbatim>\<open>new\<close> and the object that \<^verbatim>\<open>loadClass\<close> returns live in a
  heap; an address is an index into it, and an allocation appends. Reference equality of
  two such objects is equality of their addresses.
\<close>

type_synonym addr = nat

text \<open>
  A type expression. \<open>TypeAt a\<close> is the \<^verbatim>\<open>GraphQLObjectType\<close> or
  \<^verbatim>\<open>GraphQLInputObjectType\<close> instance at address \<open>a\<close>; \<open>Primitive\<close> stands for what
  the mappers of \<^verbatim>\<open>../types\<close> return.
\<close>

datatype gqltype =
    GraphQLID
  | GraphQLString
  | GraphQLInt
  | GraphQLNonNull gqltype
  | GraphQLList gqltype
  | TypeAt addr
  | PageInfo
  | Primitive string

text \<open>
  The resolver closures, named by what they close over: the class name for the five root
  operations, the field name for the relation resolver, \<^verbatim>\<open>field.targetClass\<close> and the
  field name for the pointer resolver.
\<close>

datatype resolver =
    GetResolve string
  | FindResolve string
  | CreateResolve string
  | UpdateResolve string
  | DestroyResolve string
  | RelationResolve string
  | PointerResolve "string option" string

record field_desc =
  fd_name :: "string option"
  fd_type :: "gqltype option"
  fd_description :: "string option"
  fd_args :: "(string \<times> gqltype) list"
  fd_resolve :: "resolver option"

definition typeOnly :: "gqltype \<Rightarrow> field_desc" where
  "typeOnly t = \<lparr>fd_name = None, fd_type = Some t, fd_description = None, fd_args = [],
                 fd_resolve = None\<rparr>"

text \<open>\<^verbatim>\<open>type\<close>, \<^verbatim>\<open>inputType\<close> and \<^verbatim>\<open>queryType\<close> of \<^verbatim>\<open>../types\<close>; \<open>None\<close> is a falsy result.\<close>

record type_mappers =
  tm_type :: "field_def \<Rightarrow> gqltype option"
  tm_inputType :: "field_def \<Rightarrow> gqltype option"
  tm_queryType :: "field_def \<Rightarrow> gqltype option"

datatype console_entry = Warn string | Trace

text \<open>The six memo properties of a \<^verbatim>\<open>ParseClass\<close> instance.\<close>

datatype slot =
    objectType
  | updateInputObjectType
  | inputObjectType
  | queryInputObjectType
  | queryResultObjectType
  | mutationResultObjectType

record parse_class =
  pc_className :: string
  pc_displayName :: string
  pc_schema :: schema
  pc_class :: schema_entry
  pc_memo :: "(slot \<times> addr) list"

datatype type_kind = ObjectType | InputObjectType

text \<open>
  The \<^verbatim>\<open>fields\<close> of a type configuration: one of the four thunks over a
  \<^verbatim>\<open>ParseClass\<close> instance, the thunk of an edge type over its object type, or a literal.
\<close>

datatype fields_src =
    ObjectFields addr
  | QueryFields addr
  | InputFields addr
  | UpdateFields addr
  | EdgeFields addr
  | FixedFields "(string \<times> field_desc) list"

record type_obj =
  t_kind :: type_kind
  t_name :: string
  t_description :: "string option"
  t_fields :: fields_src

datatype heap_obj = ParseClassObj parse_class | TypeObj type_obj | PlainObj

record cstate =
  cs_heap :: "heap_obj list"
  cs_cache :: "(string \<times> addr) list"
  cs_console :: "console_entry list"

definition deref :: "cstate \<Rightarrow> addr \<Rightarrow> heap_obj option" where
  "deref st a = (if a < length (cs_heap st) then Some (cs_heap st ! a) else None)"

definition alloc :: "heap_obj \<Rightarrow> (addr, cstate) comp" where
  "alloc obj = (\<lambda>st. (Inr (length (cs_heap st)), st\<lparr>cs_heap := cs_heap st @ [obj]\<rparr>))"

text \<open>Calling a \<^verbatim>\<open>ParseClass\<close> method on anything else raises a TypeError.\<close>

definition readPC :: "addr \<Rightarrow> (parse_class, cstate) comp" where
  "readPC c = (\<lambda>st. case deref st c of
                      Some (ParseClassObj pc) \<Rightarrow> (Inr pc, st)
                    | _ \<Rightarrow> (Inl TypeError, st))"

definition writePC :: "addr \<Rightarrow> parse_class \<Rightarrow> (unit, cstate) comp" where
  "writePC c pc = (\<lambda>st. (Inr (), st\<lparr>cs_heap := (cs_heap st)[c := ParseClassObj pc]\<rparr>))"

definition consoleLog :: "console_entry list \<Rightarrow> (unit, cstate) comp" where
  "consoleLog es = (\<lambda>st. (Inr (), st\<lparr>cs_console := cs_console st @ es\<rparr>))"

subsection \<open>The field mappers without state\<close>

definition handleIdField :: "string \<Rightarrow> gqltype option" where
  "handleIdField fieldName =
     (if fieldName = ''objectId'' \<or> fieldName = ''id''
      then Some (GraphQLNonNull GraphQLID) else None)"

text \<open>\<^verbatim>\<open>a || b\<close> on results that are a type or falsy.\<close>

definition orElse :: "'a option \<Rightarrow> 'a option \<Rightarrow> 'a option" where
  "orElse a b = (case a of Some x \<Rightarrow> Some x | None \<Rightarrow> b)"

definition getFieldType :: "field_def \<Rightarrow> string" where
  "getFieldType field =
     (if ftype field = ''Pointer''
      then ''Pointer<'' @ (case targetClass field of None \<Rightarrow> ''undefined'' | Some t \<Rightarrow> t) @ ''>''
      else ftype field)"

definition graphQLInputField :: "type_mappers \<Rightarrow> string \<Rightarrow> field_def \<Rightarrow> field_desc option" where
  "graphQLInputField tm fieldName field =
     (case orElse (handleIdField fieldName) (tm_inputType tm field) of
        None \<Rightarrow> None
      | Some gQLType \<Rightarrow>
          Some \<lparr>fd_name = Some fieldName, fd_type = Some gQLType,
                fd_description =
                  Some (''Setter for '' @ fieldName @ '' ('' @ getFieldType field @ '')''),
                fd_args = [], fd_resolve = None\<rparr>)"

subsection \<open>The class \<^verbatim>\<open>ParseClass\<close>\<close>

text \<open>
  The constructor. \<^verbatim>\<open>className.indexOf('_') === 0\<close> holds when the name starts with an
  underscore, and \<^verbatim>\<open>slice(1)\<close> drops it.
\<close>

definition displayNameOf :: "string \<Rightarrow> string" where
  "displayNameOf className =
     (case className of
        [] \<Rightarrow> className
      | c # cs \<Rightarrow> if c = CHR ''_'' then cs else className)"

text \<open>\<^verbatim>\<open>console.warn(...)\<close> followed by \<^verbatim>\<open>console.trace()\<close>, in the constructor.\<close>

definition missingClassWarning :: "string \<Rightarrow> console_entry list" where
  "missingClassWarning className =
     [Warn (''Attempting to load a class ('' @ className @ '') that doesn't exist...''), Trace]"

definition ParseClass_new :: "string \<Rightarrow> schema \<Rightarrow> (addr, cstate) comp" where
  "ParseClass_new className sch =
     bindM (alloc (ParseClassObj
              \<lparr>pc_className = className, pc_displayName = displayNameOf className,
               pc_schema = sch, pc_class = schema_class sch className, pc_memo = []\<rparr>)) (\<lambda>this.
     bindM (if schema_class sch className = Undeclared
            then consoleLog (missingClassWarning className)
            else returnM ()) (\<lambda>_.
     returnM this))"

text \<open>
  The pattern of the six \<^verbatim>\<open>graphQL...Type()\<close> methods:
  \<^verbatim>\<open>if (!this.p) { this.p = new T(this.config()); } return this.p;\<close>
\<close>

definition memoType ::
  "slot \<Rightarrow> (addr \<Rightarrow> (type_obj, cstate) comp) \<Rightarrow> addr \<Rightarrow> (addr, cstate) comp" where
  "memoType p config this =
     bindM (readPC this) (\<lambda>pc.
     case map_of (pc_memo pc) p of
       Some t \<Rightarrow> returnM t
     | None \<Rightarrow>
         bindM (config this) (\<lambda>cfg.
         bindM (alloc (TypeObj cfg)) (\<lambda>t.
         bindM (readPC this) (\<lambda>pc1.
         bindM (writePC this (pc1\<lparr>pc_memo := AList.update p t (pc_memo pc1)\<rparr>)) (\<lambda>_.
         returnM t)))))"

definition graphQLConfig :: "addr \<Rightarrow> (type_obj, cstate) comp" where
  "graphQLConfig this =
     bindM (readPC this) (\<lambda>pc.
     returnM \<lparr>t_kind = ObjectType, t_name = pc_displayName pc,
              t_description = Some (''Parse Class '' @ pc_className pc),
              t_fields = ObjectFields this\<rparr>)"

definition graphQLQueryConfig :: "addr \<Rightarrow> (type_obj, cstate) comp" where
  "graphQLQueryConfig this =
     bindM (readPC this) (\<lambda>pc.
     returnM \<lparr>t_kind = InputObjectType, t_name = pc_displayName pc @ ''Query'',
              t_description = Some (''Parse Class '' @ pc_className pc @ '' Query''),
              t_fields = QueryFields this\<rparr>)"

definition graphQLInputConfig :: "addr \<Rightarrow> (type_obj, cstate) comp" where
  "graphQLInputConfig this =
     bindM (readPC this) (\<lambda>pc.
     returnM \<lparr>t_kind = InputObjectType, t_name = ''Add'' @ pc_displayName pc @ ''Input'',
              t_description = Some (''Parse Class '' @ pc_className pc @ '' Input''),
              t_fields = InputFields this\<rparr>)"

definition graphQLUpdateInputConfig :: "addr \<Rightarrow> (type_obj, cstate) comp" where
  "graphQLUpdateInputConfig this =
     bindM (readPC this) (\<lambda>pc.
     returnM \<lparr>t_kind = InputObjectType, t_name = ''Update'' @ pc_displayName pc @ ''Input'',
              t_description = Some (''Parse Class '' @ pc_className pc @ '' Update''),
              t_fields = UpdateFields this\<rparr>)"

definition graphQLObjectType :: "addr \<Rightarrow> (addr, cstate) comp" where
  "graphQLObjectType = memoType objectType graphQLConfig"

definition graphQLQueryResultConfig :: "addr \<Rightarrow> (type_obj, cstate) comp" where
  "graphQLQueryResultConfig this =
     bindM (graphQLObjectType this) (\<lambda>ot.
     bindM (readPC this) (\<lambda>pc.
     bindM (alloc (TypeObj \<lparr>t_kind = ObjectType, t_name = pc_displayName pc @ ''Edge'',
                            t_description = None, t_fields = EdgeFields ot\<rparr>)) (\<lambda>edge.
     returnM \<lparr>t_kind = ObjectType, t_name = pc_displayName pc @ ''QueryConnection'',
              t_description = None,
              t_fields = FixedFields
                [(''nodes'', typeOnly (GraphQLList (TypeAt ot))),
                 (''edges'', typeOnly (GraphQLList (TypeAt edge))),
                 (''pageInfo'', typeOnly PageInfo)]\<rparr>)))"

definition graphQLMutationResultConfig :: "addr \<Rightarrow> (type_obj, cstate) comp" where
  "graphQLMutationResultConfig this =
     bindM (graphQLObjectType this) (\<lambda>ot.
     bindM (readPC this) (\<lambda>pc.
     returnM \<lparr>t_kind = ObjectType, t_name = pc_displayName pc @ ''MutationCompletePayload'',
              t_description = None,
              t_fields = FixedFields
                [(''object'', typeOnly (TypeAt ot)),
                 (''clientMutationId'', typeOnly GraphQLString)]\<rparr>))"

definition graphQLUpdateInputObjectType :: "addr \<Rightarrow> (addr, cstate) comp" where
  "graphQLUpdateInputObjectType = memoType updateInputObjectType graphQLUpdateInputConfig"

definition graphQLInputObjectType :: "addr \<Rightarrow> (addr, cstate) comp" where
  "graphQLInputObjectType = memoType inputObjectType graphQLInputConfig"

definition graphQLQueryInputObjectType :: "addr \<Rightarrow> (addr, cstate) comp" where
  "graphQLQueryInputObjectType = memoType queryInputObjectType graphQLQueryConfig"

definition graphQLQueryResultType :: "addr \<Rightarrow> (addr, cstate) comp" where
  "graphQLQueryResultType = memoType queryResultObjectType graphQLQueryResultConfig"

definition graphQLMutationResultType :: "addr \<Rightarrow> (addr, cstate) comp" where
  "graphQLMutationResultType = memoType mutationResultObjectType graphQLMutationResultConfig"

subsection \<open>The type cache and \<^verbatim>\<open>loadClass\<close>\<close>

text \<open>
  Modelled from the spec: \<^verbatim>\<open>getOrElse(key, factory)\<close> is imported from
  \<^verbatim>\<open>../typesCache\<close>, which is not among the sources. The spec's contract: "On first call
  for a class name, invokes factory() exactly once, stores the result keyed by class name,
  and returns it; on every subsequent call [...] returns the already-cached" result.
\<close>

definition getOrElse :: "string \<Rightarrow> (addr, cstate) comp \<Rightarrow> (addr, cstate) comp" where
  "getOrElse key factory =
     (\<lambda>st. case map_of (cs_cache st) key of
             Some c \<Rightarrow> (Inr c, st)
           | None \<Rightarrow>
               (case factory st of
                  (Inl e, st1) \<Rightarrow> (Inl e, st1)
                | (Inr c, st1) \<Rightarrow> (Inr c, st1\<lparr>cs_cache := cs_cache st1 @ [(key, c)]\<rparr>)))"

text \<open>
  What \<^verbatim>\<open>loadClass\<close> returns: an object literal, built by every call, at address
  \<open>b_self\<close>. Of \<^verbatim>\<open>create\<close>, the property \<^verbatim>\<open>fields: objectType.fields\<close> is left out.
\<close>

record type_bundle =
  b_self :: addr
  b_displayName :: string
  b_get :: field_desc
  b_find :: field_desc
  b_create :: field_desc
  b_update :: field_desc
  b_destroy :: field_desc
  b_objectType :: addr
  b_inputType :: addr
  b_updateType :: addr
  b_queryType :: addr
  b_queryResultType :: addr
  b_mutationResultType :: addr
  b_parseClass :: addr

definition destroyInputConfig :: "string \<Rightarrow> type_obj" where
  "destroyInputConfig displayName =
     \<lparr>t_kind = InputObjectType, t_name = ''Destroy'' @ displayName @ ''Input'',
      t_description = None,
      t_fields = FixedFields
        [(''id'', (typeOnly GraphQLID)
                    \<lparr>fd_description := Some ''Use either the global id or objectId''\<rparr>),
         (''objectId'', (typeOnly GraphQLID)
                    \<lparr>fd_description := Some ''Use either the global id or objectId''\<rparr>),
         (''clientMutationId'', typeOnly GraphQLString)]\<rparr>"

definition loadClass :: "string \<Rightarrow> schema \<Rightarrow> (type_bundle, cstate) comp" where
  "loadClass className sch =
     bindM (getOrElse className (ParseClass_new className sch)) (\<lambda>c.
     bindM (graphQLObjectType c) (\<lambda>objectType.
     bindM (graphQLInputObjectType c) (\<lambda>inputType.
     bindM (graphQLUpdateInputObjectType c) (\<lambda>updateType.
     bindM (graphQLQueryInputObjectType c) (\<lambda>queryType.
     bindM (graphQLQueryResultType c) (\<lambda>queryResultType.
     bindM (graphQLMutationResultType c) (\<lambda>mutationResultType.
     bindM (readPC c) (\<lambda>pc.
     bindM (alloc (TypeObj (destroyInputConfig (pc_displayName pc)))) (\<lambda>destroyInput.
     bindM (alloc PlainObj) (\<lambda>self.
     returnM
       \<lparr>b_self = self,
        b_displayName = pc_displayName pc,
        b_get =
          \<lparr>fd_name = None, fd_type = Some (TypeAt objectType),
           fd_description =
             Some (''Use this endpoint to get or query '' @ className @ '' objects''),
           fd_args = [(''objectId'', GraphQLNonNull GraphQLID)],
           fd_resolve = Some (GetResolve className)\<rparr>,
        b_find =
          \<lparr>fd_name = None, fd_type = Some (TypeAt queryResultType),
           fd_description =
             Some (''Use this endpoint to get or query '' @ className @ '' objects''),
           fd_args = [(''where'', TypeAt queryType), (''first'', GraphQLInt),
                      (''last'', GraphQLInt), (''after'', GraphQLString),
                      (''before'', GraphQLString)],
           fd_resolve = Some (FindResolve className)\<rparr>,
        b_create =
          \<lparr>fd_name = None, fd_type = Some (TypeAt mutationResultType),
           fd_description = Some (''use this method to create a new '' @ className),
           fd_args = [(''input'', TypeAt inputType)],
           fd_resolve = Some (CreateResolve className)\<rparr>,
        b_update =
          \<lparr>fd_name = None, fd_type = Some (TypeAt mutationResultType),
           fd_description = Some (''use this method to update an existing '' @ className),
           fd_args = [(''input'', TypeAt updateType)],
           fd_resolve = Some (UpdateResolve className)\<rparr>,
        b_destroy =
          \<lparr>fd_name = None, fd_type = Some (TypeAt mutationResultType),
           fd_description =
             Some (''use this method to update delete an existing '' @ className),
           fd_args = [(''input'', TypeAt destroyInput)],
           fd_resolve = Some (DestroyResolve className)\<rparr>,
        b_objectType = objectType,
        b_inputType = inputType,
        b_updateType = updateType,
        b_queryType = queryType,
        b_queryResultType = queryResultType,
        b_mutationResultType = mutationResultType,
        b_parseClass = c\<rparr>))))))))))"

subsection \<open>The field mappers that load classes\<close>

text \<open>
  \<^verbatim>\<open>loadClass(field.targetClass, schema)\<close>: without a target class the constructor
  raises at \<^verbatim>\<open>this.className.indexOf\<close>.
\<close>

definition loadTargetClass :: "field_def \<Rightarrow> schema \<Rightarrow> (type_bundle, cstate) comp" where
  "loadTargetClass field sch =
     (case targetClass field of
        None \<Rightarrow> throwM TypeError
      | Some className \<Rightarrow> loadClass className sch)"

definition getRelationField ::
  "string \<Rightarrow> field_def \<Rightarrow> schema \<Rightarrow> (field_desc option, cstate) comp" where
  "getRelationField fieldName field sch =
     bindM (loadTargetClass field sch) (\<lambda>b.
     returnM (Some ((b_find b)\<lparr>fd_resolve := Some (RelationResolve fieldName)\<rparr>)))"

definition graphQLField ::
  "type_mappers \<Rightarrow> string \<Rightarrow> field_def \<Rightarrow> schema \<Rightarrow> (field_desc option, cstate) comp" where
  "graphQLField tm fieldName field sch =
     (if ftype field = ''Relation'' then getRelationField fieldName field sch
      else
        let gQLType = orElse (handleIdField fieldName) (tm_type tm field);
            description = ''Accessor for '' @ fieldName @ '' ('' @ getFieldType field @ '')''
        in if ftype field = ''Pointer'' then
             bindM (loadTargetClass field sch) (\<lambda>b.
             returnM (Some \<lparr>fd_name = Some fieldName, fd_type = Some (TypeAt (b_objectType b)),
                            fd_description = Some description, fd_args = [],
                            fd_resolve = Some (PointerResolve (targetClass field) fieldName)\<rparr>))
           else
             returnM (Some \<lparr>fd_name = Some fieldName, fd_type = gQLType,
                            fd_description = Some description, fd_args = [],
                            fd_resolve = None\<rparr>))"

definition graphQLQueryField ::
  "type_mappers \<Rightarrow> string \<Rightarrow> field_def \<Rightarrow> schema \<Rightarrow> (field_desc option, cstate) comp" where
  "graphQLQueryField tm fieldName field sch =
     (case orElse (handleIdField fieldName) (tm_queryType tm field) of
        None \<Rightarrow> returnM None
      | Some gQLType \<Rightarrow>
          let description = ''Query for '' @ fieldName @ '' ('' @ ftype field @ '')''
          in if ftype field = ''Pointer'' then
               bindM (loadTargetClass field sch) (\<lambda>b.
               returnM (Some \<lparr>fd_name = Some fieldName, fd_type = Some (TypeAt (b_queryType b)),
                              fd_description = Some description, fd_args = [],
                              fd_resolve = None\<rparr>))
             else
               returnM (Some \<lparr>fd_name = Some fieldName, fd_type = Some gQLType,
                              fd_description = Some description, fd_args = [],
                              fd_resolve = None\<rparr>))"

subsection \<open>\<^verbatim>\<open>buildFields\<close> and the field thunks\<close>

definition reservedFieldNames :: "string list" where
  "reservedFieldNames = [''objectId'', ''createdAt'', ''updatedAt'']"

type_synonym mapper = "string \<Rightarrow> field_def \<Rightarrow> schema \<Rightarrow> (field_desc option, cstate) comp"

text \<open>The \<^verbatim>\<open>reduce\<close> over \<^verbatim>\<open>Object.keys(fields)\<close>, \<open>memo\<close> being the accumulator.\<close>

fun reduceFields ::
  "mapper \<Rightarrow> bool \<Rightarrow> schema \<Rightarrow> (string \<times> field_def) list \<Rightarrow> (string \<times> field_desc) list
     \<Rightarrow> cstate \<Rightarrow> (error + (string \<times> field_desc) list) \<times> cstate" where
  "reduceFields mapper filterReserved sch [] memo st = (Inr memo, st)"
| "reduceFields mapper filterReserved sch ((fieldName, field) # rest) memo st =
     (if filterReserved \<and> fieldName \<in> set reservedFieldNames
      then reduceFields mapper filterReserved sch rest memo st
      else (case mapper fieldName field sch st of
              (Inl e, st1) \<Rightarrow> (Inl e, st1)
            | (Inr None, st1) \<Rightarrow> reduceFields mapper filterReserved sch rest memo st1
            | (Inr (Some gQLField), st1) \<Rightarrow>
                reduceFields mapper filterReserved sch rest
                  (AList.update fieldName gQLField memo) st1))"

text \<open>The warning of \<^verbatim>\<open>buildFields\<close> and the two fields it seeds.\<close>

definition missingFieldsWarning :: "string \<Rightarrow> console_entry list" where
  "missingFieldsWarning className =
     [Warn (''Attempting to build fields a class ('' @ className @ '') that doesn't exist...''),
      Trace]"

definition idField :: field_desc where
  "idField = (typeOnly (GraphQLNonNull GraphQLID))
     \<lparr>fd_description := Some ''A globaly unique identifier.''\<rparr>"

definition sessionTokenField :: field_desc where
  "sessionTokenField = (typeOnly GraphQLString)
     \<lparr>fd_description := Some ''The session token for the user, set only when it makes sense.''\<rparr>"

text \<open>
  \<^verbatim>\<open>buildFields(mapper, filterReserved, isObject)\<close>; \<open>None\<close> is the \<^verbatim>\<open>undefined\<close> of
  the bare \<^verbatim>\<open>return\<close>. The keys of \<^verbatim>\<open>this.class.fields\<close> are visited once each;
  when \<^verbatim>\<open>this.class\<close> is truthy and no class, \<^verbatim>\<open>Object.keys(undefined)\<close> raises.
\<close>

definition buildFields ::
  "mapper \<Rightarrow> bool \<Rightarrow> bool \<Rightarrow> addr \<Rightarrow> ((string \<times> field_desc) list option, cstate) comp" where
  "buildFields mapper filterReserved isObject this =
     bindM (readPC this) (\<lambda>pc.
     case pc_class pc of
       Undeclared \<Rightarrow>
         bindM (consoleLog (missingFieldsWarning (pc_className pc))) (\<lambda>_.
         returnM None)
     | NotAClass \<Rightarrow> throwM TypeError
     | Declared cls \<Rightarrow>
         bindM (returnM
                  ((if isObject then [(''id'', idField)] else [])
                   @ (if pc_className pc = ''_User''
                      then [(''sessionToken'', sessionTokenField)] else []))) (\<lambda>initial.
         bindM (reduceFields mapper filterReserved (pc_schema pc)
                  (AList.clearjunk (class_fields cls)) initial) (\<lambda>memo.
         returnM (Some memo))))"

text \<open>
  The \<^verbatim>\<open>fields\<close> thunks of the four configurations. Deleting or assigning a property
  of the \<^verbatim>\<open>undefined\<close> that \<^verbatim>\<open>buildFields\<close> returns raises a TypeError.
\<close>

definition objectFields :: "type_mappers \<Rightarrow> addr \<Rightarrow> ((string \<times> field_desc) list option, cstate) comp"
  where
  "objectFields tm this = buildFields (graphQLField tm) False True this"

definition queryFields :: "type_mappers \<Rightarrow> addr \<Rightarrow> ((string \<times> field_desc) list option, cstate) comp"
  where
  "queryFields tm this =
     bindM (buildFields (graphQLQueryField tm) False False this) (\<lambda>fs.
     case fs of
       None \<Rightarrow> throwM TypeError
     | Some m \<Rightarrow> returnM (Some (AList.delete ''id'' (AList.delete ''objectId'' m))))"

definition inputMapper :: "type_mappers \<Rightarrow> mapper" where
  "inputMapper tm fieldName field sch = returnM (graphQLInputField tm fieldName field)"

definition inputFields :: "type_mappers \<Rightarrow> addr \<Rightarrow> ((string \<times> field_desc) list option, cstate) comp"
  where
  "inputFields tm this =
     bindM (buildFields (inputMapper tm) True False this) (\<lambda>fs.
     case fs of
       None \<Rightarrow> throwM TypeError
     | Some m \<Rightarrow> returnM (Some (AList.update ''clientMutationId'' (typeOnly GraphQLString) m)))"

definition updateFields :: "type_mappers \<Rightarrow> addr \<Rightarrow> ((string \<times> field_desc) list option, cstate) comp"
  where
  "updateFields tm this =
     bindM (buildFields (inputMapper tm) True False this) (\<lambda>fs.
     case fs of
       None \<Rightarrow> throwM TypeError
     | Some m \<Rightarrow>
         returnM (Some (AList.update ''clientMutationId'' (typeOnly GraphQLString)
                         (AList.update ''objectId'' (typeOnly GraphQLID)
                           (AList.update ''id'' (typeOnly GraphQLID) m)))))"

text \<open>Asking the type at an address for its fields runs its thunk.\<close>

definition getFields :: "type_mappers \<Rightarrow> addr \<Rightarrow> ((string \<times> field_desc) list option, cstate) comp"
  where
  "getFields tm t =
     (\<lambda>st. case deref st t of
             Some (TypeObj ty) \<Rightarrow>
               (case t_fields ty of
                  ObjectFields this \<Rightarrow> objectFields tm this st
                | QueryFields this \<Rightarrow> queryFields tm this st
                | InputFields this \<Rightarrow> inputFields tm this st
                | UpdateFields this \<Rightarrow> updateFields tm this st
                | EdgeFields ot \<Rightarrow>
                    (Inr (Some [(''node'', typeOnly (TypeAt ot)),
                                (''cursor'', typeOnly GraphQLString)]), st)
                | FixedFields fs \<Rightarrow> (Inr (Some fs), st))
           | _ \<Rightarrow> (Inl TypeError, st))"

subsection \<open>The root field maps\<close>

fun reduceQueryFields ::
  "schema \<Rightarrow> string list \<Rightarrow> (string \<times> field_desc) list
     \<Rightarrow> cstate \<Rightarrow> (error + (string \<times> field_desc) list) \<times> cstate" where
  "reduceQueryFields sch [] fs st = (Inr fs, st)"
| "reduceQueryFields sch (className # rest) fs st =
     (case loadClass className sch st of
        (Inl e, st1) \<Rightarrow> (Inl e, st1)
      | (Inr b, st1) \<Rightarrow>
          reduceQueryFields sch rest
            (AList.update (''find'' @ b_displayName b) (b_find b)
               (AList.update (b_displayName b) (b_get b) fs)) st1)"

definition getParseClassQueryFields :: "schema \<Rightarrow> ((string \<times> field_desc) list, cstate) comp" where
  "getParseClassQueryFields sch = reduceQueryFields sch (classNames sch) []"

fun reduceMutationFields ::
  "schema \<Rightarrow> string list \<Rightarrow> (string \<times> field_desc) list
     \<Rightarrow> cstate \<Rightarrow> (error + (string \<times> field_desc) list) \<times> cstate" where
  "reduceMutationFields sch [] fs st = (Inr fs, st)"
| "reduceMutationFields sch (className # rest) fs st =
     (case loadClass className sch st of
        (Inl e, st1) \<Rightarrow> (Inl e, st1)
      | (Inr b, st1) \<Rightarrow>
          reduceMutationFields sch rest
            (AList.update (''destroy'' @ b_displayName b) (b_destroy b)
               (AList.update (''update'' @ b_displayName b) (b_update b)
                  (AList.update (''add'' @ b_displayName b) (b_create b) fs))) st1)"

definition getParseClassMutationFields ::
  "schema \<Rightarrow> ((string \<times> field_desc) list, cstate) comp" where
  "getParseClassMutationFields sch = reduceMutationFields sch (classNames sch) []"

definition emptyState :: cstate where
  "emptyState = \<lparr>cs_heap = [], cs_cache = [], cs_console = []\<rparr>"

section \<open>Auxiliary definitions for the proofs\<close>

text \<open>A value that is neither an object nor an array.\<close>

fun is_primitive :: "jsval \<Rightarrow> bool" where
  "is_primitive (JObj kvs) = False"
| "is_primitive (JArr xs ps) = False"
| "is_primitive v = True"

text \<open>
  What \<^verbatim>\<open>create.resolve\<close> does once \<^verbatim>\<open>rest.create\<close> has answered \<open>res\<close>
  (\<open>create_resolve_unfold\<close> below shows that this is the rest of the resolver).
\<close>

definition create_tail ::
  "'w backend \<Rightarrow> string \<Rightarrow> jsval \<Rightarrow> jsval \<Rightarrow> jsval \<Rightarrow> jsval \<Rightarrow> jsval \<Rightarrow> jsval
     \<Rightarrow> (mutation_result, 'w io) comp" where
  "create_tail be className context info config auth res cmid =
     bindM (session_auth be className context config auth res) (\<lambda>auth'.
     bindM (liftE (js_get res ''response'')) (\<lambda>response.
     bindM (liftE (js_get response ''objectId'')) (\<lambda>objectId.
     bindM (perform be (RunGet (JObj [(''auth'', auth'), (''config'', config)])
                          info className objectId)) (\<lambda>obj.
     returnM \<lparr>object = obj, clientMutationId = cmid\<rparr>))))"

text \<open>
  How a result \<open>x'\<close> of the relation resolver relates to the object \<open>x\<close> that the find
  returned: its \<^verbatim>\<open>id\<close> is the global identifier of \<open>x\<close>'s class name and objectId, and
  every other property is as in \<open>x\<close>.
\<close>

definition idAssigned :: "(jsval \<Rightarrow> jsval \<Rightarrow> jsval) \<Rightarrow> jsval \<Rightarrow> jsval \<Rightarrow> bool" where
  "idAssigned g x x' \<longleftrightarrow>
     (\<exists>cn oid. js_get x ''className'' = Inr cn \<and> js_get x ''objectId'' = Inr oid
        \<and> js_get x' ''id'' = Inr (g cn oid)
        \<and> js_get x' ''className'' = Inr cn \<and> js_get x' ''objectId'' = Inr oid
        \<and> (\<forall>k. k \<noteq> ''id'' \<longrightarrow> js_get x' k = js_get x k))"

subsection \<open>Invariants of a compilation pass\<close>

text \<open>
  How one heap object evolves during a pass: a \<^verbatim>\<open>ParseClass\<close> instance keeps its
  class name, display name, schema and class, and a memo property that is set keeps its
  value; any other object does not change.
\<close>

definition stable :: "heap_obj \<Rightarrow> heap_obj \<Rightarrow> bool" where
  "stable obj obj' =
     (case obj of
        ParseClassObj pc \<Rightarrow>
          (\<exists>pc'. obj' = ParseClassObj pc'
             \<and> pc_className pc' = pc_className pc
             \<and> pc_displayName pc' = pc_displayName pc
             \<and> pc_schema pc' = pc_schema pc
             \<and> pc_class pc' = pc_class pc
             \<and> (\<forall>p t. map_of (pc_memo pc) p = Some t \<longrightarrow> map_of (pc_memo pc') p = Some t))
      | _ \<Rightarrow> obj' = obj)"

text \<open>One state evolves into another: the heap grows, its objects evolve as above, and the
  cache keeps its entries.\<close>

definition steady :: "cstate \<Rightarrow> cstate \<Rightarrow> bool" where
  "steady st st' \<longleftrightarrow>
     length (cs_heap st) \<le> length (cs_heap st')
   \<and> (\<forall>a < length (cs_heap st). stable (cs_heap st ! a) (cs_heap st' ! a))
   \<and> (\<forall>k c. map_of (cs_cache st) k = Some c \<longrightarrow> map_of (cs_cache st') k = Some c)"

text \<open>
  The invariant of the cache: every entry leads to a \<^verbatim>\<open>ParseClass\<close> instance of that
  class name, and every \<^verbatim>\<open>ParseClass\<close> instance in the heap is the cached one of its
  class name.
\<close>

definition consistent :: "cstate \<Rightarrow> bool" where
  "consistent st \<longleftrightarrow>
     (\<forall>k c. map_of (cs_cache st) k = Some c
        \<longrightarrow> (\<exists>pc. deref st c = Some (ParseClassObj pc) \<and> pc_className pc = k))
   \<and> (\<forall>a pc. deref st a = Some (ParseClassObj pc)
        \<longrightarrow> map_of (cs_cache st) (pc_className pc) = Some a)"

text \<open>A step that is steady and preserves the invariant.\<close>

definition good :: "cstate \<Rightarrow> cstate \<Rightarrow> bool" where
  "good st st' \<longleftrightarrow> steady st st' \<and> (consistent st \<longrightarrow> consistent st')"

text \<open>
  What \<open>memoType\<close> needs of a configuration method: on a \<^verbatim>\<open>ParseClass\<close> instance
  it returns, by a good step that logs nothing, and leaves the memo properties in \<open>Q\<close>
  as they are.
\<close>

definition cfg_ok :: "slot set \<Rightarrow> (addr \<Rightarrow> (type_obj, cstate) comp) \<Rightarrow> addr \<Rightarrow> bool" where
  "cfg_ok Q config this \<longleftrightarrow>
     (\<forall>st pc. deref st this = Some (ParseClassObj pc)
        \<longrightarrow> (\<exists>ty st1 pc1. config this st = (Inr ty, st1) \<and> good st st1
               \<and> cs_console st1 = cs_console st
               \<and> deref st1 this = Some (ParseClassObj pc1)
               \<and> (\<forall>q\<in>Q. map_of (pc_memo pc1) q = map_of (pc_memo pc) q)))"

text \<open>The cache and the memo properties hold what the bundle \<open>b\<close> reports.\<close>

definition loaded :: "cstate \<Rightarrow> string \<Rightarrow> type_bundle \<Rightarrow> bool" where
  "loaded st cn b \<longleftrightarrow>
     map_of (cs_cache st) cn = Some (b_parseClass b)
   \<and> (\<exists>pc. deref st (b_parseClass b) = Some (ParseClassObj pc)
        \<and> pc_className pc = cn
        \<and> pc_displayName pc = b_displayName b
        \<and> map_of (pc_memo pc) objectType = Some (b_objectType b)
        \<and> map_of (pc_memo pc) inputObjectType = Some (b_inputType b)
        \<and> map_of (pc_memo pc) updateInputObjectType = Some (b_updateType b)
        \<and> map_of (pc_memo pc) queryInputObjectType = Some (b_queryType b)
        \<and> map_of (pc_memo pc) queryResultObjectType = Some (b_queryResultType b)
        \<and> map_of (pc_memo pc) mutationResultObjectType = Some (b_mutationResultType b))"

text \<open>From a consistent state, the step is steady and ends in a consistent state.\<close>

definition keeps :: "cstate \<Rightarrow> cstate \<Rightarrow> bool" where
  "keeps st st' \<longleftrightarrow> (consistent st \<longrightarrow> steady st st' \<and> consistent st')"

text \<open>
  The steps of a compilation pass: a call of \<^verbatim>\<open>loadClass\<close>, or a type being asked for
  its fields (which runs the mappers, and through them \<^verbatim>\<open>loadClass\<close>).
\<close>

datatype pass_step = LoadClass string schema | GetFields addr

fun runStep :: "type_mappers \<Rightarrow> pass_step \<Rightarrow> cstate \<Rightarrow> cstate" where
  "runStep tm (LoadClass className sch) st = snd (loadClass className sch st)"
| "runStep tm (GetFields t) st = snd (getFields tm t st)"

definition runPass :: "type_mappers \<Rightarrow> pass_step list \<Rightarrow> cstate \<Rightarrow> cstate" where
  "runPass tm steps st = fold (runStep tm) steps st"

text \<open>The addresses of all \<^verbatim>\<open>ParseClass\<close> instances of a class name: one for each
  run of the factory \<^verbatim>\<open>() => new ParseClass(className, schema)\<close>.\<close>

definition parseClassesOf :: "string \<Rightarrow> cstate \<Rightarrow> addr list" where
  "parseClassesOf className st =
     filter (\<lambda>a. case cs_heap st ! a of
                    ParseClassObj pc \<Rightarrow> pc_className pc = className
                  | _ \<Rightarrow> False)
            [0..<length (cs_heap st)]"

section \<open>A small storage backend for running the resolvers\<close>

text \<open>
  An in-memory stand-in for the collaborators: the world maps an objectId to the stored
  object. It serves to evaluate the resolvers on concrete requests.
\<close>

definition demo_parseID :: "jsval \<Rightarrow> error + jsval" where
  "demo_parseID v =
     (if v = JStr ''UG9zdDo6YTE=''
      then Inr (JObj [(''className'', JStr ''Post''), (''objectId'', JStr ''a1'')])
      else Inl (Thrown (JStr ''Invalid ID'')))"

definition demo_stored :: "string \<Rightarrow> string \<Rightarrow> jsval \<Rightarrow> jsval" where
  "demo_stored cn i input =
     (case input of
        JObj kvs \<Rightarrow> JObj ((''className'', JStr cn) # (''objectId'', JStr i) # kvs)
      | _ \<Rightarrow> JObj [(''className'', JStr cn), (''objectId'', JStr i)])"

definition demo_not_found :: error where
  "demo_not_found = Thrown (JStr ''Object not found.'')"

fun demo_backend :: "call \<Rightarrow> jsobj \<Rightarrow> (error + jsval) \<times> jsobj" where
  "demo_backend (RunGet ctx info cn oid) w =
     (case oid of
        JStr i \<Rightarrow> (case map_of w i of
                     Some obj \<Rightarrow> (Inr obj, w)
                   | None \<Rightarrow> (Inl demo_not_found, w))
      | _ \<Rightarrow> (Inl demo_not_found, w))"
| "demo_backend (RunFind ctx info cn args q) w = (Inr (JArr (map snd w) []), w)"
| "demo_backend (RestCreate cfg auth cn input) w =
     (Inr (JObj [(''response'', JObj [(''objectId'', JStr ''n1'')])]),
      AList.update ''n1'' (demo_stored cn ''n1'' input) w)"
| "demo_backend (RestUpdate cfg auth cn wh input) w = (Inr (JObj [(''response'', JObj [])]), w)"
| "demo_backend (RestDel cfg auth cn oid) w =
     (Inr (JObj []), (case oid of JStr i \<Rightarrow> AList.delete i w | _ \<Rightarrow> w))"
| "demo_backend (GetAuthForSessionToken a) w = (Inr (JObj [(''isMaster'', JBool False)]), w)"

definition demo_context :: jsval where
  "demo_context = JObj [(''auth'', JObj [(''isMaster'', JBool True)]),
                        (''config'', JObj [(''applicationId'', JStr ''test'')])]"

definition demo_post :: jsval where
  "demo_post = JObj [(''className'', JStr ''Post''), (''objectId'', JStr ''a1''),
                     (''title'', JStr ''Hello'')]"

definition demo_world :: jsobj where
  "demo_world = [(''a1'', demo_post)]"

definition demo_post_class :: class_def where
  "demo_post_class =
     \<lparr>class_fields =
        [(''objectId'', \<lparr>ftype = ''String'', targetClass = None\<rparr>),
         (''title'', \<lparr>ftype = ''String'', targetClass = None\<rparr>),
         (''author'', \<lparr>ftype = ''Pointer'', targetClass = Some ''_User''\<rparr>),
         (''likes'', \<lparr>ftype = ''Relation'', targetClass = Some ''_User''\<rparr>),
         (''createdAt'', \<lparr>ftype = ''Date'', targetClass = None\<rparr>)]\<rparr>"

definition demo_user_class :: class_def where
  "demo_user_class =
     \<lparr>class_fields =
        [(''objectId'', \<lparr>ftype = ''String'', targetClass = None\<rparr>),
         (''username'', \<lparr>ftype = ''String'', targetClass = None\<rparr>),
         (''favourite'', \<lparr>ftype = ''Pointer'', targetClass = Some ''Post''\<rparr>)]\<rparr>"

definition demo_schema :: schema where
  "demo_schema =
     \<lparr>classNames = [''Post'', ''_User''],
      classes = [(''Post'', demo_post_class), (''_User'', demo_user_class)]\<rparr>"

definition demo_paging :: paging where
  "demo_paging =
     \<lparr>cursorOf = (\<lambda>args n. case js_get n ''objectId'' of Inr v \<Rightarrow> v | Inl e \<Rightarrow> JNull),
      pageInfoOf = (\<lambda>xs args m.
        JObj [(''hasNextPage'', JBool (pageSize args m < length xs)),
              (''hasPreviousPage'', JBool False)])\<rparr>"

definition demo_globalId :: "jsval \<Rightarrow> jsval \<Rightarrow> jsval" where
  "demo_globalId cn oid =
     (case (cn, oid) of
        (JStr c, JStr i) \<Rightarrow> JStr (c @ ''::'' @ i)
      | _ \<Rightarrow> JStr ''undefined::undefined'')"

fun crowded_backend :: "call \<Rightarrow> unit \<Rightarrow> (error + jsval) \<times> unit" where
  "crowded_backend (RunFind ctx info cn args q) w = (Inr (JArr (replicate 150 demo_post) []), w)"
| "crowded_backend c w = (Inr JNull, w)"

definition demo_users :: jsobj where
  "demo_users = [(''u1'', JObj [(''className'', JStr ''_User''), (''objectId'', JStr ''u1''),
                               (''username'', JStr ''ann'')])]"

text \<open>Type-primitive mappers and a schema with a class name that is not declared.\<close>

definition demo_mappers :: type_mappers where
  "demo_mappers =
     \<lparr>tm_type = (\<lambda>f. if ftype f = ''String'' then Some GraphQLString
                       else if ftype f = ''Date'' then Some (Primitive ''Date'') else None),
      tm_inputType = (\<lambda>f. if ftype f = ''String'' then Some GraphQLString
                       else if ftype f = ''Pointer'' then Some (Primitive ''PointerInput'')
                       else if ftype f = ''Date'' then Some (Primitive ''Date'') else None),
      tm_queryType = (\<lambda>f. if ftype f = ''String'' then Some (Primitive ''StringQuery'')
                       else if ftype f = ''Pointer'' then Some (Primitive ''PointerQuery'')
                       else None)\<rparr>"

definition demo_broken_schema :: schema where
  "demo_broken_schema = \<lparr>classNames = [''Ghost'', ''Post''], classes = classes demo_schema\<rparr>"

text \<open>The \<^verbatim>\<open>ParseClass\<close> instance of \<^verbatim>\<open>_User\<close> once \<^verbatim>\<open>loadClass\<close> has run on the
  empty state.\<close>

definition demo_user_pc :: parse_class where
  "demo_user_pc =
     \<lparr>pc_className = ''_User'', pc_displayName = ''User'', pc_schema = demo_schema,
      pc_class = Declared demo_user_class,
      pc_memo = [(objectType, 1), (inputObjectType, 2), (updateInputObjectType, 3),
                 (queryInputObjectType, 4), (queryResultObjectType, 6),
                 (mutationResultObjectType, 7)]\<rparr>"

section \<open>Lemmas on the computations\<close>

lemma bindM_liftE_Inl [simp]: "bindM (liftE (Inl e)) f s = (Inl e, s)"
  by (simp add: bindM_def liftE_def)

lemma bindM_liftE_Inr [simp]: "bindM (liftE (Inr x)) f s = f x s"
  by (simp add: bindM_def liftE_def)

lemma bindM_returnM [simp]: "bindM (returnM x) f s = f x s"
  by (simp add: bindM_def returnM_def)

lemma returnM_apply: "returnM x s = (Inr x, s)"
  by (simp add: returnM_def)

lemma bindM_liftE:
  "bindM (liftE r) f s = (case r of Inl e \<Rightarrow> (Inl e, s) | Inr x \<Rightarrow> f x s)"
  by (simp add: bindM_def liftE_def split: sum.splits)

lemma bindM_perform:
  "bindM (perform be c) f (tr, w) =
     (case be c w of
        (Inl e, w') \<Rightarrow> (Inl e, (tr @ [c], w'))
      | (Inr x, w') \<Rightarrow> f x (tr @ [c], w'))"
  by (simp add: bindM_def perform_def split: prod.splits sum.splits)

lemma getObjectId_missing:
  "\<not> truthy (obj_get kvs ''id'') \<Longrightarrow> \<not> truthy (obj_get kvs ''objectId'')
     \<Longrightarrow> getObjectId parseID (Some kvs) = Inl MissingIdentifier"
  by (simp add: getObjectId_def)

lemma obj_get_absent: "map_of kvs k = None \<Longrightarrow> obj_get kvs k = JUndefined"
  by (simp add: obj_get_def)

lemma obj_get_delete_other: "k \<noteq> k' \<Longrightarrow> obj_get (AList.delete k' kvs) k = obj_get kvs k"
  by (simp add: obj_get_def delete_conv')

lemma getObjectId_keeps:
  assumes "getObjectId parseID (Some kvs) = Inr (oid, kvs1)"
    and "k \<noteq> ''id''" and "k \<noteq> ''objectId''"
  shows "obj_get kvs1 k = obj_get kvs k"
  using assms
  by (auto simp: getObjectId_def obj_get_delete_other split: if_splits sum.splits)

lemma tagValue_primitive:
  "tagValue fs k v = Inr v' \<Longrightarrow> is_primitive v \<Longrightarrow> v' = v"
  by (cases v) (auto simp: tagValue_def split: option.splits if_splits)

lemma transformEntries_keys:
  "transformEntries fs kvs = Inr kvs' \<Longrightarrow> map fst kvs' = map fst kvs"
  by (induction kvs arbitrary: kvs') (auto split: sum.splits)

lemma transformEntries_primitive:
  "transformEntries fs kvs = Inr kvs' \<Longrightarrow> is_primitive (obj_get kvs k)
     \<Longrightarrow> obj_get kvs' k = obj_get kvs k"
proof (induction kvs arbitrary: kvs')
  case Nil
  then show ?case by simp
next
  case (Cons kv kvs)
  obtain k0 v0 where kv: "kv = (k0, v0)" by (cases kv)
  from Cons.prems(1) kv obtain v0' rest where
    t: "tagValue fs k0 v0 = Inr v0'" and r: "transformEntries fs kvs = Inr rest"
    and e: "kvs' = (k0, v0') # rest"
    by (auto split: sum.splits)
  show ?case
  proof (cases "k0 = k")
    case True
    with Cons.prems(2) kv have "is_primitive v0" by (simp add: obj_get_def)
    with t have "v0' = v0" by (rule tagValue_primitive)
    with True kv e show ?thesis by (simp add: obj_get_def)
  next
    case False
    with Cons.prems(2) kv have "is_primitive (obj_get kvs k)" by (simp add: obj_get_def)
    with r have "obj_get rest k = obj_get kvs k" by (rule Cons.IH)
    with False kv e show ?thesis by (simp add: obj_get_def)
  qed
qed

lemma map_of_delete_same: "map_of (AList.delete k kvs) k = None"
  by (simp add: delete_conv')

lemma map_of_delete_other: "k \<noteq> k' \<Longrightarrow> map_of (AList.delete k' kvs) k = map_of kvs k"
  by (simp add: delete_conv')

lemma keys_delete: "fst ` set (AList.delete k kvs) = fst ` set kvs - {k}"
  by (induction kvs) auto

lemma session_auth_trace:
  "session_auth be cn ctx cfg auth res (tr, w) = (ra, (tra, wa))
     \<Longrightarrow> (tra = tr \<and> wa = w) \<or> (\<exists>a. tra = tr @ [GetAuthForSessionToken a])"
  by (auto simp: session_auth_def bindM_liftE bindM_perform perform_def returnM_apply
           split: if_splits sum.splits prod.splits)

lemma bindM_cases:
  assumes "bindM m f s = (r, s2)"
  obtains (throws) e where "m s = (Inl e, s2)" and "r = Inl e"
        | (returns) x s1 where "m s = (Inr x, s1)" and "f x s1 = (r, s2)"
  using assms by (auto simp: bindM_def split: prod.splits sum.splits)

lemma create_tail_trace:
  assumes "create_tail be className context info config auth res cmid (tr1, w1) = (r, (tr', w'))"
  shows "\<exists>rest. tr' = tr1 @ rest"
proof -
  from assms show ?thesis
    unfolding create_tail_def
  proof (cases rule: bindM_cases)
    case (throws e)
    then show ?thesis using session_auth_trace[of be className "context" config auth res tr1 w1 "Inl e" tr' w']
      by auto
  next
    case (returns auth' s1)
    obtain tra wa where s1: "s1 = (tra, wa)" by (cases s1)
    from returns(1) s1 have "\<exists>mid. tra = tr1 @ mid"
      using session_auth_trace[of be className "context" config auth res tr1 w1 "Inr auth'" tra wa]
      by auto
    then obtain mid where "tra = tr1 @ mid" ..
    with returns(2) s1 show ?thesis
      by (auto simp: bindM_liftE bindM_perform returnM_apply split: prod.splits sum.splits)
  qed
qed

lemma create_tail_success:
  assumes "create_tail be className context info config auth res cmid (tr1, w1) = (Inr m, (tr', w'))"
  shows "\<exists>response objectId mid auth' w2.
           js_get res ''response'' = Inr response
         \<and> js_get response ''objectId'' = Inr objectId
         \<and> tr' = tr1 @ mid @ [RunGet (JObj [(''auth'', auth'), (''config'', config)])
                                  info className objectId]
         \<and> (mid = [] \<or> (\<exists>a. mid = [GetAuthForSessionToken a]))
         \<and> be (RunGet (JObj [(''auth'', auth'), (''config'', config)])
                  info className objectId) w2 = (Inr (object m), w')
         \<and> clientMutationId m = cmid"
proof -
  from assms show ?thesis
    unfolding create_tail_def
  proof (cases rule: bindM_cases)
    case (throws e)
    then show ?thesis by simp
  next
    case (returns auth' s1)
    obtain tra wa where s1: "s1 = (tra, wa)" by (cases s1)
    from returns(1) s1 have "tra = tr1 @ [] \<or> (\<exists>a. tra = tr1 @ [GetAuthForSessionToken a])"
      using session_auth_trace[of be className "context" config auth res tr1 w1 "Inr auth'" tra wa]
      by auto
    then obtain mid where mid: "tra = tr1 @ mid" "mid = [] \<or> (\<exists>a. mid = [GetAuthForSessionToken a])"
      by blast
    from returns(2) s1 mid(1) obtain response objectId where
        "js_get res ''response'' = Inr response"
        "js_get response ''objectId'' = Inr objectId"
        "tr' = tr1 @ mid @ [RunGet (JObj [(''auth'', auth'), (''config'', config)])
                                  info className objectId]"
        "be (RunGet (JObj [(''auth'', auth'), (''config'', config)])
                  info className objectId) wa = (Inr (object m), w')"
        "clientMutationId m = cmid"
      by (auto simp: bindM_liftE bindM_perform returnM_apply split: prod.splits sum.splits)
    with mid(2) show ?thesis by blast
  qed
qed

lemma create_resolve_unfold:
  "create_resolve be sch className input context info =
     bindM (liftE (js_get context ''auth'')) (\<lambda>auth.
     bindM (liftE (js_get context ''config'')) (\<lambda>config.
     bindM (liftE (transformInput input (schema_class sch className))) (\<lambda>input2.
     bindM (perform be (RestCreate config auth className
                          (JObj (AList.delete ''clientMutationId'' input2)))) (\<lambda>res.
     create_tail be className context info config auth res
       (obj_get input2 ''clientMutationId'')))))"
  by (simp add: create_resolve_def create_tail_def fun_eq_iff bindM_def returnM_def
           split: prod.splits sum.splits)

lemma liftE_apply: "liftE r s = (r, s)"
  by (simp add: liftE_def)

lemma connectionResultsArray_cap:
  "connectionResultsArray pg results args m = Inr conn \<Longrightarrow> length (nodes conn) \<le> m"
  by (auto simp: connectionResultsArray_def pageSize_def split: jsval.splits option.splits)

lemma connectionResultsArray_nodes:
  "connectionResultsArray pg (JArr xs ps) args m = Inr conn
     \<Longrightarrow> nodes conn = take (pageSize args m) xs \<and> map fst (edges conn) = nodes conn"
  by (auto simp: connectionResultsArray_def comp_def)

lemma take_replicate_100: "take 100 (replicate 150 x) = replicate 100 x"
  by simp

lemma obj_get_update_same: "obj_get (AList.update k v kvs) k = v"
  by (simp add: obj_get_def update_conv')

lemma obj_get_update_other: "k' \<noteq> k \<Longrightarrow> obj_get (AList.update k v kvs) k' = obj_get kvs k'"
  by (simp add: obj_get_def update_conv')

lemma assignId_idAssigned: "assignId g x = Inr x' \<Longrightarrow> idAssigned g x x'"
  by (cases x)
     (auto simp: assignId_def idAssigned_def obj_get_update_same obj_get_update_other
           split: sum.splits)

lemma assignIds_idAssigned: "assignIds g xs = Inr xs' \<Longrightarrow> list_all2 (idAssigned g) xs xs'"
  by (induction xs arbitrary: xs') (auto split: sum.splits dest: assignId_idAssigned)

lemmas demo_eval = getObjectId_def obj_get_def bindM_perform returnM_apply bindM_liftE
  demo_context_def demo_world_def demo_parseID_def demo_schema_def demo_post_class_def
  demo_user_class_def schema_class_def
  transformInput_def tagValue_def MissingIdentifier_def demo_post_def demo_stored_def

lemma transformInput_Some:
  "transformInput input e = Inr kvs' \<Longrightarrow> \<exists>kvs. input = Some kvs"
  by (auto simp: transformInput_def split: schema_entry.splits option.splits)

lemma transformInput_keys:
  "transformInput (Some kvs) e = Inr kvs' \<Longrightarrow> map fst kvs' = map fst kvs"
  by (auto simp: transformInput_def transformEntries_keys split: schema_entry.splits if_splits)

lemma transformInput_primitive:
  "transformInput (Some kvs) e = Inr kvs' \<Longrightarrow> is_primitive (obj_get kvs k)
     \<Longrightarrow> obj_get kvs' k = obj_get kvs k"
  by (auto simp: transformInput_def transformEntries_primitive simp del: is_primitive.simps
           split: schema_entry.splits if_splits)

lemma create_tail_plain:
  assumes "js_get res ''response'' = Inr response"
    and "js_get response ''objectId'' = Inr objectId"
    and "className \<noteq> ''_User'' \<or> \<not> truthy response
           \<or> (\<exists>t. js_get response ''sessionToken'' = Inr t \<and> \<not> truthy t)"
  shows "create_tail be className context info config auth res cmid (tr1, w1) =
           (case be (RunGet (JObj [(''auth'', auth), (''config'', config)])
                       info className objectId) w1 of
              (Inl e, w2) \<Rightarrow>
                (Inl e, (tr1 @ [RunGet (JObj [(''auth'', auth), (''config'', config)])
                                  info className objectId], w2))
            | (Inr obj, w2) \<Rightarrow>
                (Inr \<lparr>object = obj, clientMutationId = cmid\<rparr>,
                 (tr1 @ [RunGet (JObj [(''auth'', auth), (''config'', config)])
                           info className objectId], w2)))"
  using assms
  by (auto simp: create_tail_def session_auth_def bindM_def liftE_def perform_def returnM_def
           split: prod.splits sum.splits)

lemma create_tail_session:
  assumes "js_get res ''response'' = Inr response"
    and "js_get response ''objectId'' = Inr objectId"
    and "className = ''_User''" and "truthy response"
    and "js_get response ''sessionToken'' = Inr t" and "truthy t"
    and "installationId_of context = Inr iid"
    and "be (GetAuthForSessionToken
               (JObj [(''config'', config), (''installationId'', iid),
                      (''sessionToken'', t)])) w1 = (Inr auth', w2)"
  shows "create_tail be className context info config auth res cmid (tr1, w1) =
           (case be (RunGet (JObj [(''auth'', auth'), (''config'', config)])
                       info className objectId) w2 of
              (Inl e, w3) \<Rightarrow>
                (Inl e, (tr1 @ [GetAuthForSessionToken
                                  (JObj [(''config'', config), (''installationId'', iid),
                                         (''sessionToken'', t)]),
                                RunGet (JObj [(''auth'', auth'), (''config'', config)])
                                  info className objectId], w3))
            | (Inr obj, w3) \<Rightarrow>
                (Inr \<lparr>object = obj, clientMutationId = cmid\<rparr>,
                 (tr1 @ [GetAuthForSessionToken
                           (JObj [(''config'', config), (''installationId'', iid),
                                  (''sessionToken'', t)]),
                         RunGet (JObj [(''auth'', auth'), (''config'', config)])
                           info className objectId], w3)))"
  using assms
  by (simp add: create_tail_def session_auth_def bindM_def liftE_def perform_def returnM_def
           split: prod.splits sum.splits)

section \<open>The mutation resolvers: identifiers, ordering, correlation token\<close>

text \<open>
  Claim C2. For every class, calling the update or the destroy resolver with an input
  object that has neither an \<^verbatim>\<open>id\<close> nor an \<^verbatim>\<open>objectId\<close> key fails with the
  MissingIdentifier error (the thrown string \<^verbatim>\<open>'id or objectId are required'\<close>) and
  leaves the request state as it was: no call of \<^verbatim>\<open>rest.update\<close>, \<^verbatim>\<open>rest.del\<close> or
  \<^verbatim>\<open>runGet\<close> is recorded and the world is untouched.
\<close>

theorem missing_identifier_no_storage_call:
  assumes "map_of kvs ''id'' = None" and "map_of kvs ''objectId'' = None"
  shows "update_resolve be parseID sch className (Some kvs) context info s
           = (Inl MissingIdentifier, s)
       \<and> destroy_resolve be parseID className (Some kvs) context info s
           = (Inl MissingIdentifier, s)"
proof -
  have "getObjectId parseID (Some kvs) = Inl MissingIdentifier"
    using assms by (simp add: getObjectId_missing obj_get_absent)
  then show ?thesis
    by (simp add: update_resolve_def destroy_resolve_def)
qed

theorem missing_identifier_no_storage_call_witness:
  "map_of [(''title'', JStr ''x''), (''clientMutationId'', JStr ''m1'')] ''id'' = None
   \<and> map_of [(''title'', JStr ''x''), (''clientMutationId'', JStr ''m1'')] ''objectId'' = None
   \<and> update_resolve demo_backend demo_parseID demo_schema ''Post''
        (Some [(''title'', JStr ''x''), (''clientMutationId'', JStr ''m1'')])
        demo_context JNull ([], demo_world)
      = (Inl MissingIdentifier, ([], demo_world))
   \<and> destroy_resolve demo_backend demo_parseID ''Post''
        (Some [(''title'', JStr ''x''), (''clientMutationId'', JStr ''m1'')])
        demo_context JNull ([], demo_world)
      = (Inl MissingIdentifier, ([], demo_world))"
  using missing_identifier_no_storage_call
          [of "[(''title'', JStr ''x''), (''clientMutationId'', JStr ''m1'')]"
              demo_backend demo_parseID demo_schema "''Post''" demo_context JNull
              "([], demo_world)"]
  by simp

text \<open>
  Claim C5. For every class and every destroy invocation whose input yields an objectId,
  the resolver calls \<^verbatim>\<open>runGet\<close> first: if that fetch fails, its error is the outcome and
  nothing else is called. If the fetch answers an object and \<^verbatim>\<open>context.config\<close> and
  \<^verbatim>\<open>context.auth\<close> can be read, the calls of the resolver are exactly the fetch followed
  by one \<^verbatim>\<open>rest.del\<close> for the same class and objectId, run on the world the fetch
  left; an error of the delete is the outcome, and otherwise the outcome is the
  MutationResult that holds the object the fetch returned, taken before the delete, and
  the \<^verbatim>\<open>clientMutationId\<close> of the input. If the fetch answers and the context cannot be
  read, the read's error is the outcome and the fetch is the only call. In every case the
  calls are that fetch alone or the fetch followed by that delete, and a returned
  MutationResult holds the object that the fetch returned and the input's
  \<^verbatim>\<open>clientMutationId\<close>.
\<close>

theorem destroy_fetch_then_delete:
  assumes ok: "getObjectId parseID (Some kvs) = Inr (oid, kvs1)"
    and run: "destroy_resolve be parseID className (Some kvs) context info (tr, w) = (r, (tr', w'))"
  shows "(\<forall>e w1. be (RunGet context info className oid) w = (Inl e, w1)
            \<longrightarrow> r = Inl e \<and> tr' = tr @ [RunGet context info className oid] \<and> w' = w1)
       \<and> (\<forall>obj w1 config auth.
              be (RunGet context info className oid) w = (Inr obj, w1)
            \<and> js_get context ''config'' = Inr config \<and> js_get context ''auth'' = Inr auth
            \<longrightarrow> tr' = tr @ [RunGet context info className oid,
                            RestDel config auth className oid]
              \<and> w' = snd (be (RestDel config auth className oid) w1)
              \<and> r = (case fst (be (RestDel config auth className oid) w1) of
                        Inl e \<Rightarrow> Inl e
                      | Inr x \<Rightarrow> Inr \<lparr>object = obj,
                                       clientMutationId = obj_get kvs ''clientMutationId''\<rparr>))
       \<and> (\<forall>obj w1 e.
              be (RunGet context info className oid) w = (Inr obj, w1)
            \<and> (js_get context ''config'' = Inl e
                 \<or> (\<exists>config. js_get context ''config'' = Inr config)
                     \<and> js_get context ''auth'' = Inl e)
            \<longrightarrow> r = Inl e \<and> tr' = tr @ [RunGet context info className oid] \<and> w' = w1)
       \<and> (tr' = tr @ [RunGet context info className oid]
            \<or> (\<exists>config auth obj w1.
                  js_get context ''config'' = Inr config \<and> js_get context ''auth'' = Inr auth
                \<and> be (RunGet context info className oid) w = (Inr obj, w1)
                \<and> tr' = tr @ [RunGet context info className oid,
                              RestDel config auth className oid]
                \<and> w' = snd (be (RestDel config auth className oid) w1)))
       \<and> (\<forall>m. r = Inr m
            \<longrightarrow> (\<exists>w1 config auth.
                   be (RunGet context info className oid) w = (Inr (object m), w1)
                   \<and> tr' = tr @ [RunGet context info className oid,
                                 RestDel config auth className oid]
                   \<and> clientMutationId m = obj_get kvs ''clientMutationId''))"
proof -
  have tok: "obj_get kvs1 ''clientMutationId'' = obj_get kvs ''clientMutationId''"
    using ok by (rule getObjectId_keeps) simp_all
  note run' = run[unfolded destroy_resolve_def]
  have failed: "r = Inl e \<and> tr' = tr @ [RunGet context info className oid] \<and> w' = w1"
    if "be (RunGet context info className oid) w = (Inl e, w1)" for e w1
    using run' ok that by (simp add: bindM_perform)
  have deleted: "tr' = tr @ [RunGet context info className oid,
                            RestDel config auth className oid]
              \<and> w' = snd (be (RestDel config auth className oid) w1)
              \<and> r = (case fst (be (RestDel config auth className oid) w1) of
                        Inl e \<Rightarrow> Inl e
                      | Inr x \<Rightarrow> Inr \<lparr>object = obj,
                                       clientMutationId = obj_get kvs ''clientMutationId''\<rparr>)"
    if "be (RunGet context info className oid) w = (Inr obj, w1)"
      and "js_get context ''config'' = Inr config" and "js_get context ''auth'' = Inr auth"
    for obj w1 config auth
    using run' ok tok that
    by (auto simp: bindM_perform returnM_apply split: prod.splits sum.splits)
  have unread: "r = Inl e \<and> tr' = tr @ [RunGet context info className oid] \<and> w' = w1"
    if "be (RunGet context info className oid) w = (Inr obj, w1)"
      and "js_get context ''config'' = Inl e
             \<or> (\<exists>config. js_get context ''config'' = Inr config)
                 \<and> js_get context ''auth'' = Inl e"
    for obj w1 e
    using run' ok that by (auto simp: bindM_perform)
  have calls: "tr' = tr @ [RunGet context info className oid]
            \<or> (\<exists>config auth obj w1.
                  js_get context ''config'' = Inr config \<and> js_get context ''auth'' = Inr auth
                \<and> be (RunGet context info className oid) w = (Inr obj, w1)
                \<and> tr' = tr @ [RunGet context info className oid,
                              RestDel config auth className oid]
                \<and> w' = snd (be (RestDel config auth className oid) w1))"
    using run' ok
    by (auto simp: bindM_perform bindM_liftE returnM_apply split: prod.splits sum.splits)
  have returned: "\<exists>w1 config auth.
                   be (RunGet context info className oid) w = (Inr (object m), w1)
                   \<and> tr' = tr @ [RunGet context info className oid,
                                 RestDel config auth className oid]
                   \<and> clientMutationId m = obj_get kvs ''clientMutationId''"
    if "r = Inr m" for m
    using run' ok tok that
    by (auto simp: bindM_perform bindM_liftE returnM_apply split: prod.splits sum.splits)
  have c1: "\<forall>e w1. be (RunGet context info className oid) w = (Inl e, w1)
            \<longrightarrow> r = Inl e \<and> tr' = tr @ [RunGet context info className oid] \<and> w' = w1"
    using failed by blast
  have c2: "\<forall>obj w1 config auth.
              be (RunGet context info className oid) w = (Inr obj, w1)
            \<and> js_get context ''config'' = Inr config \<and> js_get context ''auth'' = Inr auth
            \<longrightarrow> tr' = tr @ [RunGet context info className oid,
                            RestDel config auth className oid]
              \<and> w' = snd (be (RestDel config auth className oid) w1)
              \<and> r = (case fst (be (RestDel config auth className oid) w1) of
                        Inl e \<Rightarrow> Inl e
                      | Inr x \<Rightarrow> Inr \<lparr>object = obj,
                                       clientMutationId = obj_get kvs ''clientMutationId''\<rparr>)"
    using deleted by blast
  have c3: "\<forall>obj w1 e.
              be (RunGet context info className oid) w = (Inr obj, w1)
            \<and> (js_get context ''config'' = Inl e
                 \<or> (\<exists>config. js_get context ''config'' = Inr config)
                     \<and> js_get context ''auth'' = Inl e)
            \<longrightarrow> r = Inl e \<and> tr' = tr @ [RunGet context info className oid] \<and> w' = w1"
    using unread by blast
  have c5: "\<forall>m. r = Inr m
            \<longrightarrow> (\<exists>w1 config auth.
                   be (RunGet context info className oid) w = (Inr (object m), w1)
                   \<and> tr' = tr @ [RunGet context info className oid,
                                 RestDel config auth className oid]
                   \<and> clientMutationId m = obj_get kvs ''clientMutationId'')"
    using returned by blast
  show ?thesis
    by (rule conjI[OF c1 conjI[OF c2 conjI[OF c3 conjI[OF calls c5]]]])
qed

theorem destroy_fetch_then_delete_witness:
  "getObjectId demo_parseID (Some [(''objectId'', JStr ''a1''), (''clientMutationId'', JStr ''m1'')])
     = Inr (JStr ''a1'', [(''clientMutationId'', JStr ''m1'')])
   \<and> destroy_resolve demo_backend demo_parseID ''Post''
        (Some [(''objectId'', JStr ''a1''), (''clientMutationId'', JStr ''m1'')])
        demo_context JNull ([], demo_world)
      = (Inr \<lparr>object = demo_post, clientMutationId = JStr ''m1''\<rparr>,
         ([RunGet demo_context JNull ''Post'' (JStr ''a1''),
           RestDel (JObj [(''applicationId'', JStr ''test'')]) (JObj [(''isMaster'', JBool True)])
             ''Post'' (JStr ''a1'')], []))"
proof -
  have g: "getObjectId demo_parseID
             (Some [(''objectId'', JStr ''a1''), (''clientMutationId'', JStr ''m1'')])
           = Inr (JStr ''a1'', [(''clientMutationId'', JStr ''m1'')])"
    by (simp add: getObjectId_def obj_get_def)
  have run: "destroy_resolve demo_backend demo_parseID ''Post''
        (Some [(''objectId'', JStr ''a1''), (''clientMutationId'', JStr ''m1'')])
        demo_context JNull ([], demo_world)
      = (Inr \<lparr>object = demo_post, clientMutationId = JStr ''m1''\<rparr>,
         ([RunGet demo_context JNull ''Post'' (JStr ''a1''),
           RestDel (JObj [(''applicationId'', JStr ''test'')]) (JObj [(''isMaster'', JBool True)])
             ''Post'' (JStr ''a1'')], []))"
    by (simp add: destroy_resolve_def g bindM_perform returnM_apply obj_get_def
                  demo_context_def demo_world_def)
  from destroy_fetch_then_delete[OF g run] g run show ?thesis by simp
qed

text \<open>
  Claim C10 as stated fails: with \<^verbatim>\<open>{ id: 'UG9zdDo6YTE=', objectId: '' }\<close> both keys are
  present, yet the empty objectId is falsy, so the id is parsed and deleted and the
  objectId key stays and is forwarded; with both values empty the call is rejected.
\<close>

theorem both_ids_counterexample:
  "getObjectId demo_parseID (Some [(''id'', JStr ''UG9zdDo6YTE=''), (''objectId'', JStr [])])
     = Inr (JStr ''a1'', [(''objectId'', JStr [])])
   \<and> update_resolve demo_backend demo_parseID demo_schema ''Post''
        (Some [(''id'', JStr ''UG9zdDo6YTE=''), (''objectId'', JStr []), (''title'', JStr ''New'')])
        demo_context JNull ([], demo_world)
      = (Inr \<lparr>object = demo_post, clientMutationId = JUndefined\<rparr>,
         ([RestUpdate (JObj [(''applicationId'', JStr ''test'')]) (JObj [(''isMaster'', JBool True)])
             ''Post'' (JObj [(''objectId'', JStr ''a1'')])
             (JObj [(''objectId'', JStr []), (''title'', JStr ''New'')]),
           RunGet demo_context JNull ''Post'' (JStr ''a1'')], demo_world))
   \<and> getObjectId demo_parseID (Some [(''id'', JStr []), (''objectId'', JStr [])])
     = Inl MissingIdentifier"
  by (simp add: update_resolve_def demo_eval)

text \<open>
  Claim C10, amended. For every update or destroy invocation whose input has a truthy
  (non-empty) \<^verbatim>\<open>objectId\<close> and an \<^verbatim>\<open>id\<close> key, \<^verbatim>\<open>getObjectId\<close> raises no error:
  it returns the objectId value, deletes the \<^verbatim>\<open>objectId\<close> key and leaves the \<^verbatim>\<open>id\<close>
  key in place. In update, when the input normalisation and the reads of the context
  succeed, the first storage call is \<^verbatim>\<open>rest.update\<close> addressed by that objectId, with a
  field set that still has the \<^verbatim>\<open>id\<close> key (with its value, when that is a primitive)
  and no \<^verbatim>\<open>objectId\<close> key; in destroy the first call is the fetch of that objectId.
\<close>

theorem objectId_wins_over_id:
  assumes oid: "truthy (obj_get kvs ''objectId'')"
    and idk: "map_of kvs ''id'' = Some v"
  shows "getObjectId parseID (Some kvs)
           = Inr (obj_get kvs ''objectId'', AList.delete ''objectId'' kvs)
       \<and> map_of (AList.delete ''objectId'' kvs) ''objectId'' = None
       \<and> map_of (AList.delete ''objectId'' kvs) ''id'' = Some v
       \<and> (\<forall>input2 config auth.
            transformInput (Some (AList.delete ''objectId'' kvs)) (schema_class sch className)
              = Inr input2
            \<and> js_get context ''config'' = Inr config \<and> js_get context ''auth'' = Inr auth
            \<longrightarrow> (\<exists>r rest w'.
                   update_resolve be parseID sch className (Some kvs) context info (tr, w)
                     = (r, (tr @ RestUpdate config auth className
                                   (JObj [(''objectId'', obj_get kvs ''objectId'')])
                                   (JObj (AList.delete ''clientMutationId'' input2)) # rest, w')))
                \<and> ''id'' \<in> fst ` set (AList.delete ''clientMutationId'' input2)
                \<and> ''objectId'' \<notin> fst ` set (AList.delete ''clientMutationId'' input2)
                \<and> (is_primitive v
                     \<longrightarrow> obj_get (AList.delete ''clientMutationId'' input2) ''id'' = v))
       \<and> (\<exists>r rest w'.
            destroy_resolve be parseID className (Some kvs) context info (tr, w)
              = (r, (tr @ RunGet context info className (obj_get kvs ''objectId'') # rest, w')))"
proof -
  let ?kvs1 = "AList.delete ''objectId'' kvs"
  have g: "getObjectId parseID (Some kvs) = Inr (obj_get kvs ''objectId'', ?kvs1)"
    using oid by (simp add: getObjectId_def)
  have k1: "map_of ?kvs1 ''objectId'' = None" by (rule map_of_delete_same)
  have k2: "map_of ?kvs1 ''id'' = Some v" using idk by (simp add: map_of_delete_other)
  have upd: "\<exists>r rest w'.
               update_resolve be parseID sch className (Some kvs) context info (tr, w)
                 = (r, (tr @ RestUpdate config auth className
                               (JObj [(''objectId'', obj_get kvs ''objectId'')])
                               (JObj (AList.delete ''clientMutationId'' input2)) # rest, w'))"
    if "transformInput (Some ?kvs1) (schema_class sch className) = Inr input2"
      and "js_get context ''config'' = Inr config" and "js_get context ''auth'' = Inr auth"
    for input2 config auth
    using that g
    by (auto simp: update_resolve_def bindM_perform returnM_apply split: prod.splits sum.splits)
  have keys: "''id'' \<in> fst ` set (AList.delete ''clientMutationId'' input2)
            \<and> ''objectId'' \<notin> fst ` set (AList.delete ''clientMutationId'' input2)
            \<and> (is_primitive v \<longrightarrow> obj_get (AList.delete ''clientMutationId'' input2) ''id'' = v)"
    if t: "transformInput (Some ?kvs1) (schema_class sch className) = Inr input2" for input2
  proof -
    from t have "map fst input2 = map fst ?kvs1" by (rule transformInput_keys)
    then have ks: "fst ` set input2 = fst ` set ?kvs1" by (metis set_map)
    have "''id'' \<in> fst ` set ?kvs1" using k2 by (metis map_of_eq_None_iff option.distinct(1))
    moreover have "''objectId'' \<notin> fst ` set ?kvs1" using k1 by (simp add: map_of_eq_None_iff)
    moreover have "is_primitive v \<Longrightarrow> obj_get input2 ''id'' = v"
      using transformInput_primitive[OF t, of "''id''"] k2 by (simp add: obj_get_def)
    ultimately show ?thesis
      using ks by (simp add: keys_delete obj_get_delete_other)
  qed
  have des: "\<exists>r rest w'.
            destroy_resolve be parseID className (Some kvs) context info (tr, w)
              = (r, (tr @ RunGet context info className (obj_get kvs ''objectId'') # rest, w'))"
    using g
    by (auto simp: destroy_resolve_def bindM_perform bindM_liftE returnM_apply
             split: prod.splits sum.splits)
  show ?thesis using g k1 k2 upd keys des by blast
qed

theorem objectId_wins_over_id_witness:
  "truthy (obj_get [(''id'', JStr ''UG9zdDo6YTE=''), (''objectId'', JStr ''a1''),
                    (''title'', JStr ''New'')] ''objectId'')
   \<and> map_of [(''id'', JStr ''UG9zdDo6YTE=''), (''objectId'', JStr ''a1''),
              (''title'', JStr ''New'')] ''id'' = Some (JStr ''UG9zdDo6YTE='')
   \<and> getObjectId demo_parseID
        (Some [(''id'', JStr ''UG9zdDo6YTE=''), (''objectId'', JStr ''a1''),
               (''title'', JStr ''New'')])
      = Inr (JStr ''a1'', [(''id'', JStr ''UG9zdDo6YTE=''), (''title'', JStr ''New'')])
   \<and> update_resolve demo_backend demo_parseID demo_schema ''Post''
        (Some [(''id'', JStr ''UG9zdDo6YTE=''), (''objectId'', JStr ''a1''),
               (''title'', JStr ''New'')])
        demo_context JNull ([], demo_world)
      = (Inr \<lparr>object = demo_post, clientMutationId = JUndefined\<rparr>,
         ([RestUpdate (JObj [(''applicationId'', JStr ''test'')]) (JObj [(''isMaster'', JBool True)])
             ''Post'' (JObj [(''objectId'', JStr ''a1'')])
             (JObj [(''id'', JStr ''UG9zdDo6YTE=''), (''title'', JStr ''New'')]),
           RunGet demo_context JNull ''Post'' (JStr ''a1'')], demo_world))"
  using objectId_wins_over_id
          [of "[(''id'', JStr ''UG9zdDo6YTE=''), (''objectId'', JStr ''a1''),
                (''title'', JStr ''New'')]" "JStr ''UG9zdDo6YTE=''"
              demo_parseID demo_schema "''Post''" demo_context demo_backend JNull "[]" demo_world]
  by (simp add: update_resolve_def demo_eval)

text \<open>
  Claim C6. For every class and every create invocation: if any storage call is made,
  the first one is \<^verbatim>\<open>rest.create\<close> on the normalised input from which the
  \<^verbatim>\<open>clientMutationId\<close> key has been deleted. When the resolver returns a
  MutationResult, the trace is that create, at most one \<^verbatim>\<open>getAuthForSessionToken\<close>,
  and a final \<^verbatim>\<open>runGet\<close> of the \<^verbatim>\<open>response.objectId\<close> that the create answered; the
  result's object is what that fetch returned, and its \<^verbatim>\<open>clientMutationId\<close> is the
  input's token (a string, \<^verbatim>\<open>null\<close> or absent, as the \<^verbatim>\<open>GraphQLString\<close> field
  of the add-input type makes it).

  Conversely, when \<^verbatim>\<open>context.auth\<close> and \<^verbatim>\<open>context.config\<close> can be read and the
  input normalisation succeeds, that create is issued as the first call. If it fails, its
  error is the outcome and it is the only call. If it answers a response with an
  \<^verbatim>\<open>objectId\<close>, and the class is not \<^verbatim>\<open>_User\<close> or the response has no truthy
  \<^verbatim>\<open>sessionToken\<close>, the calls are exactly the create and the fetch of that objectId
  with the caller's auth, and the outcome is the fetch's error or the MutationResult of
  the fetched object and the token of the normalised input. For \<^verbatim>\<open>_User\<close> with a
  truthy \<^verbatim>\<open>sessionToken\<close> in the response, \<^verbatim>\<open>getAuthForSessionToken\<close> is called in
  between with the config, the installation id and that token, and the fetch runs with
  the auth it answers.
\<close>

theorem create_strips_token_and_refetches:
  assumes run: "create_resolve be sch className input context info (tr, w) = (r, (tr', w'))"
  shows "(tr' = tr
          \<or> (\<exists>config auth input2 rest.
               transformInput input (schema_class sch className) = Inr input2
             \<and> tr' = tr @ RestCreate config auth className
                             (JObj (AList.delete ''clientMutationId'' input2)) # rest
             \<and> ''clientMutationId'' \<notin> fst ` set (AList.delete ''clientMutationId'' input2)))
       \<and> (\<forall>m. r = Inr m \<longrightarrow>
            (\<exists>kvs config auth input2 res w1 response objectId mid auth' w2.
               input = Some kvs
             \<and> transformInput input (schema_class sch className) = Inr input2
             \<and> be (RestCreate config auth className
                      (JObj (AList.delete ''clientMutationId'' input2))) w = (Inr res, w1)
             \<and> js_get res ''response'' = Inr response
             \<and> js_get response ''objectId'' = Inr objectId
             \<and> tr' = tr @ RestCreate config auth className
                             (JObj (AList.delete ''clientMutationId'' input2))
                           # mid @ [RunGet (JObj [(''auth'', auth'), (''config'', config)])
                                      info className objectId]
             \<and> (mid = [] \<or> (\<exists>a. mid = [GetAuthForSessionToken a]))
             \<and> be (RunGet (JObj [(''auth'', auth'), (''config'', config)])
                      info className objectId) w2 = (Inr (object m), w')
             \<and> (is_primitive (obj_get kvs ''clientMutationId'')
                  \<longrightarrow> clientMutationId m = obj_get kvs ''clientMutationId'')))
       \<and> (\<forall>auth config input2.
              js_get context ''auth'' = Inr auth \<and> js_get context ''config'' = Inr config
            \<and> transformInput input (schema_class sch className) = Inr input2
            \<longrightarrow> (\<exists>rest. tr' = tr @ RestCreate config auth className
                                    (JObj (AList.delete ''clientMutationId'' input2)) # rest)
              \<and> (\<forall>e w1.
                     be (RestCreate config auth className
                           (JObj (AList.delete ''clientMutationId'' input2))) w = (Inl e, w1)
                   \<longrightarrow> r = Inl e
                     \<and> tr' = tr @ [RestCreate config auth className
                                     (JObj (AList.delete ''clientMutationId'' input2))]
                     \<and> w' = w1)
              \<and> (\<forall>res w1 response objectId.
                     be (RestCreate config auth className
                           (JObj (AList.delete ''clientMutationId'' input2))) w = (Inr res, w1)
                   \<and> js_get res ''response'' = Inr response
                   \<and> js_get response ''objectId'' = Inr objectId
                   \<and> (className \<noteq> ''_User'' \<or> \<not> truthy response
                        \<or> (\<exists>t. js_get response ''sessionToken'' = Inr t \<and> \<not> truthy t))
                   \<longrightarrow> tr' = tr @ [RestCreate config auth className
                                     (JObj (AList.delete ''clientMutationId'' input2)),
                                   RunGet (JObj [(''auth'', auth), (''config'', config)])
                                     info className objectId]
                     \<and> w' = snd (be (RunGet (JObj [(''auth'', auth), (''config'', config)])
                                       info className objectId) w1)
                     \<and> r = (case fst (be (RunGet (JObj [(''auth'', auth), (''config'', config)])
                                           info className objectId) w1) of
                               Inl e \<Rightarrow> Inl e
                             | Inr obj \<Rightarrow>
                                 Inr \<lparr>object = obj,
                                      clientMutationId = obj_get input2 ''clientMutationId''\<rparr>))
              \<and> (\<forall>res w1 response objectId t iid auth' w2.
                     be (RestCreate config auth className
                           (JObj (AList.delete ''clientMutationId'' input2))) w = (Inr res, w1)
                   \<and> js_get res ''response'' = Inr response
                   \<and> js_get response ''objectId'' = Inr objectId
                   \<and> className = ''_User'' \<and> truthy response
                   \<and> js_get response ''sessionToken'' = Inr t \<and> truthy t
                   \<and> installationId_of context = Inr iid
                   \<and> be (GetAuthForSessionToken
                           (JObj [(''config'', config), (''installationId'', iid),
                                  (''sessionToken'', t)])) w1 = (Inr auth', w2)
                   \<longrightarrow> tr' = tr @ [RestCreate config auth className
                                     (JObj (AList.delete ''clientMutationId'' input2)),
                                   GetAuthForSessionToken
                                     (JObj [(''config'', config), (''installationId'', iid),
                                            (''sessionToken'', t)]),
                                   RunGet (JObj [(''auth'', auth'), (''config'', config)])
                                     info className objectId]
                     \<and> w' = snd (be (RunGet (JObj [(''auth'', auth'), (''config'', config)])
                                       info className objectId) w2)
                     \<and> r = (case fst (be (RunGet (JObj [(''auth'', auth'), (''config'', config)])
                                           info className objectId) w2) of
                               Inl e \<Rightarrow> Inl e
                             | Inr obj \<Rightarrow>
                                 Inr \<lparr>object = obj,
                                      clientMutationId = obj_get input2 ''clientMutationId''\<rparr>)))"
proof -
  note run' = run[unfolded create_resolve_unfold]
  have first: "tr' = tr
          \<or> (\<exists>config auth input2 rest.
               transformInput input (schema_class sch className) = Inr input2
             \<and> tr' = tr @ RestCreate config auth className
                             (JObj (AList.delete ''clientMutationId'' input2)) # rest
             \<and> ''clientMutationId'' \<notin> fst ` set (AList.delete ''clientMutationId'' input2))"
    using run' create_tail_trace[of be className "context" info]
    by (auto simp: bindM_liftE bindM_perform keys_delete split: prod.splits sum.splits)
       fastforce
  have second: "\<exists>kvs config auth input2 res w1 response objectId mid auth' w2.
               input = Some kvs
             \<and> transformInput input (schema_class sch className) = Inr input2
             \<and> be (RestCreate config auth className
                      (JObj (AList.delete ''clientMutationId'' input2))) w = (Inr res, w1)
             \<and> js_get res ''response'' = Inr response
             \<and> js_get response ''objectId'' = Inr objectId
             \<and> tr' = tr @ RestCreate config auth className
                             (JObj (AList.delete ''clientMutationId'' input2))
                           # mid @ [RunGet (JObj [(''auth'', auth'), (''config'', config)])
                                      info className objectId]
             \<and> (mid = [] \<or> (\<exists>a. mid = [GetAuthForSessionToken a]))
             \<and> be (RunGet (JObj [(''auth'', auth'), (''config'', config)])
                      info className objectId) w2 = (Inr (object m), w')
             \<and> (is_primitive (obj_get kvs ''clientMutationId'')
                  \<longrightarrow> clientMutationId m = obj_get kvs ''clientMutationId'')"
    if rm: "r = Inr m" for m
  proof -
    from run' rm obtain auth config input2 res w1 where
        ti: "transformInput input (schema_class sch className) = Inr input2"
      and rc: "be (RestCreate config auth className
                      (JObj (AList.delete ''clientMutationId'' input2))) w = (Inr res, w1)"
      and tl: "create_tail be className context info config auth res
                 (obj_get input2 ''clientMutationId'')
                 (tr @ [RestCreate config auth className
                          (JObj (AList.delete ''clientMutationId'' input2))], w1)
               = (Inr m, (tr', w'))"
      by (auto simp: bindM_liftE bindM_perform split: prod.splits sum.splits)
    from ti obtain kvs where inp: "input = Some kvs"
      using transformInput_Some by blast
    have tok: "is_primitive (obj_get kvs ''clientMutationId'')
                 \<Longrightarrow> obj_get input2 ''clientMutationId'' = obj_get kvs ''clientMutationId''"
      using ti inp transformInput_primitive by blast
    from create_tail_success[OF tl] obtain response objectId mid auth' w2 where
        "js_get res ''response'' = Inr response"
        "js_get response ''objectId'' = Inr objectId"
        "tr' = (tr @ [RestCreate config auth className
                          (JObj (AList.delete ''clientMutationId'' input2))])
               @ mid @ [RunGet (JObj [(''auth'', auth'), (''config'', config)])
                                  info className objectId]"
        "mid = [] \<or> (\<exists>a. mid = [GetAuthForSessionToken a])"
        "be (RunGet (JObj [(''auth'', auth'), (''config'', config)])
                  info className objectId) w2 = (Inr (object m), w')"
        "clientMutationId m = obj_get input2 ''clientMutationId''"
      by blast
    with inp ti rc tok show ?thesis by (simp del: is_primitive.simps) blast
  qed
  have c2: "\<forall>m. r = Inr m \<longrightarrow>
            (\<exists>kvs config auth input2 res w1 response objectId mid auth' w2.
               input = Some kvs
             \<and> transformInput input (schema_class sch className) = Inr input2
             \<and> be (RestCreate config auth className
                      (JObj (AList.delete ''clientMutationId'' input2))) w = (Inr res, w1)
             \<and> js_get res ''response'' = Inr response
             \<and> js_get response ''objectId'' = Inr objectId
             \<and> tr' = tr @ RestCreate config auth className
                             (JObj (AList.delete ''clientMutationId'' input2))
                           # mid @ [RunGet (JObj [(''auth'', auth'), (''config'', config)])
                                      info className objectId]
             \<and> (mid = [] \<or> (\<exists>a. mid = [GetAuthForSessionToken a]))
             \<and> be (RunGet (JObj [(''auth'', auth'), (''config'', config)])
                      info className objectId) w2 = (Inr (object m), w')
             \<and> (is_primitive (obj_get kvs ''clientMutationId'')
                  \<longrightarrow> clientMutationId m = obj_get kvs ''clientMutationId''))"
    using second by (intro allI impI)
  have third: "(\<exists>rest. tr' = tr @ RestCreate config auth className
                                    (JObj (AList.delete ''clientMutationId'' input2)) # rest)
              \<and> (\<forall>e w1.
                     be (RestCreate config auth className
                           (JObj (AList.delete ''clientMutationId'' input2))) w = (Inl e, w1)
                   \<longrightarrow> r = Inl e
                     \<and> tr' = tr @ [RestCreate config auth className
                                     (JObj (AList.delete ''clientMutationId'' input2))]
                     \<and> w' = w1)
              \<and> (\<forall>res w1 response objectId.
                     be (RestCreate config auth className
                           (JObj (AList.delete ''clientMutationId'' input2))) w = (Inr res, w1)
                   \<and> js_get res ''response'' = Inr response
                   \<and> js_get response ''objectId'' = Inr objectId
                   \<and> (className \<noteq> ''_User'' \<or> \<not> truthy response
                        \<or> (\<exists>t. js_get response ''sessionToken'' = Inr t \<and> \<not> truthy t))
                   \<longrightarrow> tr' = tr @ [RestCreate config auth className
                                     (JObj (AList.delete ''clientMutationId'' input2)),
                                   RunGet (JObj [(''auth'', auth), (''config'', config)])
                                     info className objectId]
                     \<and> w' = snd (be (RunGet (JObj [(''auth'', auth), (''config'', config)])
                                       info className objectId) w1)
                     \<and> r = (case fst (be (RunGet (JObj [(''auth'', auth), (''config'', config)])
                                           info className objectId) w1) of
                               Inl e \<Rightarrow> Inl e
                             | Inr obj \<Rightarrow>
                                 Inr \<lparr>object = obj,
                                      clientMutationId = obj_get input2 ''clientMutationId''\<rparr>))
              \<and> (\<forall>res w1 response objectId t iid auth' w2.
                     be (RestCreate config auth className
                           (JObj (AList.delete ''clientMutationId'' input2))) w = (Inr res, w1)
                   \<and> js_get res ''response'' = Inr response
                   \<and> js_get response ''objectId'' = Inr objectId
                   \<and> className = ''_User'' \<and> truthy response
                   \<and> js_get response ''sessionToken'' = Inr t \<and> truthy t
                   \<and> installationId_of context = Inr iid
                   \<and> be (GetAuthForSessionToken
                           (JObj [(''config'', config), (''installationId'', iid),
                                  (''sessionToken'', t)])) w1 = (Inr auth', w2)
                   \<longrightarrow> tr' = tr @ [RestCreate config auth className
                                     (JObj (AList.delete ''clientMutationId'' input2)),
                                   GetAuthForSessionToken
                                     (JObj [(''config'', config), (''installationId'', iid),
                                            (''sessionToken'', t)]),
                                   RunGet (JObj [(''auth'', auth'), (''config'', config)])
                                     info className objectId]
                     \<and> w' = snd (be (RunGet (JObj [(''auth'', auth'), (''config'', config)])
                                       info className objectId) w2)
                     \<and> r = (case fst (be (RunGet (JObj [(''auth'', auth'), (''config'', config)])
                                           info className objectId) w2) of
                               Inl e \<Rightarrow> Inl e
                             | Inr obj \<Rightarrow>
                                 Inr \<lparr>object = obj,
                                      clientMutationId = obj_get input2 ''clientMutationId''\<rparr>))"
    if ra: "js_get context ''auth'' = Inr auth" and rcf: "js_get context ''config'' = Inr config"
      and ti: "transformInput input (schema_class sch className) = Inr input2"
    for auth config input2
  proof -
    let ?c = "RestCreate config auth className
                (JObj (AList.delete ''clientMutationId'' input2))"
    let ?cmid = "obj_get input2 ''clientMutationId''"
    have step: "(case be ?c w of
                   (Inl e, w1) \<Rightarrow> (Inl e, (tr @ [?c], w1))
                 | (Inr res, w1) \<Rightarrow>
                     create_tail be className context info config auth res ?cmid
                       (tr @ [?c], w1))
                = (r, (tr', w'))"
      using run' ra rcf ti by (simp add: bindM_perform)
    have issued: "\<exists>rest. tr' = tr @ ?c # rest"
    proof (cases "be ?c w")
      case (Pair a w1)
      show ?thesis
      proof (cases a)
        case (Inl e)
        with Pair step show ?thesis by auto
      next
        case (Inr res)
        with Pair step have "create_tail be className context info config auth res ?cmid
                               (tr @ [?c], w1) = (r, (tr', w'))" by simp
        from create_tail_trace[OF this] show ?thesis by auto
      qed
    qed
    have failed: "r = Inl e \<and> tr' = tr @ [?c] \<and> w' = w1"
      if "be ?c w = (Inl e, w1)" for e w1
      using step that by simp
    have plain: "tr' = tr @ [?c, RunGet (JObj [(''auth'', auth), (''config'', config)])
                                  info className objectId]
               \<and> w' = snd (be (RunGet (JObj [(''auth'', auth), (''config'', config)])
                                 info className objectId) w1)
               \<and> r = (case fst (be (RunGet (JObj [(''auth'', auth), (''config'', config)])
                                     info className objectId) w1) of
                         Inl e \<Rightarrow> Inl e
                       | Inr obj \<Rightarrow> Inr \<lparr>object = obj, clientMutationId = ?cmid\<rparr>)"
      if c: "be ?c w = (Inr res, w1)"
        and a1: "js_get res ''response'' = Inr response"
        and a2: "js_get response ''objectId'' = Inr objectId"
        and a3: "className \<noteq> ''_User'' \<or> \<not> truthy response
                   \<or> (\<exists>t. js_get response ''sessionToken'' = Inr t \<and> \<not> truthy t)"
      for res w1 response objectId
      using step c create_tail_plain[OF a1 a2 a3, of be "context" info config auth ?cmid "tr @ [?c]" w1]
      by (auto split: prod.splits sum.splits)
    have session: "tr' = tr @ [?c,
                              GetAuthForSessionToken
                                (JObj [(''config'', config), (''installationId'', iid),
                                       (''sessionToken'', t)]),
                              RunGet (JObj [(''auth'', auth'), (''config'', config)])
                                info className objectId]
               \<and> w' = snd (be (RunGet (JObj [(''auth'', auth'), (''config'', config)])
                                 info className objectId) w2)
               \<and> r = (case fst (be (RunGet (JObj [(''auth'', auth'), (''config'', config)])
                                     info className objectId) w2) of
                         Inl e \<Rightarrow> Inl e
                       | Inr obj \<Rightarrow> Inr \<lparr>object = obj, clientMutationId = ?cmid\<rparr>)"
      if c: "be ?c w = (Inr res, w1)"
        and a1: "js_get res ''response'' = Inr response"
        and a2: "js_get response ''objectId'' = Inr objectId"
        and a3: "className = ''_User''" and a4: "truthy response"
        and a5: "js_get response ''sessionToken'' = Inr t" and a6: "truthy t"
        and a7: "installationId_of context = Inr iid"
        and a8: "be (GetAuthForSessionToken
                       (JObj [(''config'', config), (''installationId'', iid),
                              (''sessionToken'', t)])) w1 = (Inr auth', w2)"
      for res w1 response objectId t iid auth' w2
      using step c
        create_tail_session[where be = be and info = info and auth = auth and cmid = ?cmid
                              and ?tr1.0 = "tr @ [?c]", OF a1 a2 a3 a4 a5 a6 a7 a8]
      by (auto split: prod.splits sum.splits)
    from issued failed plain session show ?thesis by blast
  qed
  have c3: "\<forall>auth config input2.
              js_get context ''auth'' = Inr auth \<and> js_get context ''config'' = Inr config
            \<and> transformInput input (schema_class sch className) = Inr input2
            \<longrightarrow> (\<exists>rest. tr' = tr @ RestCreate config auth className
                                    (JObj (AList.delete ''clientMutationId'' input2)) # rest)
              \<and> (\<forall>e w1.
                     be (RestCreate config auth className
                           (JObj (AList.delete ''clientMutationId'' input2))) w = (Inl e, w1)
                   \<longrightarrow> r = Inl e
                     \<and> tr' = tr @ [RestCreate config auth className
                                     (JObj (AList.delete ''clientMutationId'' input2))]
                     \<and> w' = w1)
              \<and> (\<forall>res w1 response objectId.
                     be (RestCreate config auth className
                           (JObj (AList.delete ''clientMutationId'' input2))) w = (Inr res, w1)
                   \<and> js_get res ''response'' = Inr response
                   \<and> js_get response ''objectId'' = Inr objectId
                   \<and> (className \<noteq> ''_User'' \<or> \<not> truthy response
                        \<or> (\<exists>t. js_get response ''sessionToken'' = Inr t \<and> \<not> truthy t))
                   \<longrightarrow> tr' = tr @ [RestCreate config auth className
                                     (JObj (AList.delete ''clientMutationId'' input2)),
                                   RunGet (JObj [(''auth'', auth), (''config'', config)])
                                     info className objectId]
                     \<and> w' = snd (be (RunGet (JObj [(''auth'', auth), (''config'', config)])
                                       info className objectId) w1)
                     \<and> r = (case fst (be (RunGet (JObj [(''auth'', auth), (''config'', config)])
                                           info className objectId) w1) of
                               Inl e \<Rightarrow> Inl e
                             | Inr obj \<Rightarrow>
                                 Inr \<lparr>object = obj,
                                      clientMutationId = obj_get input2 ''clientMutationId''\<rparr>))
              \<and> (\<forall>res w1 response objectId t iid auth' w2.
                     be (RestCreate config auth className
                           (JObj (AList.delete ''clientMutationId'' input2))) w = (Inr res, w1)
                   \<and> js_get res ''response'' = Inr response
                   \<and> js_get response ''objectId'' = Inr objectId
                   \<and> className = ''_User'' \<and> truthy response
                   \<and> js_get response ''sessionToken'' = Inr t \<and> truthy t
                   \<and> installationId_of context = Inr iid
                   \<and> be (GetAuthForSessionToken
                           (JObj [(''config'', config), (''installationId'', iid),
                                  (''sessionToken'', t)])) w1 = (Inr auth', w2)
                   \<longrightarrow> tr' = tr @ [RestCreate config auth className
                                     (JObj (AList.delete ''clientMutationId'' input2)),
                                   GetAuthForSessionToken
                                     (JObj [(''config'', config), (''installationId'', iid),
                                            (''sessionToken'', t)]),
                                   RunGet (JObj [(''auth'', auth'), (''config'', config)])
                                     info className objectId]
                     \<and> w' = snd (be (RunGet (JObj [(''auth'', auth'), (''config'', config)])
                                       info className objectId) w2)
                     \<and> r = (case fst (be (RunGet (JObj [(''auth'', auth'), (''config'', config)])
                                           info className objectId) w2) of
                               Inl e \<Rightarrow> Inl e
                             | Inr obj \<Rightarrow>
                                 Inr \<lparr>object = obj,
                                      clientMutationId = obj_get input2 ''clientMutationId''\<rparr>))"
    using third by (intro allI impI) (elim conjE)
  show ?thesis
    by (rule conjI[OF first conjI[OF c2 c3]])
qed

theorem create_strips_token_and_refetches_witness:
  "create_resolve demo_backend demo_schema ''Post''
     (Some [(''title'', JStr ''Hi''), (''clientMutationId'', JStr ''m7'')])
     demo_context JNull ([], demo_world)
   = (Inr \<lparr>object = JObj [(''className'', JStr ''Post''), (''objectId'', JStr ''n1''),
                           (''title'', JStr ''Hi'')],
            clientMutationId = JStr ''m7''\<rparr>,
      ([RestCreate (JObj [(''applicationId'', JStr ''test'')]) (JObj [(''isMaster'', JBool True)])
          ''Post'' (JObj [(''title'', JStr ''Hi'')]),
        RunGet demo_context JNull ''Post'' (JStr ''n1'')],
       [(''a1'', demo_post),
        (''n1'', JObj [(''className'', JStr ''Post''), (''objectId'', JStr ''n1''),
                      (''title'', JStr ''Hi'')])]))"
proof -
  have run: "create_resolve demo_backend demo_schema ''Post''
     (Some [(''title'', JStr ''Hi''), (''clientMutationId'', JStr ''m7'')])
     demo_context JNull ([], demo_world)
   = (Inr \<lparr>object = JObj [(''className'', JStr ''Post''), (''objectId'', JStr ''n1''),
                           (''title'', JStr ''Hi'')],
            clientMutationId = JStr ''m7''\<rparr>,
      ([RestCreate (JObj [(''applicationId'', JStr ''test'')]) (JObj [(''isMaster'', JBool True)])
          ''Post'' (JObj [(''title'', JStr ''Hi'')]),
        RunGet demo_context JNull ''Post'' (JStr ''n1'')],
       [(''a1'', demo_post),
        (''n1'', JObj [(''className'', JStr ''Post''), (''objectId'', JStr ''n1''),
                      (''title'', JStr ''Hi'')])]))"
    by (simp add: create_resolve_def session_auth_def demo_eval)
  from create_strips_token_and_refetches[OF run] run show ?thesis by simp
qed

section \<open>The list resolvers: page cap and relation queries\<close>

text \<open>
  Claim C3. For every class and every find invocation, whatever page size the arguments
  ask for, a Connection returned by the find resolver has at most 100 nodes, and so has a
  Connection returned by the resolver of a Relation field: both wrap their results with
  \<^verbatim>\<open>connectionResultsArray(results, args, 100)\<close>.
\<close>

theorem page_cap_100:
  "(find_resolve be pg className args context info s = (Inr conn, s')
      \<longrightarrow> length (nodes conn) \<le> 100)
   \<and> (relation_resolve be getGloballyUniqueId pg fieldName parent args context info s
         = (Inr conn, s')
      \<longrightarrow> length (nodes conn) \<le> 100)"
proof (intro conjI impI)
  assume "find_resolve be pg className args context info s = (Inr conn, s')"
  then obtain results where "connectionResultsArray pg results args 100 = Inr conn"
    by (auto simp: find_resolve_def bindM_def liftE_def split: prod.splits sum.splits)
  then show "length (nodes conn) \<le> 100" by (rule connectionResultsArray_cap)
next
  assume "relation_resolve be getGloballyUniqueId pg fieldName parent args context info s
            = (Inr conn, s')"
  then obtain results a where "connectionResultsArray pg results a 100 = Inr conn"
    by (auto simp: relation_resolve_def bindM_def liftE_def returnM_def
             split: prod.splits sum.splits)
  then show "length (nodes conn) \<le> 100" by (rule connectionResultsArray_cap)
qed

theorem page_cap_100_witness:
  "find_resolve crowded_backend demo_paging ''Post'' [(''first'', JNum 500)] demo_context JNull
     ([], ())
   = (Inr \<lparr>nodes = replicate 100 demo_post,
           edges = replicate 100 (demo_post, JStr ''a1''),
           pageInfo = JObj [(''hasNextPage'', JBool True), (''hasPreviousPage'', JBool False)]\<rparr>,
      ([RunFind demo_context JNull (JStr ''Post'') (JObj [(''first'', JNum 500)]) None], ()))
   \<and> length (replicate 100 demo_post) \<le> 100"
proof -
  have run: "find_resolve crowded_backend demo_paging ''Post'' [(''first'', JNum 500)]
               demo_context JNull ([], ())
   = (Inr \<lparr>nodes = replicate 100 demo_post,
           edges = replicate 100 (demo_post, JStr ''a1''),
           pageInfo = JObj [(''hasNextPage'', JBool True), (''hasPreviousPage'', JBool False)]\<rparr>,
      ([RunFind demo_context JNull (JStr ''Post'') (JObj [(''first'', JNum 500)]) None], ()))"
    by (simp add: find_resolve_def bindM_perform liftE_def connectionResultsArray_def
                  pageSize_def requestedPageSize_def obj_get_def demo_paging_def demo_post_def)
  from page_cap_100[of crowded_backend demo_paging "''Post''" "[(''first'', JNum 500)]"
                       demo_context JNull "([], ())" _ _ demo_globalId "''likes''" JNull] run
  show ?thesis by simp
qed

text \<open>
  Claim C7. For every parent object whose \<^verbatim>\<open>className\<close> and \<^verbatim>\<open>objectId\<close> can be read
  and every Relation field, the relation resolver issues exactly one storage call: a find
  under the parent's class name, with the caller's arguments extended by
  \<^verbatim>\<open>redirectClassNameForKey = fieldName\<close> and with the filter
  \<^verbatim>\<open>{ $relatedTo: { object: Pointer to the parent, key: fieldName } }\<close>. When it returns a
  Connection, every result of the find has received as \<^verbatim>\<open>id\<close> the global identifier
  of its own class name and objectId, nothing else of it has changed, and the Connection
  is \<^verbatim>\<open>connectionResultsArray\<close> of these results, the extended arguments and 100: its
  nodes are the page window of the results, the edges running parallel to them.
\<close>

theorem relation_resolver_contract:
  assumes pc: "js_get parent ''className'' = Inr parentClassName"
    and po: "js_get parent ''objectId'' = Inr parentObjectId"
    and run: "relation_resolve be getGloballyUniqueId pg fieldName parent args context info (tr, w)
                = (r, (tr', w'))"
  shows "tr' = tr @ [RunFind context info parentClassName
                       (JObj (AList.update ''redirectClassNameForKey'' (JStr fieldName) args))
                       (Some (JObj [(''$relatedTo'',
                          JObj [(''object'', JObj [(''__type'', JStr ''Pointer''),
                                                   (''className'', parentClassName),
                                                   (''objectId'', parentObjectId)]),
                                (''key'', JStr fieldName)])]))]
       \<and> (\<forall>conn. r = Inr conn \<longrightarrow>
            (\<exists>xs ps xs'.
               be (RunFind context info parentClassName
                     (JObj (AList.update ''redirectClassNameForKey'' (JStr fieldName) args))
                     (Some (relatedToQuery parentClassName parentObjectId fieldName))) w
                 = (Inr (JArr xs ps), w')
             \<and> list_all2 (idAssigned getGloballyUniqueId) xs xs'
             \<and> connectionResultsArray pg (JArr xs' ps)
                   (AList.update ''redirectClassNameForKey'' (JStr fieldName) args) 100
                 = Inr conn
             \<and> nodes conn
                 = take (pageSize (AList.update ''redirectClassNameForKey'' (JStr fieldName) args)
                           100) xs'
             \<and> map fst (edges conn) = nodes conn))"
proof -
  let ?args1 = "AList.update ''redirectClassNameForKey'' (JStr fieldName) args"
  let ?c = "RunFind context info parentClassName (JObj ?args1)
              (Some (relatedToQuery parentClassName parentObjectId fieldName))"
  from run pc po have tr: "tr' = tr @ [?c]"
    by (auto simp: relation_resolve_def bindM_perform bindM_liftE liftE_apply
             split: prod.splits sum.splits)
  have res: "\<exists>xs ps xs'. be ?c w = (Inr (JArr xs ps), w')
             \<and> list_all2 (idAssigned getGloballyUniqueId) xs xs'
             \<and> connectionResultsArray pg (JArr xs' ps) ?args1 100 = Inr conn
             \<and> nodes conn = take (pageSize ?args1 100) xs'
             \<and> map fst (edges conn) = nodes conn"
    if "r = Inr conn" for conn
  proof -
    from run pc po that obtain results results1 where
        b: "be ?c w = (Inr results, w')"
      and f: "forEachAssignId getGloballyUniqueId results = Inr results1"
      and c: "connectionResultsArray pg results1 ?args1 100 = Inr conn"
      by (auto simp: relation_resolve_def bindM_perform bindM_liftE liftE_apply
               split: prod.splits sum.splits)
    from f obtain xs ps xs' where
        r: "results = JArr xs ps" and r1: "results1 = JArr xs' ps"
      and a: "assignIds getGloballyUniqueId xs = Inr xs'"
      by (auto simp: forEachAssignId_def split: jsval.splits sum.splits)
    from a have "list_all2 (idAssigned getGloballyUniqueId) xs xs'"
      by (rule assignIds_idAssigned)
    moreover from c r1 have "nodes conn = take (pageSize ?args1 100) xs'
                           \<and> map fst (edges conn) = nodes conn"
      by (simp add: connectionResultsArray_nodes)
    moreover from c r1 have "connectionResultsArray pg (JArr xs' ps) ?args1 100 = Inr conn"
      by simp
    ultimately show ?thesis using b r by blast
  qed
  from tr res show ?thesis by (simp add: relatedToQuery_def)
qed

theorem relation_resolver_contract_witness:
  "js_get demo_post ''className'' = Inr (JStr ''Post'')
   \<and> js_get demo_post ''objectId'' = Inr (JStr ''a1'')
   \<and> relation_resolve demo_backend demo_globalId demo_paging ''likes'' demo_post
        [(''first'', JNum 10)] demo_context JNull ([], demo_users)
      = (Inr \<lparr>nodes = [JObj [(''className'', JStr ''_User''), (''objectId'', JStr ''u1''),
                              (''username'', JStr ''ann''), (''id'', JStr ''_User::u1'')]],
              edges = [(JObj [(''className'', JStr ''_User''), (''objectId'', JStr ''u1''),
                              (''username'', JStr ''ann''), (''id'', JStr ''_User::u1'')],
                        JStr ''u1'')],
              pageInfo = JObj [(''hasNextPage'', JBool False),
                               (''hasPreviousPage'', JBool False)]\<rparr>,
         ([RunFind demo_context JNull (JStr ''Post'')
             (JObj [(''first'', JNum 10), (''redirectClassNameForKey'', JStr ''likes'')])
             (Some (JObj [(''$relatedTo'',
                JObj [(''object'', JObj [(''__type'', JStr ''Pointer''),
                                         (''className'', JStr ''Post''),
                                         (''objectId'', JStr ''a1'')]),
                      (''key'', JStr ''likes'')])]))],
          demo_users))"
proof -
  have pc: "js_get demo_post ''className'' = Inr (JStr ''Post'')"
    and po: "js_get demo_post ''objectId'' = Inr (JStr ''a1'')"
    by (simp_all add: demo_post_def obj_get_def)
  have run: "relation_resolve demo_backend demo_globalId demo_paging ''likes'' demo_post
        [(''first'', JNum 10)] demo_context JNull ([], demo_users)
      = (Inr \<lparr>nodes = [JObj [(''className'', JStr ''_User''), (''objectId'', JStr ''u1''),
                              (''username'', JStr ''ann''), (''id'', JStr ''_User::u1'')]],
              edges = [(JObj [(''className'', JStr ''_User''), (''objectId'', JStr ''u1''),
                              (''username'', JStr ''ann''), (''id'', JStr ''_User::u1'')],
                        JStr ''u1'')],
              pageInfo = JObj [(''hasNextPage'', JBool False),
                               (''hasPreviousPage'', JBool False)]\<rparr>,
         ([RunFind demo_context JNull (JStr ''Post'')
             (JObj [(''first'', JNum 10), (''redirectClassNameForKey'', JStr ''likes'')])
             (Some (JObj [(''$relatedTo'',
                JObj [(''object'', JObj [(''__type'', JStr ''Pointer''),
                                         (''className'', JStr ''Post''),
                                         (''objectId'', JStr ''a1'')]),
                      (''key'', JStr ''likes'')])]))],
          demo_users))"
    by (simp add: relation_resolve_def pc po bindM_perform liftE_apply relatedToQuery_def
                  forEachAssignId_def assignId_def connectionResultsArray_def pageSize_def
                  requestedPageSize_def obj_get_def demo_paging_def demo_users_def
                  demo_globalId_def)
  from relation_resolver_contract[OF pc po run] pc po run show ?thesis by simp
qed

section \<open>Lemmas on the type cache and the builders\<close>

lemma stable_refl: "stable obj obj"
  by (simp add: stable_def split: heap_obj.splits)

lemma stable_trans: "stable a b \<Longrightarrow> stable b c \<Longrightarrow> stable a c"
  by (auto simp: stable_def split: heap_obj.splits)

lemma steady_refl: "steady st st"
  by (simp add: steady_def stable_refl)

lemma steady_trans:
  assumes "steady a b" and "steady b c"
  shows "steady a c"
  unfolding steady_def
proof (intro conjI allI impI)
  show "length (cs_heap a) \<le> length (cs_heap c)"
    using assms by (simp add: steady_def)
next
  fix x assume x: "x < length (cs_heap a)"
  with assms have "stable (cs_heap a ! x) (cs_heap b ! x)" "stable (cs_heap b ! x) (cs_heap c ! x)"
    by (simp_all add: steady_def)
  then show "stable (cs_heap a ! x) (cs_heap c ! x)" by (rule stable_trans)
next
  fix k ca assume "map_of (cs_cache a) k = Some ca"
  with assms show "map_of (cs_cache c) k = Some ca" by (simp add: steady_def)
qed

lemma good_refl: "good st st"
  by (simp add: good_def steady_refl)

lemma good_trans: "good a b \<Longrightarrow> good b c \<Longrightarrow> good a c"
  by (auto simp: good_def intro: steady_trans)

lemma deref_heap_append:
  "deref (st\<lparr>cs_heap := cs_heap st @ [obj]\<rparr>) a =
     (if a = length (cs_heap st) then Some obj else deref st a)"
  by (auto simp: deref_def nth_append)

lemma good_alloc:
  assumes "\<forall>pc. obj \<noteq> ParseClassObj pc"
  shows "good st (st\<lparr>cs_heap := cs_heap st @ [obj]\<rparr>)"
  using assms
  by (auto simp: good_def steady_def consistent_def stable_refl nth_append deref_heap_append
                 deref_def)

lemma good_console: "good st (st\<lparr>cs_console := es\<rparr>)"
  by (auto simp: good_def steady_def consistent_def stable_refl deref_def)

lemma deref_heap_update:
  "deref (st\<lparr>cs_heap := (cs_heap st)[c := obj]\<rparr>) a =
     (if a = c \<and> c < length (cs_heap st) then Some obj else deref st a)"
  by (auto simp: deref_def)

lemma good_memo_write:
  assumes c: "deref st c = Some (ParseClassObj pc)"
    and p: "map_of (pc_memo pc) p = None"
  shows "good st (st\<lparr>cs_heap := (cs_heap st)
                       [c := ParseClassObj (pc\<lparr>pc_memo := AList.update p t (pc_memo pc)\<rparr>)]\<rparr>)"
proof -
  from c have lt: "c < length (cs_heap st)" and at: "cs_heap st ! c = ParseClassObj pc"
    by (auto simp: deref_def split: if_splits)
  have st: "stable (ParseClassObj pc)
              (ParseClassObj (pc\<lparr>pc_memo := AList.update p t (pc_memo pc)\<rparr>))"
    using p by (auto simp: stable_def update_conv')
  show ?thesis
    unfolding good_def steady_def consistent_def
    using lt at st c
    by (auto simp: stable_refl nth_list_update deref_heap_update)
       (metis heap_obj.inject(1) option.inject)
qed

lemma good_new_class:
  assumes "map_of (cs_cache st) cn = None" and "pc_className pc = cn"
  shows "good st (st\<lparr>cs_heap := cs_heap st @ [ParseClassObj pc],
                     cs_cache := cs_cache st @ [(cn, length (cs_heap st))]\<rparr>)"
  using assms
  unfolding good_def steady_def consistent_def
  by (auto simp: stable_refl nth_append deref_def map_add_def split: option.splits if_splits)

lemma readPC_run: "deref st c = Some (ParseClassObj pc) \<Longrightarrow> readPC c st = (Inr pc, st)"
  by (simp add: readPC_def)

lemma readPC_fail: "\<forall>pc. deref st c \<noteq> Some (ParseClassObj pc) \<Longrightarrow> readPC c st = (Inl TypeError, st)"
  by (auto simp: readPC_def split: option.splits heap_obj.splits)

lemma readPC_state: "readPC c st = (r, st') \<Longrightarrow> st' = st"
  by (auto simp: readPC_def split: option.splits heap_obj.splits)

lemma alloc_run: "alloc obj st = (Inr (length (cs_heap st)), st\<lparr>cs_heap := cs_heap st @ [obj]\<rparr>)"
  by (simp add: alloc_def)

lemma deref_lt: "deref st a = Some obj \<Longrightarrow> a < length (cs_heap st)"
  by (simp add: deref_def split: if_splits)

lemma memoType_spec:
  assumes cfg: "cfg_ok Q config this" and pQ: "p \<in> Q"
    and at: "deref st this = Some (ParseClassObj pc)"
  shows "\<exists>t st' pc'. memoType p config this st = (Inr t, st') \<and> good st st'
           \<and> cs_console st' = cs_console st
           \<and> deref st' this = Some (ParseClassObj pc')
           \<and> map_of (pc_memo pc') p = Some t
           \<and> (\<forall>q\<in>Q. q \<noteq> p \<longrightarrow> map_of (pc_memo pc') q = map_of (pc_memo pc) q)"
proof (cases "map_of (pc_memo pc) p")
  case (Some t)
  then have "memoType p config this st = (Inr t, st)"
    using at by (simp add: memoType_def bindM_def readPC_run returnM_def)
  with Some at show ?thesis by (auto intro: good_refl)
next
  case None
  from cfg at obtain ty st1 pc1 where
      c: "config this st = (Inr ty, st1)" and g1: "good st st1"
    and q1: "cs_console st1 = cs_console st"
    and d1: "deref st1 this = Some (ParseClassObj pc1)"
    and f1: "\<forall>q\<in>Q. map_of (pc_memo pc1) q = map_of (pc_memo pc) q"
    unfolding cfg_ok_def by blast
  let ?t = "length (cs_heap st1)"
  let ?st2 = "st1\<lparr>cs_heap := cs_heap st1 @ [TypeObj ty]\<rparr>"
  let ?pc' = "pc1\<lparr>pc_memo := AList.update p ?t (pc_memo pc1)\<rparr>"
  let ?st3 = "?st2\<lparr>cs_heap := (cs_heap ?st2)[this := ParseClassObj ?pc']\<rparr>"
  from d1 have lt: "this < length (cs_heap st1)" by (rule deref_lt)
  have d2: "deref ?st2 this = Some (ParseClassObj pc1)"
    using d1 lt by (simp add: deref_heap_append)
  have n1: "map_of (pc_memo pc1) p = None" using f1 pQ None by simp
  have run: "memoType p config this st = (Inr ?t, ?st3)"
    using at None c d2
    by (simp add: memoType_def bindM_def readPC_run returnM_def alloc_run writePC_def)
  have g2: "good st1 ?st2" by (rule good_alloc) simp
  have g3: "good ?st2 ?st3" using d2 n1 by (rule good_memo_write)
  have g: "good st ?st3" using g1 g2 g3 by (blast intro: good_trans)
  have d3: "deref ?st3 this = Some (ParseClassObj ?pc')"
    using lt by (simp add: deref_def)
  have "map_of (pc_memo ?pc') p = Some ?t" by (simp add: update_conv')
  moreover have "\<forall>q\<in>Q. q \<noteq> p \<longrightarrow> map_of (pc_memo ?pc') q = map_of (pc_memo pc) q"
    using f1 by (simp add: update_conv')
  moreover have "cs_console ?st3 = cs_console st" using q1 by simp
  ultimately show ?thesis using run g d3 by blast
qed

lemma memoType_good:
  assumes cfg: "cfg_ok Q config this" and pQ: "p \<in> Q"
    and run: "memoType p config this st = (r, st')"
  shows "good st st'"
proof (cases "\<exists>pc. deref st this = Some (ParseClassObj pc)")
  case True
  then obtain pc where "deref st this = Some (ParseClassObj pc)" ..
  from memoType_spec[OF cfg pQ this] run show ?thesis by auto
next
  case False
  then have "readPC this st = (Inl TypeError, st)" by (simp add: readPC_fail)
  with run have "st' = st" by (simp add: memoType_def bindM_def)
  then show ?thesis by (simp add: good_refl)
qed

lemma cfg_ok_graphQLConfig: "cfg_ok UNIV graphQLConfig this"
  by (auto simp: cfg_ok_def graphQLConfig_def bindM_def readPC_run returnM_def intro: good_refl)

lemma cfg_ok_graphQLQueryConfig: "cfg_ok UNIV graphQLQueryConfig this"
  by (auto simp: cfg_ok_def graphQLQueryConfig_def bindM_def readPC_run returnM_def intro: good_refl)

lemma cfg_ok_graphQLInputConfig: "cfg_ok UNIV graphQLInputConfig this"
  by (auto simp: cfg_ok_def graphQLInputConfig_def bindM_def readPC_run returnM_def intro: good_refl)

lemma cfg_ok_graphQLUpdateInputConfig: "cfg_ok UNIV graphQLUpdateInputConfig this"
  by (auto simp: cfg_ok_def graphQLUpdateInputConfig_def bindM_def readPC_run returnM_def
           intro: good_refl)

lemma graphQLObjectType_spec:
  assumes "deref st this = Some (ParseClassObj pc)"
  shows "\<exists>t st' pc'. graphQLObjectType this st = (Inr t, st') \<and> good st st'
           \<and> cs_console st' = cs_console st
           \<and> deref st' this = Some (ParseClassObj pc')
           \<and> map_of (pc_memo pc') objectType = Some t
           \<and> (\<forall>q. q \<noteq> objectType \<longrightarrow> map_of (pc_memo pc') q = map_of (pc_memo pc) q)"
  using memoType_spec[OF cfg_ok_graphQLConfig _ assms, of objectType]
  by (simp add: graphQLObjectType_def)

lemma cfg_ok_graphQLQueryResultConfig:
  "cfg_ok (UNIV - {objectType}) graphQLQueryResultConfig this"
  unfolding cfg_ok_def
proof (intro allI impI)
  fix st pc assume d: "deref st this = Some (ParseClassObj pc)"
  from graphQLObjectType_spec[OF d] obtain ot st1 pc1 where
      r: "graphQLObjectType this st = (Inr ot, st1)" and g: "good st st1"
    and q: "cs_console st1 = cs_console st"
    and d1: "deref st1 this = Some (ParseClassObj pc1)"
    and f: "\<forall>q. q \<noteq> objectType \<longrightarrow> map_of (pc_memo pc1) q = map_of (pc_memo pc) q"
    by blast
  let ?edge = "TypeObj \<lparr>t_kind = ObjectType, t_name = pc_displayName pc1 @ ''Edge'',
                         t_description = None, t_fields = EdgeFields ot\<rparr>"
  let ?st2 = "st1\<lparr>cs_heap := cs_heap st1 @ [?edge]\<rparr>"
  have g2: "good st1 ?st2" by (rule good_alloc) simp
  have d2: "deref ?st2 this = Some (ParseClassObj pc1)"
    using d1 deref_lt[OF d1] by (simp add: deref_heap_append)
  have "\<exists>ty. graphQLQueryResultConfig this st = (Inr ty, ?st2)"
    using r d1 by (simp add: graphQLQueryResultConfig_def bindM_def readPC_run alloc_run returnM_def)
  moreover have "cs_console ?st2 = cs_console st" using q by simp
  moreover note g g2 d2 f
  ultimately
  show "\<exists>ty st1 pc1. graphQLQueryResultConfig this st = (Inr ty, st1) \<and> good st st1
          \<and> cs_console st1 = cs_console st
          \<and> deref st1 this = Some (ParseClassObj pc1)
          \<and> (\<forall>q\<in>UNIV - {objectType}. map_of (pc_memo pc1) q = map_of (pc_memo pc) q)"
    by (blast intro: good_trans)
qed

lemma cfg_ok_graphQLMutationResultConfig:
  "cfg_ok (UNIV - {objectType}) graphQLMutationResultConfig this"
  unfolding cfg_ok_def
proof (intro allI impI)
  fix st pc assume d: "deref st this = Some (ParseClassObj pc)"
  from graphQLObjectType_spec[OF d] obtain ot st1 pc1 where
      r: "graphQLObjectType this st = (Inr ot, st1)" and g: "good st st1"
    and q: "cs_console st1 = cs_console st"
    and d1: "deref st1 this = Some (ParseClassObj pc1)"
    and f: "\<forall>q. q \<noteq> objectType \<longrightarrow> map_of (pc_memo pc1) q = map_of (pc_memo pc) q"
    by blast
  have "\<exists>ty. graphQLMutationResultConfig this st = (Inr ty, st1)"
    using r d1 by (simp add: graphQLMutationResultConfig_def bindM_def readPC_run returnM_def)
  with g d1 f q
  show "\<exists>ty st1 pc1. graphQLMutationResultConfig this st = (Inr ty, st1) \<and> good st st1
          \<and> cs_console st1 = cs_console st
          \<and> deref st1 this = Some (ParseClassObj pc1)
          \<and> (\<forall>q\<in>UNIV - {objectType}. map_of (pc_memo pc1) q = map_of (pc_memo pc) q)"
    by blast
qed

lemma good_steady: "good st st' \<Longrightarrow> steady st st'"
  by (simp add: good_def)

lemma good_consistent: "good st st' \<Longrightarrow> consistent st \<Longrightarrow> consistent st'"
  by (simp add: good_def)

lemma steady_length: "steady st st' \<Longrightarrow> length (cs_heap st) \<le> length (cs_heap st')"
  by (simp add: steady_def)

lemma steady_cache: "steady st st' \<Longrightarrow> map_of (cs_cache st) k = Some c
    \<Longrightarrow> map_of (cs_cache st') k = Some c"
  by (simp add: steady_def)

lemma steady_pc:
  assumes "steady st st'" and "deref st c = Some (ParseClassObj pc)"
  shows "\<exists>pc'. deref st' c = Some (ParseClassObj pc')
           \<and> pc_className pc' = pc_className pc
           \<and> pc_displayName pc' = pc_displayName pc
           \<and> pc_schema pc' = pc_schema pc
           \<and> pc_class pc' = pc_class pc
           \<and> (\<forall>p t. map_of (pc_memo pc) p = Some t \<longrightarrow> map_of (pc_memo pc') p = Some t)"
proof -
  from assms(2) have lt: "c < length (cs_heap st)" and at: "cs_heap st ! c = ParseClassObj pc"
    by (auto simp: deref_def split: if_splits)
  from assms(1) lt have "stable (cs_heap st ! c) (cs_heap st' ! c)"
    and "c < length (cs_heap st')"
    by (auto simp: steady_def)
  with at show ?thesis by (auto simp: stable_def deref_def)
qed

lemma ParseClass_new_run:
  "ParseClass_new className sch st =
     (Inr (length (cs_heap st)),
      st\<lparr>cs_heap := cs_heap st @ [ParseClassObj
              \<lparr>pc_className = className, pc_displayName = displayNameOf className,
               pc_schema = sch, pc_class = schema_class sch className, pc_memo = []\<rparr>],
         cs_console := cs_console st
            @ (if schema_class sch className = Undeclared then missingClassWarning className else [])\<rparr>)"
  by (simp add: ParseClass_new_def bindM_def alloc_run consoleLog_def returnM_def)

lemma getOrElse_hit:
  "map_of (cs_cache st) key = Some c \<Longrightarrow> getOrElse key factory st = (Inr c, st)"
  by (simp add: getOrElse_def)

lemma getOrElse_spec:
  assumes con: "consistent st"
  shows "\<exists>c st1 pc. getOrElse cn (ParseClass_new cn sch) st = (Inr c, st1)
           \<and> good st st1 \<and> consistent st1
           \<and> map_of (cs_cache st1) cn = Some c
           \<and> deref st1 c = Some (ParseClassObj pc) \<and> pc_className pc = cn
           \<and> (map_of (cs_cache st) cn \<noteq> None \<longrightarrow> st1 = st)
           \<and> (map_of (cs_cache st) cn = None \<longrightarrow>
                 c = length (cs_heap st) \<and> pc_class pc = schema_class sch cn
               \<and> cs_console st1 = cs_console st
                    @ (if schema_class sch cn = Undeclared then missingClassWarning cn else []))"
proof (cases "map_of (cs_cache st) cn")
  case (Some c)
  with con obtain pc where "deref st c = Some (ParseClassObj pc)" "pc_className pc = cn"
    unfolding consistent_def by blast
  with Some con show ?thesis by (auto simp: getOrElse_hit intro: good_refl)
next
  case None
  let ?pc = "\<lparr>pc_className = cn, pc_displayName = displayNameOf cn,
               pc_schema = sch, pc_class = schema_class sch cn, pc_memo = []\<rparr>"
  let ?c = "length (cs_heap st)"
  let ?log = "cs_console st @ (if schema_class sch cn = Undeclared then missingClassWarning cn else [])"
  let ?sa = "st\<lparr>cs_heap := cs_heap st @ [ParseClassObj ?pc],
                cs_cache := cs_cache st @ [(cn, ?c)]\<rparr>"
  let ?st1 = "?sa\<lparr>cs_console := ?log\<rparr>"
  have run: "getOrElse cn (ParseClass_new cn sch) st = (Inr ?c, ?st1)"
    using None by (simp add: getOrElse_def ParseClass_new_run)
  have "good st ?sa" using None by (intro good_new_class) simp_all
  moreover have "good ?sa ?st1" by (rule good_console)
  ultimately have g: "good st ?st1" by (rule good_trans)
  then have c1: "consistent ?st1" using con by (rule good_consistent)
  have m: "map_of (cs_cache ?st1) cn = Some ?c" using None by (simp add: map_add_def)
  have d: "deref ?st1 ?c = Some (ParseClassObj ?pc)" by (simp add: deref_def)
  show ?thesis
    using run g c1 m d None by (intro exI[of _ ?c] exI[of _ ?st1] exI[of _ ?pc]) simp
qed

lemma memo_getters_spec:
  assumes "deref st this = Some (ParseClassObj pc)"
  shows "\<exists>t st' pc'. graphQLInputObjectType this st = (Inr t, st') \<and> good st st'
           \<and> cs_console st' = cs_console st \<and> deref st' this = Some (ParseClassObj pc')
           \<and> map_of (pc_memo pc') inputObjectType = Some t"
    and "\<exists>t st' pc'. graphQLUpdateInputObjectType this st = (Inr t, st') \<and> good st st'
           \<and> cs_console st' = cs_console st \<and> deref st' this = Some (ParseClassObj pc')
           \<and> map_of (pc_memo pc') updateInputObjectType = Some t"
    and "\<exists>t st' pc'. graphQLQueryInputObjectType this st = (Inr t, st') \<and> good st st'
           \<and> cs_console st' = cs_console st \<and> deref st' this = Some (ParseClassObj pc')
           \<and> map_of (pc_memo pc') queryInputObjectType = Some t"
    and "\<exists>t st' pc'. graphQLQueryResultType this st = (Inr t, st') \<and> good st st'
           \<and> cs_console st' = cs_console st \<and> deref st' this = Some (ParseClassObj pc')
           \<and> map_of (pc_memo pc') queryResultObjectType = Some t"
    and "\<exists>t st' pc'. graphQLMutationResultType this st = (Inr t, st') \<and> good st st'
           \<and> cs_console st' = cs_console st \<and> deref st' this = Some (ParseClassObj pc')
           \<and> map_of (pc_memo pc') mutationResultObjectType = Some t"
proof -
  show "\<exists>t st' pc'. graphQLInputObjectType this st = (Inr t, st') \<and> good st st'
           \<and> cs_console st' = cs_console st \<and> deref st' this = Some (ParseClassObj pc')
           \<and> map_of (pc_memo pc') inputObjectType = Some t"
    using memoType_spec[OF cfg_ok_graphQLInputConfig _ assms, of inputObjectType]
    unfolding graphQLInputObjectType_def by simp blast
  show "\<exists>t st' pc'. graphQLUpdateInputObjectType this st = (Inr t, st') \<and> good st st'
           \<and> cs_console st' = cs_console st \<and> deref st' this = Some (ParseClassObj pc')
           \<and> map_of (pc_memo pc') updateInputObjectType = Some t"
    using memoType_spec[OF cfg_ok_graphQLUpdateInputConfig _ assms, of updateInputObjectType]
    unfolding graphQLUpdateInputObjectType_def by simp blast
  show "\<exists>t st' pc'. graphQLQueryInputObjectType this st = (Inr t, st') \<and> good st st'
           \<and> cs_console st' = cs_console st \<and> deref st' this = Some (ParseClassObj pc')
           \<and> map_of (pc_memo pc') queryInputObjectType = Some t"
    using memoType_spec[OF cfg_ok_graphQLQueryConfig _ assms, of queryInputObjectType]
    unfolding graphQLQueryInputObjectType_def by simp blast
  show "\<exists>t st' pc'. graphQLQueryResultType this st = (Inr t, st') \<and> good st st'
           \<and> cs_console st' = cs_console st \<and> deref st' this = Some (ParseClassObj pc')
           \<and> map_of (pc_memo pc') queryResultObjectType = Some t"
    using memoType_spec[OF cfg_ok_graphQLQueryResultConfig _ assms, of queryResultObjectType]
    unfolding graphQLQueryResultType_def by simp blast
  show "\<exists>t st' pc'. graphQLMutationResultType this st = (Inr t, st') \<and> good st st'
           \<and> cs_console st' = cs_console st \<and> deref st' this = Some (ParseClassObj pc')
           \<and> map_of (pc_memo pc') mutationResultObjectType = Some t"
    using memoType_spec[OF cfg_ok_graphQLMutationResultConfig _ assms, of mutationResultObjectType]
    unfolding graphQLMutationResultType_def by simp blast
qed

lemma loaded_steady:
  assumes "loaded st cn b" and "steady st st'"
  shows "loaded st' cn b"
proof -
  from assms(1) obtain pc where
      c: "map_of (cs_cache st) cn = Some (b_parseClass b)"
    and d: "deref st (b_parseClass b) = Some (ParseClassObj pc)"
    and p: "pc_className pc = cn" "pc_displayName pc = b_displayName b"
       "map_of (pc_memo pc) objectType = Some (b_objectType b)"
       "map_of (pc_memo pc) inputObjectType = Some (b_inputType b)"
       "map_of (pc_memo pc) updateInputObjectType = Some (b_updateType b)"
       "map_of (pc_memo pc) queryInputObjectType = Some (b_queryType b)"
       "map_of (pc_memo pc) queryResultObjectType = Some (b_queryResultType b)"
       "map_of (pc_memo pc) mutationResultObjectType = Some (b_mutationResultType b)"
    unfolding loaded_def by blast
  from steady_pc[OF assms(2) d] obtain pc' where
      d': "deref st' (b_parseClass b) = Some (ParseClassObj pc')"
    and k: "pc_className pc' = pc_className pc" "pc_displayName pc' = pc_displayName pc"
    and m: "\<forall>p t. map_of (pc_memo pc) p = Some t \<longrightarrow> map_of (pc_memo pc') p = Some t"
    by blast
  from steady_cache[OF assms(2) c] d' k m p show ?thesis
    unfolding loaded_def by simp
qed

lemma loaded_same:
  assumes "loaded st cn b" and "loaded st cn b'"
  shows "b_parseClass b' = b_parseClass b \<and> b_displayName b' = b_displayName b
       \<and> b_objectType b' = b_objectType b \<and> b_inputType b' = b_inputType b
       \<and> b_updateType b' = b_updateType b \<and> b_queryType b' = b_queryType b
       \<and> b_queryResultType b' = b_queryResultType b
       \<and> b_mutationResultType b' = b_mutationResultType b"
  using assms unfolding loaded_def by auto

lemma loadClass_spec:
  assumes con: "consistent st"
  shows "\<exists>b st'. loadClass cn sch st = (Inr b, st')
           \<and> good st st' \<and> consistent st' \<and> loaded st' cn b
           \<and> length (cs_heap st) \<le> b_self b \<and> b_self b < length (cs_heap st')
           \<and> (map_of (cs_cache st) cn = None \<longrightarrow>
                 b_parseClass b = length (cs_heap st)
               \<and> cs_console st' = cs_console st
                    @ (if schema_class sch cn = Undeclared then missingClassWarning cn else [])
               \<and> (\<exists>pc. deref st' (b_parseClass b) = Some (ParseClassObj pc)
                      \<and> pc_class pc = schema_class sch cn \<and> pc_schema pc = sch))
           \<and> (map_of (cs_cache st) cn \<noteq> None \<longrightarrow> cs_console st' = cs_console st)"
proof -
  obtain c s1 pc1 where
      r1: "getOrElse cn (ParseClass_new cn sch) st = (Inr c, s1)"
    and g1: "good st s1" and m1: "map_of (cs_cache s1) cn = Some c"
    and d1: "deref s1 c = Some (ParseClassObj pc1)" and n1: "pc_className pc1 = cn"
    and h1: "map_of (cs_cache st) cn \<noteq> None \<longrightarrow> s1 = st"
    using getOrElse_spec[OF con, of cn sch] by blast
  have f1: "map_of (cs_cache st) cn = None \<longrightarrow>
                 c = length (cs_heap st)
               \<and> cs_console s1 = cs_console st
                    @ (if schema_class sch cn = Undeclared then missingClassWarning cn else [])"
    using r1 by (auto simp: getOrElse_def ParseClass_new_run)
  have k1: "map_of (cs_cache st) cn = None \<longrightarrow>
              pc_class pc1 = schema_class sch cn \<and> pc_schema pc1 = sch"
    using r1 d1 by (auto simp: getOrElse_def ParseClass_new_run deref_def)
  from graphQLObjectType_spec[OF d1] obtain t2 s2 pc2 where
      r2: "graphQLObjectType c s1 = (Inr t2, s2)" and g2: "good s1 s2"
    and q2: "cs_console s2 = cs_console s1"
    and d2: "deref s2 c = Some (ParseClassObj pc2)"
    and m2: "map_of (pc_memo pc2) objectType = Some t2"
    by blast
  from memo_getters_spec(1)[OF d2] obtain t3 s3 pc3 where
      r3: "graphQLInputObjectType c s2 = (Inr t3, s3)" and g3: "good s2 s3"
    and q3: "cs_console s3 = cs_console s2"
    and d3: "deref s3 c = Some (ParseClassObj pc3)"
    and m3: "map_of (pc_memo pc3) inputObjectType = Some t3"
    by blast
  from memo_getters_spec(2)[OF d3] obtain t4 s4 pc4 where
      r4: "graphQLUpdateInputObjectType c s3 = (Inr t4, s4)" and g4: "good s3 s4"
    and q4: "cs_console s4 = cs_console s3"
    and d4: "deref s4 c = Some (ParseClassObj pc4)"
    and m4: "map_of (pc_memo pc4) updateInputObjectType = Some t4"
    by blast
  from memo_getters_spec(3)[OF d4] obtain t5 s5 pc5 where
      r5: "graphQLQueryInputObjectType c s4 = (Inr t5, s5)" and g5: "good s4 s5"
    and q5: "cs_console s5 = cs_console s4"
    and d5: "deref s5 c = Some (ParseClassObj pc5)"
    and m5: "map_of (pc_memo pc5) queryInputObjectType = Some t5"
    by blast
  from memo_getters_spec(4)[OF d5] obtain t6 s6 pc6 where
      r6: "graphQLQueryResultType c s5 = (Inr t6, s6)" and g6: "good s5 s6"
    and q6: "cs_console s6 = cs_console s5"
    and d6: "deref s6 c = Some (ParseClassObj pc6)"
    and m6: "map_of (pc_memo pc6) queryResultObjectType = Some t6"
    by blast
  from memo_getters_spec(5)[OF d6] obtain t7 s7 pc7 where
      r7: "graphQLMutationResultType c s6 = (Inr t7, s7)" and g7: "good s6 s7"
    and q7: "cs_console s7 = cs_console s6"
    and d7: "deref s7 c = Some (ParseClassObj pc7)"
    and m7: "map_of (pc_memo pc7) mutationResultObjectType = Some t7"
    by blast
  let ?s8 = "s7\<lparr>cs_heap := cs_heap s7 @ [TypeObj (destroyInputConfig (pc_displayName pc7))]\<rparr>"
  let ?s9 = "?s8\<lparr>cs_heap := cs_heap ?s8 @ [PlainObj]\<rparr>"
  have g8: "good s7 ?s8" by (rule good_alloc) simp
  have g9: "good ?s8 ?s9" by (rule good_alloc) simp
  obtain b where
      run: "loadClass cn sch st = (Inr b, ?s9)"
    and b: "b_parseClass b = c" "b_displayName b = pc_displayName pc7"
       "b_objectType b = t2" "b_inputType b = t3" "b_updateType b = t4" "b_queryType b = t5"
       "b_queryResultType b = t6" "b_mutationResultType b = t7"
       "b_self b = Suc (length (cs_heap s7))"
    using r1 r2 r3 r4 r5 r6 r7 d7
    by (simp add: loadClass_def bindM_def readPC_run alloc_run returnM_def)
  have g79: "good s7 ?s9" using g8 g9 by (rule good_trans)
  have g69: "good s6 ?s9" using g7 g79 by (rule good_trans)
  have g59: "good s5 ?s9" using g6 g69 by (rule good_trans)
  have g49: "good s4 ?s9" using g5 g59 by (rule good_trans)
  have g39: "good s3 ?s9" using g4 g49 by (rule good_trans)
  have g29: "good s2 ?s9" using g3 g39 by (rule good_trans)
  have g19: "good s1 ?s9" using g2 g29 by (rule good_trans)
  have g09: "good st ?s9" using g1 g19 by (rule good_trans)
  have con9: "consistent ?s9" using g09 con by (rule good_consistent)
  have cache9: "map_of (cs_cache ?s9) cn = Some c"
    using steady_cache[OF good_steady[OF g19] m1] .
  from steady_pc[OF good_steady[OF g19] d1] obtain pc9' where
      d9': "deref ?s9 c = Some (ParseClassObj pc9')"
    and k9': "pc_class pc9' = pc_class pc1" "pc_schema pc9' = pc_schema pc1"
    by blast
  have fr: "map_of (cs_cache st) cn = None \<longrightarrow>
              (\<exists>pc. deref ?s9 c = Some (ParseClassObj pc)
                 \<and> pc_class pc = schema_class sch cn \<and> pc_schema pc = sch)"
    using d9' k9' k1 by auto
  from steady_pc[OF good_steady[OF g79] d7] obtain pc9 where
      d9: "deref ?s9 c = Some (ParseClassObj pc9)"
    and k9: "pc_className pc9 = pc_className pc7" "pc_displayName pc9 = pc_displayName pc7"
    and mm7: "\<forall>p t. map_of (pc_memo pc7) p = Some t \<longrightarrow> map_of (pc_memo pc9) p = Some t"
    by blast
  have same: "\<And>s pc p t. good s ?s9 \<Longrightarrow> deref s c = Some (ParseClassObj pc)
                \<Longrightarrow> map_of (pc_memo pc) p = Some t \<Longrightarrow> map_of (pc_memo pc9) p = Some t"
    using steady_pc[OF good_steady] d9 by fastforce
  have cn9: "pc_className pc9 = cn"
    using steady_pc[OF good_steady[OF g19] d1] d9 n1 by auto
  have ld: "loaded ?s9 cn b"
    unfolding loaded_def
    using cache9 d9 cn9 k9 b
      same[OF g29 d2 m2] same[OF g39 d3 m3] same[OF g49 d4 m4] same[OF g59 d5 m5]
      same[OF g69 d6 m6] same[OF g79 d7 m7]
    by simp
  have len: "length (cs_heap st) \<le> length (cs_heap s7)"
    using g1 g2 g3 g4 g5 g6 g7 by (meson good_steady steady_length order_trans)
  have cons: "cs_console ?s9 = cs_console s1" using q2 q3 q4 q5 q6 q7 by simp
  have fresh: "map_of (cs_cache st) cn = None \<longrightarrow>
                 b_parseClass b = length (cs_heap st)
               \<and> cs_console ?s9 = cs_console st
                    @ (if schema_class sch cn = Undeclared then missingClassWarning cn else [])
               \<and> (\<exists>pc. deref ?s9 (b_parseClass b) = Some (ParseClassObj pc)
                      \<and> pc_class pc = schema_class sch cn \<and> pc_schema pc = sch)"
    using f1 fr b(1) cons by simp
  have cached: "map_of (cs_cache st) cn \<noteq> None \<longrightarrow> cs_console ?s9 = cs_console st"
    using h1 cons by auto
  have self1: "length (cs_heap st) \<le> b_self b" using len b(9) by simp
  have self2: "b_self b < length (cs_heap ?s9)" using b(9) by simp
  show ?thesis
    by (intro exI[of _ b] exI[of _ ?s9] conjI)
       (fact run g09 con9 ld self1 self2 fresh cached)+
qed

lemma keeps_refl: "keeps st st"
  by (simp add: keeps_def steady_refl)

lemma keeps_trans: "keeps a b \<Longrightarrow> keeps b c \<Longrightarrow> keeps a c"
  by (auto simp: keeps_def intro: steady_trans)

lemma good_keeps: "good st st' \<Longrightarrow> keeps st st'"
  by (simp add: good_def keeps_def)

lemma loadClass_keeps: "loadClass cn sch st = (r, st') \<Longrightarrow> keeps st st'"
  using loadClass_spec[of st cn sch] by (auto simp: keeps_def good_def)

lemma loadTargetClass_keeps: "loadTargetClass field sch st = (r, st') \<Longrightarrow> keeps st st'"
  by (auto simp: loadTargetClass_def throwM_def keeps_refl split: option.splits
           dest: loadClass_keeps)

lemma bindM_keeps:
  assumes "bindM m f st = (r, st')"
    and "\<And>r1 s1. m st = (r1, s1) \<Longrightarrow> keeps st s1"
    and "\<And>x s1 r2 s2. f x s1 = (r2, s2) \<Longrightarrow> keeps s1 s2"
  shows "keeps st st'"
  using assms(1)
proof (cases rule: bindM_cases)
  case (throws e)
  then show ?thesis using assms(2) by blast
next
  case (returns x s1)
  then show ?thesis using assms(2,3) keeps_trans by blast
qed

lemma returnM_keeps: "returnM x st = (r, st') \<Longrightarrow> keeps st st'"
  by (auto simp: returnM_def keeps_refl)

lemma getRelationField_keeps: "getRelationField n f sch st = (r, st') \<Longrightarrow> keeps st st'"
  unfolding getRelationField_def
  by (erule bindM_keeps) (auto dest: loadTargetClass_keeps returnM_keeps)

lemma graphQLField_keeps: "graphQLField tm n f sch st = (r, st') \<Longrightarrow> keeps st st'"
  unfolding graphQLField_def Let_def
  by (auto split: if_splits dest: getRelationField_keeps returnM_keeps
           elim!: bindM_keeps loadTargetClass_keeps)

lemma graphQLQueryField_keeps: "graphQLQueryField tm n f sch st = (r, st') \<Longrightarrow> keeps st st'"
  unfolding graphQLQueryField_def Let_def
  by (auto split: if_splits option.splits dest: returnM_keeps
           elim!: bindM_keeps loadTargetClass_keeps)

lemma inputMapper_keeps: "inputMapper tm n f sch st = (r, st') \<Longrightarrow> keeps st st'"
  by (auto simp: inputMapper_def dest: returnM_keeps)

lemma reduceFields_keeps:
  assumes "\<And>n f sch st r st'. mapper n f sch st = (r, st') \<Longrightarrow> keeps st st'"
  shows "reduceFields mapper fr sch fs memo st = (r, st') \<Longrightarrow> keeps st st'"
proof (induction fs arbitrary: memo st)
  case Nil
  then show ?case by (simp add: keeps_refl)
next
  case (Cons a fs)
  obtain n f where a: "a = (n, f)" by (cases a)
  show ?case
  proof (cases "fr \<and> n \<in> set reservedFieldNames")
    case True
    with Cons a show ?thesis by simp
  next
    case False
    obtain r1 s1 where m: "mapper n f sch st = (r1, s1)" by (cases "mapper n f sch st")
    then have k: "keeps st s1" by (rule assms)
    from Cons.prems a False m have "r1 = Inl (projl r1) \<and> st' = s1 \<and> isl r1
        \<or> (\<exists>memo'. reduceFields mapper fr sch fs memo' s1 = (r, st'))"
      by (auto split: sum.splits option.splits)
    then show ?thesis using k Cons.IH keeps_trans by blast
  qed
qed

lemma buildFields_keeps:
  assumes "\<And>n f sch st r st'. mapper n f sch st = (r, st') \<Longrightarrow> keeps st st'"
    and "buildFields mapper fr io this st = (r, st')"
  shows "keeps st st'"
proof -
  have red: "\<And>sch fs memo s r s'. reduceFields mapper fr sch fs memo s = (r, s') \<Longrightarrow> keeps s s'"
    using assms(1) by (rule reduceFields_keeps)
  from assms(2) show ?thesis
    unfolding buildFields_def
    apply (elim bindM_keeps)
     apply (auto dest!: readPC_state simp: keeps_refl)[1]
    apply (auto split: schema_entry.splits elim!: bindM_keeps dest: returnM_keeps red
                simp: consoleLog_def throwM_def keeps_refl intro: good_keeps good_console)
    done
qed

lemma objectFields_keeps: "objectFields tm this st = (r, st') \<Longrightarrow> keeps st st'"
  unfolding objectFields_def
  by (rule buildFields_keeps[of "graphQLField tm"]) (auto dest: graphQLField_keeps)

lemma buildFields_query_keeps:
  "buildFields (graphQLQueryField tm) fr io this st = (r, st') \<Longrightarrow> keeps st st'"
  by (rule buildFields_keeps[of "graphQLQueryField tm"]) (auto dest: graphQLQueryField_keeps)

lemma buildFields_input_keeps:
  "buildFields (inputMapper tm) fr io this st = (r, st') \<Longrightarrow> keeps st st'"
  by (rule buildFields_keeps[of "inputMapper tm"]) (auto dest: inputMapper_keeps)

lemma queryFields_keeps: "queryFields tm this st = (r, st') \<Longrightarrow> keeps st st'"
  unfolding queryFields_def
  by (erule bindM_keeps)
     (auto split: option.splits simp: throwM_def keeps_refl
           dest: buildFields_query_keeps returnM_keeps)

lemma inputFields_keeps: "inputFields tm this st = (r, st') \<Longrightarrow> keeps st st'"
  unfolding inputFields_def
  by (erule bindM_keeps)
     (auto split: option.splits simp: throwM_def keeps_refl
           dest: buildFields_input_keeps returnM_keeps)

lemma updateFields_keeps: "updateFields tm this st = (r, st') \<Longrightarrow> keeps st st'"
  unfolding updateFields_def
  by (erule bindM_keeps)
     (auto split: option.splits simp: throwM_def keeps_refl
           dest: buildFields_input_keeps returnM_keeps)

lemma getFields_keeps: "getFields tm t st = (r, st') \<Longrightarrow> keeps st st'"
  unfolding getFields_def
  by (auto split: option.splits heap_obj.splits fields_src.splits simp: keeps_refl
           dest: objectFields_keeps queryFields_keeps inputFields_keeps updateFields_keeps)

lemma runStep_keeps: "keeps st (runStep tm step st)"
proof (cases step)
  case (LoadClass cn sch)
  then show ?thesis using loadClass_keeps[of cn sch st] by (cases "loadClass cn sch st") simp
next
  case (GetFields t)
  then show ?thesis using getFields_keeps[of tm t st] by (cases "getFields tm t st") simp
qed

lemma runPass_keeps: "keeps st (runPass tm steps st)"
  unfolding runPass_def
proof (induction steps arbitrary: st)
  case Nil
  then show ?case by (simp add: keeps_refl)
next
  case (Cons a steps)
  have "keeps st (runStep tm a st)" by (rule runStep_keeps)
  moreover have "keeps (runStep tm a st) (fold (runStep tm) steps (runStep tm a st))"
    by (rule Cons.IH)
  ultimately show ?case by (simp add: keeps_trans)
qed

lemma filter_upt_single:
  assumes "c < n" and "\<And>a. a < n \<Longrightarrow> P a \<longleftrightarrow> a = c"
  shows "filter P [0..<n] = [c]"
proof -
  have sp: "[0..<n] = [0..<c] @ c # [Suc c..<n]"
    using assms(1) by (metis le0 upt_add_eq_append upt_conv_Cons le_add_diff_inverse less_imp_le_nat)
  have "filter P [0..<n] = filter (\<lambda>a. a = c) [0..<n]"
    using assms(2) by (intro filter_cong) auto
  also have "\<dots> = filter (\<lambda>a. a = c) ([0..<c] @ c # [Suc c..<n])"
    using sp by simp
  also have "\<dots> = [c]" by auto
  finally show ?thesis .
qed

lemma parseClassesOf_cached:
  assumes con: "consistent st" and c: "map_of (cs_cache st) cn = Some c"
  shows "parseClassesOf cn st = [c]"
  unfolding parseClassesOf_def
proof (rule filter_upt_single)
  from con c obtain pc where d: "deref st c = Some (ParseClassObj pc)" and n: "pc_className pc = cn"
    unfolding consistent_def by blast
  from d show "c < length (cs_heap st)" by (rule deref_lt)
  fix a assume a: "a < length (cs_heap st)"
  show "(case cs_heap st ! a of ParseClassObj pc \<Rightarrow> pc_className pc = cn | _ \<Rightarrow> False)
          \<longleftrightarrow> a = c"
  proof
    assume "case cs_heap st ! a of ParseClassObj pc \<Rightarrow> pc_className pc = cn | _ \<Rightarrow> False"
    then obtain pc' where "cs_heap st ! a = ParseClassObj pc'" "pc_className pc' = cn"
      by (auto split: heap_obj.splits)
    with a have "deref st a = Some (ParseClassObj pc')" by (simp add: deref_def)
    with con \<open>pc_className pc' = cn\<close> have "map_of (cs_cache st) cn = Some a"
      unfolding consistent_def by blast
    with c show "a = c" by simp
  next
    assume "a = c"
    with d n show "case cs_heap st ! a of ParseClassObj pc \<Rightarrow> pc_className pc = cn | _ \<Rightarrow> False"
      by (auto simp: deref_def split: if_splits)
  qed
qed

lemma parseClassesOf_uncached:
  assumes con: "consistent st" and c: "map_of (cs_cache st) cn = None"
  shows "parseClassesOf cn st = []"
proof -
  have "\<not> (case cs_heap st ! a of ParseClassObj pc \<Rightarrow> pc_className pc = cn | _ \<Rightarrow> False)"
    if "a < length (cs_heap st)" for a
  proof
    assume "case cs_heap st ! a of ParseClassObj pc \<Rightarrow> pc_className pc = cn | _ \<Rightarrow> False"
    then obtain pc' where "cs_heap st ! a = ParseClassObj pc'" "pc_className pc' = cn"
      by (auto split: heap_obj.splits)
    with that have "deref st a = Some (ParseClassObj pc')" by (simp add: deref_def)
    with con \<open>pc_className pc' = cn\<close> have "map_of (cs_cache st) cn = Some a"
      unfolding consistent_def by blast
    with c show False by simp
  qed
  then show ?thesis by (auto simp: parseClassesOf_def filter_empty_conv)
qed

lemma consistent_emptyState: "consistent emptyState"
  by (simp add: consistent_def emptyState_def deref_def)

lemma handleIdField_reserved:
  "fieldName = ''id'' \<or> fieldName = ''objectId''
     \<Longrightarrow> orElse (handleIdField fieldName) other = Some (GraphQLNonNull GraphQLID)"
  by (auto simp: handleIdField_def orElse_def)

lemma reduceFields_input:
  assumes "distinct (map fst fs)"
  shows "\<exists>memo'. reduceFields (inputMapper tm) True sch fs memo st = (Inr memo', st)
           \<and> (\<forall>n. map_of memo' n =
                 (case map_of fs n of
                    None \<Rightarrow> map_of memo n
                  | Some f \<Rightarrow>
                      if n \<in> set reservedFieldNames then map_of memo n
                      else (case graphQLInputField tm n f of
                              None \<Rightarrow> map_of memo n
                            | Some d \<Rightarrow> Some d)))"
  using assms
proof (induction fs arbitrary: memo)
  case Nil
  then show ?case by simp
next
  case (Cons a fs)
  obtain k f where a: "a = (k, f)" by (cases a)
  from Cons.prems a have d: "distinct (map fst fs)" and nk: "map_of fs k = None"
    by (auto simp: map_of_eq_None_iff)
  show ?case
  proof (cases "k \<in> set reservedFieldNames \<or> graphQLInputField tm k f = None")
    case True
    from Cons.IH[OF d, of memo] obtain memo' where
        r: "reduceFields (inputMapper tm) True sch fs memo st = (Inr memo', st)"
      and m: "\<forall>n. map_of memo' n =
                 (case map_of fs n of
                    None \<Rightarrow> map_of memo n
                  | Some f \<Rightarrow>
                      if n \<in> set reservedFieldNames then map_of memo n
                      else (case graphQLInputField tm n f of
                              None \<Rightarrow> map_of memo n
                            | Some d \<Rightarrow> Some d))"
      by blast
    have "reduceFields (inputMapper tm) True sch (a # fs) memo st = (Inr memo', st)"
      using True r a by (auto simp: inputMapper_def returnM_apply)
    moreover have "\<forall>n. map_of memo' n =
                 (case map_of (a # fs) n of
                    None \<Rightarrow> map_of memo n
                  | Some f \<Rightarrow>
                      if n \<in> set reservedFieldNames then map_of memo n
                      else (case graphQLInputField tm n f of
                              None \<Rightarrow> map_of memo n
                            | Some d \<Rightarrow> Some d))"
      using m True a nk by auto
    ultimately show ?thesis by blast
  next
    case False
    then obtain d0 where g: "graphQLInputField tm k f = Some d0" and nr: "k \<notin> set reservedFieldNames"
      by auto
    from Cons.IH[OF d, of "AList.update k d0 memo"] obtain memo' where
        r: "reduceFields (inputMapper tm) True sch fs (AList.update k d0 memo) st = (Inr memo', st)"
      and m: "\<forall>n. map_of memo' n =
                 (case map_of fs n of
                    None \<Rightarrow> map_of (AList.update k d0 memo) n
                  | Some f \<Rightarrow>
                      if n \<in> set reservedFieldNames then map_of (AList.update k d0 memo) n
                      else (case graphQLInputField tm n f of
                              None \<Rightarrow> map_of (AList.update k d0 memo) n
                            | Some d \<Rightarrow> Some d))"
      by blast
    have "reduceFields (inputMapper tm) True sch (a # fs) memo st = (Inr memo', st)"
      using g nr r a by (simp add: inputMapper_def returnM_apply)
    moreover have "\<forall>n. map_of memo' n =
                 (case map_of (a # fs) n of
                    None \<Rightarrow> map_of memo n
                  | Some f \<Rightarrow>
                      if n \<in> set reservedFieldNames then map_of memo n
                      else (case graphQLInputField tm n f of
                              None \<Rightarrow> map_of memo n
                            | Some d \<Rightarrow> Some d))"
    proof
      fix n
      show "map_of memo' n =
                 (case map_of (a # fs) n of
                    None \<Rightarrow> map_of memo n
                  | Some f \<Rightarrow>
                      if n \<in> set reservedFieldNames then map_of memo n
                      else (case graphQLInputField tm n f of
                              None \<Rightarrow> map_of memo n
                            | Some d \<Rightarrow> Some d))"
      proof (cases "n = k")
        case True
        with m nk g nr a show ?thesis by (simp add: update_conv')
      next
        case False
        with m a show ?thesis by (simp add: update_conv' split: option.splits)
      qed
    qed
    ultimately show ?thesis by blast
  qed
qed

lemma inputFields_spec:
  assumes at: "deref st this = Some (ParseClassObj pc)" and cls: "pc_class pc = Declared cls"
  shows "\<exists>fs. inputFields tm this st = (Inr (Some fs), st)
           \<and> (\<forall>n. map_of fs n =
                 (if n = ''clientMutationId'' then Some (typeOnly GraphQLString)
                  else case (case map_of (class_fields cls) n of
                               None \<Rightarrow> None
                             | Some f \<Rightarrow> if n \<in> set reservedFieldNames then None
                                         else graphQLInputField tm n f) of
                         Some d \<Rightarrow> Some d
                       | None \<Rightarrow> if pc_className pc = ''_User'' \<and> n = ''sessionToken''
                                 then Some sessionTokenField else None))"
proof -
  let ?initial = "if pc_className pc = ''_User'' then [(''sessionToken'', sessionTokenField)] else []"
  let ?fs = "AList.clearjunk (class_fields cls)"
  from reduceFields_input[of ?fs tm "pc_schema pc" ?initial st] obtain memo where
      r: "reduceFields (inputMapper tm) True (pc_schema pc) ?fs ?initial st = (Inr memo, st)"
    and m: "\<forall>n. map_of memo n =
                 (case map_of ?fs n of
                    None \<Rightarrow> map_of ?initial n
                  | Some f \<Rightarrow>
                      if n \<in> set reservedFieldNames then map_of ?initial n
                      else (case graphQLInputField tm n f of
                              None \<Rightarrow> map_of ?initial n
                            | Some d \<Rightarrow> Some d))"
    using distinct_clearjunk by blast
  have b: "buildFields (inputMapper tm) True False this st = (Inr (Some memo), st)"
    using at cls r
    by (simp add: buildFields_def bindM_def readPC_run returnM_def)
  have run: "inputFields tm this st
               = (Inr (Some (AList.update ''clientMutationId'' (typeOnly GraphQLString) memo)), st)"
    using b by (simp add: inputFields_def bindM_def returnM_def)
  have "\<forall>n. map_of (AList.update ''clientMutationId'' (typeOnly GraphQLString) memo) n =
                 (if n = ''clientMutationId'' then Some (typeOnly GraphQLString)
                  else case (case map_of (class_fields cls) n of
                               None \<Rightarrow> None
                             | Some f \<Rightarrow> if n \<in> set reservedFieldNames then None
                                         else graphQLInputField tm n f) of
                         Some d \<Rightarrow> Some d
                       | None \<Rightarrow> if pc_className pc = ''_User'' \<and> n = ''sessionToken''
                                 then Some sessionTokenField else None)"
    using m by (auto simp: update_conv' map_of_clearjunk split: option.splits)
  with run show ?thesis by blast
qed

lemma buildFields_absent:
  assumes at: "deref st this = Some (ParseClassObj pc)" and none: "pc_class pc = Undeclared"
  shows "buildFields mapper filterReserved isObject this st
           = (Inr None, st\<lparr>cs_console := cs_console st @ missingFieldsWarning (pc_className pc)\<rparr>)"
  using at none
  by (simp add: buildFields_def bindM_def readPC_run consoleLog_def returnM_def)

lemma field_thunks_of_absent_class:
  assumes at: "deref st this = Some (ParseClassObj pc)" and none: "pc_class pc = Undeclared"
  shows "objectFields tm this st
           = (Inr None, st\<lparr>cs_console := cs_console st @ missingFieldsWarning (pc_className pc)\<rparr>)"
    and "queryFields tm this st
           = (Inl TypeError,
              st\<lparr>cs_console := cs_console st @ missingFieldsWarning (pc_className pc)\<rparr>)"
    and "inputFields tm this st
           = (Inl TypeError,
              st\<lparr>cs_console := cs_console st @ missingFieldsWarning (pc_className pc)\<rparr>)"
    and "updateFields tm this st
           = (Inl TypeError,
              st\<lparr>cs_console := cs_console st @ missingFieldsWarning (pc_className pc)\<rparr>)"
  by (simp_all add: objectFields_def queryFields_def inputFields_def updateFields_def
                    buildFields_absent[OF at none] bindM_def throwM_def)

lemma reduceQueryFields_total:
  "consistent st \<Longrightarrow> \<exists>fs' st'. reduceQueryFields sch cns fs st = (Inr fs', st') \<and> consistent st'"
proof (induction cns arbitrary: fs st)
  case Nil
  then show ?case by simp
next
  case (Cons cn cns)
  from loadClass_spec[OF Cons.prems, of cn sch] obtain b st1 where
      l: "loadClass cn sch st = (Inr b, st1)" and c: "consistent st1"
    by blast
  from Cons.IH[OF c] l show ?case by simp
qed

lemma reduceMutationFields_total:
  "consistent st \<Longrightarrow> \<exists>fs' st'. reduceMutationFields sch cns fs st = (Inr fs', st') \<and> consistent st'"
proof (induction cns arbitrary: fs st)
  case Nil
  then show ?case by simp
next
  case (Cons cn cns)
  from loadClass_spec[OF Cons.prems, of cn sch] obtain b st1 where
      l: "loadClass cn sch st = (Inr b, st1)" and c: "consistent st1"
    by blast
  from Cons.IH[OF c] l show ?case by simp
qed

lemma keys_update: "fst ` set (AList.update k v al) = insert k (fst ` set al)"
  by (induction al) auto

lemma reduceFields_keys:
  "reduceFields mapper fr sch fs memo st = (Inr memo', st')
     \<Longrightarrow> fst ` set memo \<subseteq> fst ` set memo'
       \<and> fst ` set memo' \<subseteq> fst ` set memo \<union> fst ` set fs"
proof (induction fs arbitrary: memo st)
  case Nil
  then show ?case by simp
next
  case (Cons a fs)
  obtain k f where a: "a = (k, f)" by (cases a)
  show ?case
  proof (cases "fr \<and> k \<in> set reservedFieldNames")
    case True
    with Cons.prems a have "reduceFields mapper fr sch fs memo st = (Inr memo', st')" by simp
    from Cons.IH[OF this] show ?thesis by auto
  next
    case False
    obtain r st1 where m: "mapper k f sch st = (r, st1)" by (cases "mapper k f sch st")
    show ?thesis
    proof (cases r)
      case (Inl e)
      with Cons.prems a False m show ?thesis by simp
    next
      case (Inr d)
      show ?thesis
      proof (cases d)
        case None
        with Cons.prems a False m Inr
        have "reduceFields mapper fr sch fs memo st1 = (Inr memo', st')" by simp
        from Cons.IH[OF this] show ?thesis by auto
      next
        case (Some g)
        with Cons.prems a False m Inr
        have "reduceFields mapper fr sch fs (AList.update k g memo) st1 = (Inr memo', st')"
          by simp
        from Cons.IH[OF this] a show ?thesis by (auto simp: keys_update)
      qed
    qed
  qed
qed

lemma buildFields_sessionToken:
  assumes at: "deref st this = Some (ParseClassObj pc)" and cls: "pc_class pc = Declared cls"
    and run: "buildFields mapper fr io this st = (Inr (Some fs), st')"
  shows "pc_className pc = ''_User'' \<Longrightarrow> ''sessionToken'' \<in> fst ` set fs"
    and "''sessionToken'' \<in> fst ` set fs
           \<Longrightarrow> pc_className pc = ''_User'' \<or> ''sessionToken'' \<in> fst ` set (class_fields cls)"
proof -
  let ?initial = "(if io then [(''id'', idField)] else [])
                  @ (if pc_className pc = ''_User''
                     then [(''sessionToken'', sessionTokenField)] else [])"
  from run at cls
  have r: "reduceFields mapper fr (pc_schema pc) (AList.clearjunk (class_fields cls))
             ?initial st = (Inr fs, st')"
    by (auto simp: buildFields_def bindM_def readPC_run returnM_def
             split: prod.splits sum.splits)
  note k = reduceFields_keys[OF r]
  show "pc_className pc = ''_User'' \<Longrightarrow> ''sessionToken'' \<in> fst ` set fs"
    using k by auto
  have cj: "fst ` set (AList.clearjunk (class_fields cls)) = fst ` set (class_fields cls)"
    by (metis dom_clearjunk dom_map_of_conv_image_fst)
  show "''sessionToken'' \<in> fst ` set fs
          \<Longrightarrow> pc_className pc = ''_User'' \<or> ''sessionToken'' \<in> fst ` set (class_fields cls)"
    using k cj by (auto split: if_splits)
qed

lemma field_thunks_sessionToken:
  assumes at: "deref st this = Some (ParseClassObj pc)" and cls: "pc_class pc = Declared cls"
    and run: "objectFields tm this st = (Inr (Some fs), st')
            \<or> queryFields tm this st = (Inr (Some fs), st')
            \<or> inputFields tm this st = (Inr (Some fs), st')
            \<or> updateFields tm this st = (Inr (Some fs), st')"
  shows "(pc_className pc = ''_User'' \<longrightarrow> ''sessionToken'' \<in> fst ` set fs)
       \<and> (''sessionToken'' \<in> fst ` set fs
            \<longrightarrow> pc_className pc = ''_User'' \<or> ''sessionToken'' \<in> fst ` set (class_fields cls))"
proof -
  from run consider
      (obj) "objectFields tm this st = (Inr (Some fs), st')"
    | (qry) "queryFields tm this st = (Inr (Some fs), st')"
    | (inp) "inputFields tm this st = (Inr (Some fs), st')"
    | (upd) "updateFields tm this st = (Inr (Some fs), st')"
    by blast
  then show ?thesis
  proof cases
    case obj
    then have "buildFields (graphQLField tm) False True this st = (Inr (Some fs), st')"
      by (simp add: objectFields_def)
    from buildFields_sessionToken[OF at cls this] show ?thesis by blast
  next
    case qry
    then obtain m where
        b: "buildFields (graphQLQueryField tm) False False this st = (Inr (Some m), st')"
      and e: "fs = AList.delete ''id'' (AList.delete ''objectId'' m)"
      by (auto simp: queryFields_def bindM_def throwM_def returnM_def
               split: prod.splits sum.splits option.splits)
    from buildFields_sessionToken[OF at cls b] e show ?thesis
      by (auto simp: keys_delete)
  next
    case inp
    then obtain m where
        b: "buildFields (inputMapper tm) True False this st = (Inr (Some m), st')"
      and e: "fs = AList.update ''clientMutationId'' (typeOnly GraphQLString) m"
      by (auto simp: inputFields_def bindM_def throwM_def returnM_def
               split: prod.splits sum.splits option.splits)
    from buildFields_sessionToken[OF at cls b] e show ?thesis
      by (auto simp: keys_update)
  next
    case upd
    then obtain m where
        b: "buildFields (inputMapper tm) True False this st = (Inr (Some m), st')"
      and e: "fs = AList.update ''clientMutationId'' (typeOnly GraphQLString)
                     (AList.update ''objectId'' (typeOnly GraphQLID)
                       (AList.update ''id'' (typeOnly GraphQLID) m))"
      by (auto simp: updateFields_def bindM_def throwM_def returnM_def
               split: prod.splits sum.splits option.splits)
    from buildFields_sessionToken[OF at cls b] e show ?thesis
      by (auto simp: keys_update)
  qed
qed

lemma buildFields_not_a_class:
  assumes at: "deref st this = Some (ParseClassObj pc)" and nc: "pc_class pc = NotAClass"
  shows "buildFields mapper filterReserved isObject this st = (Inl TypeError, st)"
  using at nc
  by (simp add: buildFields_def bindM_def readPC_run throwM_def)

section \<open>The type cache, the field mappers and the class type builder\<close>

text \<open>
  Claim C1 as stated fails: what \<^verbatim>\<open>loadClass\<close> returns is an object literal that every
  call builds anew. Two calls for \<^verbatim>\<open>Post\<close> in one pass, starting from the empty cache,
  return the objects at addresses 9 and 11.
\<close>

theorem loadClass_returns_fresh_bundle_counterexample:
  "map_sum id b_self (fst (loadClass ''Post'' demo_schema emptyState)) = Inr 9
   \<and> map_sum id b_self
        (fst (loadClass ''Post'' demo_schema (snd (loadClass ''Post'' demo_schema emptyState))))
      = Inr 11"
  by code_simp

text \<open>
  Claim C1, amended. From a consistent state (the empty cache is one, and every step of a
  pass keeps it), two calls of \<^verbatim>\<open>loadClass\<close> for the same class name, with any calls
  of \<^verbatim>\<open>loadClass\<close> and any runs of field thunks in between, both return, and the two
  bundles have the same \<^verbatim>\<open>parseClass\<close> and the same six type objects (equal
  addresses) and equal display names, whereas the bundle objects themselves are distinct.
  The heap holds exactly one \<^verbatim>\<open>ParseClass\<close> instance of that class name after the
  first call, after the steps in between and after the second call, and none before the
  first call when the name was not cached: the factory given to the cache ran once.
\<close>

theorem loadClass_idempotent_members:
  assumes con: "consistent st"
    and first: "loadClass className sch st = (r1, st1)"
    and second: "loadClass className sch' (runPass tm steps st1) = (r2, st2)"
  shows "\<exists>b1 b2. r1 = Inr b1 \<and> r2 = Inr b2
           \<and> b_parseClass b2 = b_parseClass b1
           \<and> b_displayName b2 = b_displayName b1
           \<and> b_objectType b2 = b_objectType b1
           \<and> b_inputType b2 = b_inputType b1
           \<and> b_updateType b2 = b_updateType b1
           \<and> b_queryType b2 = b_queryType b1
           \<and> b_queryResultType b2 = b_queryResultType b1
           \<and> b_mutationResultType b2 = b_mutationResultType b1
           \<and> b_self b2 \<noteq> b_self b1
           \<and> (map_of (cs_cache st) className = None \<longrightarrow> parseClassesOf className st = [])
           \<and> parseClassesOf className st1 = [b_parseClass b1]
           \<and> parseClassesOf className (runPass tm steps st1) = [b_parseClass b1]
           \<and> parseClassesOf className st2 = [b_parseClass b1]"
proof -
  let ?s = "runPass tm steps st1"
  obtain b1 x1 where
      e1: "loadClass className sch st = (Inr b1, x1)" and c1': "consistent x1"
    and l1': "loaded x1 className b1" and s1': "b_self b1 < length (cs_heap x1)"
    using loadClass_spec[OF con, of className sch] by blast
  from e1 first have r1: "r1 = Inr b1" and x1: "x1 = st1" by simp_all
  note c1 = c1'[unfolded x1] and l1 = l1'[unfolded x1] and s1 = s1'[unfolded x1]
  have "keeps st1 ?s" by (rule runPass_keeps)
  with c1 have st: "steady st1 ?s" and cs: "consistent ?s" by (simp_all add: keeps_def)
  obtain b2 x2 where
      e2: "loadClass className sch' ?s = (Inr b2, x2)" and g2': "good ?s x2"
    and c2': "consistent x2" and l2': "loaded x2 className b2"
    and s2: "length (cs_heap ?s) \<le> b_self b2"
    using loadClass_spec[OF cs, of className sch'] by blast
  from e2 second have r2: "r2 = Inr b2" and x2: "x2 = st2" by simp_all
  note g2 = g2'[unfolded x2] and c2 = c2'[unfolded x2] and l2 = l2'[unfolded x2]
  have ls: "loaded ?s className b1" using l1 st by (rule loaded_steady)
  then have l12: "loaded st2 className b1" using good_steady[OF g2] by (rule loaded_steady)
  have same: "b_parseClass b2 = b_parseClass b1 \<and> b_displayName b2 = b_displayName b1
       \<and> b_objectType b2 = b_objectType b1 \<and> b_inputType b2 = b_inputType b1
       \<and> b_updateType b2 = b_updateType b1 \<and> b_queryType b2 = b_queryType b1
       \<and> b_queryResultType b2 = b_queryResultType b1
       \<and> b_mutationResultType b2 = b_mutationResultType b1"
    using l12 l2 by (rule loaded_same)
  have fresh: "b_self b2 \<noteq> b_self b1"
    using s1 s2 steady_length[OF st] by simp
  have p0: "map_of (cs_cache st) className = None \<longrightarrow> parseClassesOf className st = []"
    using con by (simp add: parseClassesOf_uncached)
  have p1: "parseClassesOf className st1 = [b_parseClass b1]"
    using c1 l1 by (simp add: parseClassesOf_cached loaded_def)
  have ps: "parseClassesOf className ?s = [b_parseClass b1]"
    using cs ls by (simp add: parseClassesOf_cached loaded_def)
  have p2: "parseClassesOf className st2 = [b_parseClass b1]"
    using c2 l12 by (simp add: parseClassesOf_cached loaded_def)
  show ?thesis
    apply (rule exI[of _ b1], rule exI[of _ b2])
    using r1 r2 same fresh p0 p1 ps p2 by simp
qed

theorem loadClass_idempotent_members_witness:
  "consistent emptyState
   \<and> (\<exists>b1 b2.
         fst (loadClass ''Post'' demo_schema emptyState) = Inr b1
       \<and> fst (loadClass ''Post'' demo_schema
                (runPass demo_mappers [LoadClass ''_User'' demo_schema, GetFields 1]
                   (snd (loadClass ''Post'' demo_schema emptyState)))) = Inr b2
       \<and> b_parseClass b2 = b_parseClass b1
       \<and> b_displayName b2 = b_displayName b1
       \<and> b_objectType b2 = b_objectType b1
       \<and> b_inputType b2 = b_inputType b1
       \<and> b_updateType b2 = b_updateType b1
       \<and> b_queryType b2 = b_queryType b1
       \<and> b_queryResultType b2 = b_queryResultType b1
       \<and> b_mutationResultType b2 = b_mutationResultType b1
       \<and> b_self b2 \<noteq> b_self b1
       \<and> (map_of (cs_cache emptyState) ''Post'' = None
            \<longrightarrow> parseClassesOf ''Post'' emptyState = [])
       \<and> parseClassesOf ''Post'' (snd (loadClass ''Post'' demo_schema emptyState))
           = [b_parseClass b1]
       \<and> parseClassesOf ''Post''
            (runPass demo_mappers [LoadClass ''_User'' demo_schema, GetFields 1]
               (snd (loadClass ''Post'' demo_schema emptyState))) = [b_parseClass b1]
       \<and> parseClassesOf ''Post''
            (snd (loadClass ''Post'' demo_schema
                (runPass demo_mappers [LoadClass ''_User'' demo_schema, GetFields 1]
                   (snd (loadClass ''Post'' demo_schema emptyState))))) = [b_parseClass b1])"
proof -
  have first: "loadClass ''Post'' demo_schema emptyState
                 = (fst (loadClass ''Post'' demo_schema emptyState),
                    snd (loadClass ''Post'' demo_schema emptyState))"
    by simp
  have second: "loadClass ''Post'' demo_schema
                  (runPass demo_mappers [LoadClass ''_User'' demo_schema, GetFields 1]
                     (snd (loadClass ''Post'' demo_schema emptyState)))
                 = (fst (loadClass ''Post'' demo_schema
                      (runPass demo_mappers [LoadClass ''_User'' demo_schema, GetFields 1]
                         (snd (loadClass ''Post'' demo_schema emptyState)))),
                    snd (loadClass ''Post'' demo_schema
                      (runPass demo_mappers [LoadClass ''_User'' demo_schema, GetFields 1]
                         (snd (loadClass ''Post'' demo_schema emptyState)))))"
    by simp
  show ?thesis
    by (rule conjI, rule consistent_emptyState,
        rule loadClass_idempotent_members[OF consistent_emptyState first second])
qed

text \<open>
  Claim C4 as stated fails: in the output context a Pointer field named \<^verbatim>\<open>id\<close> gets
  the object type of its target class and a Relation field named \<^verbatim>\<open>objectId\<close> gets
  the connection type of the target's find; in the filter context a Pointer field named
  \<^verbatim>\<open>id\<close> gets the target's query type.
\<close>

theorem reserved_identifier_counterexample:
  "map_sum id (map_option fd_type)
     (fst (graphQLField demo_mappers ''id''
             \<lparr>ftype = ''Pointer'', targetClass = Some ''_User''\<rparr> demo_schema emptyState))
     = Inr (Some (Some (TypeAt 1)))
   \<and> map_sum id (map_option fd_type)
     (fst (graphQLField demo_mappers ''objectId''
             \<lparr>ftype = ''Relation'', targetClass = Some ''_User''\<rparr> demo_schema emptyState))
     = Inr (Some (Some (TypeAt 6)))
   \<and> map_sum id (map_option fd_type)
     (fst (graphQLQueryField demo_mappers ''id''
             \<lparr>ftype = ''Pointer'', targetClass = Some ''_User''\<rparr> demo_schema emptyState))
     = Inr (Some (Some (TypeAt 4)))"
  by code_simp

text \<open>
  Claim C4, amended. A field literally named \<^verbatim>\<open>id\<close> or \<^verbatim>\<open>objectId\<close> is mapped to
  the non-null \<^verbatim>\<open>GraphQLID\<close> in the input context whatever its declared kind, in the
  filter context for every kind but Pointer, and in the output context for every kind but
  Pointer and Relation. For a Pointer field the type of the target class takes precedence
  (its object type in the output context, its query type in the filter context), and a
  Relation field is mapped in the output context to the target's find descriptor with the
  relation resolver.
\<close>

theorem reserved_identifier_mapping:
  assumes name: "fieldName = ''id'' \<or> fieldName = ''objectId''"
  shows "(\<exists>d. graphQLInputField tm fieldName field = Some d
             \<and> fd_type d = Some (GraphQLNonNull GraphQLID))
       \<and> (ftype field \<noteq> ''Relation'' \<and> ftype field \<noteq> ''Pointer''
            \<longrightarrow> (\<exists>d. graphQLField tm fieldName field sch st = (Inr (Some d), st)
                   \<and> fd_type d = Some (GraphQLNonNull GraphQLID)))
       \<and> (ftype field \<noteq> ''Pointer''
            \<longrightarrow> (\<exists>d. graphQLQueryField tm fieldName field sch st = (Inr (Some d), st)
                   \<and> fd_type d = Some (GraphQLNonNull GraphQLID)))
       \<and> (ftype field = ''Pointer''
            \<longrightarrow> (\<forall>b st'. loadTargetClass field sch st = (Inr b, st')
                   \<longrightarrow> (\<exists>d. graphQLField tm fieldName field sch st = (Inr (Some d), st')
                          \<and> fd_type d = Some (TypeAt (b_objectType b)))
                     \<and> (\<exists>d. graphQLQueryField tm fieldName field sch st = (Inr (Some d), st')
                          \<and> fd_type d = Some (TypeAt (b_queryType b)))))
       \<and> (ftype field = ''Relation''
            \<longrightarrow> (\<forall>b st'. loadTargetClass field sch st = (Inr b, st')
                   \<longrightarrow> graphQLField tm fieldName field sch st
                         = (Inr (Some ((b_find b)\<lparr>fd_resolve := Some (RelationResolve fieldName)\<rparr>)),
                            st')))"
proof -
  note r = handleIdField_reserved[OF name]
  have a: "\<exists>d. graphQLInputField tm fieldName field = Some d
             \<and> fd_type d = Some (GraphQLNonNull GraphQLID)"
    by (simp add: graphQLInputField_def r)
  have b: "ftype field \<noteq> ''Relation'' \<and> ftype field \<noteq> ''Pointer''
            \<longrightarrow> (\<exists>d. graphQLField tm fieldName field sch st = (Inr (Some d), st)
                   \<and> fd_type d = Some (GraphQLNonNull GraphQLID))"
    by (simp add: graphQLField_def r returnM_apply)
  have c: "ftype field \<noteq> ''Pointer''
            \<longrightarrow> (\<exists>d. graphQLQueryField tm fieldName field sch st = (Inr (Some d), st)
                   \<and> fd_type d = Some (GraphQLNonNull GraphQLID))"
    by (simp add: graphQLQueryField_def r returnM_apply)
  have d: "ftype field = ''Pointer''
            \<longrightarrow> (\<forall>b st'. loadTargetClass field sch st = (Inr b, st')
                   \<longrightarrow> (\<exists>d. graphQLField tm fieldName field sch st = (Inr (Some d), st')
                          \<and> fd_type d = Some (TypeAt (b_objectType b)))
                     \<and> (\<exists>d. graphQLQueryField tm fieldName field sch st = (Inr (Some d), st')
                          \<and> fd_type d = Some (TypeAt (b_queryType b))))"
    by (simp add: graphQLField_def graphQLQueryField_def r bindM_def returnM_apply)
  have e: "ftype field = ''Relation''
            \<longrightarrow> (\<forall>b st'. loadTargetClass field sch st = (Inr b, st')
                   \<longrightarrow> graphQLField tm fieldName field sch st
                         = (Inr (Some ((b_find b)\<lparr>fd_resolve := Some (RelationResolve fieldName)\<rparr>)),
                            st'))"
    by (simp add: graphQLField_def getRelationField_def bindM_def returnM_apply)
  from a b c d e show ?thesis by (intro conjI)
qed

theorem reserved_identifier_mapping_witness:
  "(''objectId'' = ''id'' \<or> ''objectId'' = ''objectId'')
   \<and> graphQLInputField demo_mappers ''objectId'' \<lparr>ftype = ''Pointer'', targetClass = Some ''_User''\<rparr>
       = Some \<lparr>fd_name = Some ''objectId'', fd_type = Some (GraphQLNonNull GraphQLID),
               fd_description = Some ''Setter for objectId (Pointer<_User>)'',
               fd_args = [], fd_resolve = None\<rparr>
   \<and> graphQLField demo_mappers ''objectId'' \<lparr>ftype = ''Number'', targetClass = None\<rparr>
        demo_schema emptyState
       = (Inr (Some \<lparr>fd_name = Some ''objectId'', fd_type = Some (GraphQLNonNull GraphQLID),
                     fd_description = Some ''Accessor for objectId (Number)'',
                     fd_args = [], fd_resolve = None\<rparr>), emptyState)
   \<and> graphQLQueryField demo_mappers ''objectId'' \<lparr>ftype = ''Relation'', targetClass = Some ''_User''\<rparr>
        demo_schema emptyState
       = (Inr (Some \<lparr>fd_name = Some ''objectId'', fd_type = Some (GraphQLNonNull GraphQLID),
                     fd_description = Some ''Query for objectId (Relation)'',
                     fd_args = [], fd_resolve = None\<rparr>), emptyState)"
  using reserved_identifier_mapping
          [of "''objectId''" demo_mappers "\<lparr>ftype = ''Number'', targetClass = None\<rparr>"
              demo_schema emptyState]
  by (simp add: graphQLInputField_def graphQLField_def graphQLQueryField_def handleIdField_def
                orElse_def getFieldType_def returnM_apply)

text \<open>
  Claim C8 as stated fails for the class \<^verbatim>\<open>_User\<close>: \<^verbatim>\<open>buildFields\<close> seeds
  \<^verbatim>\<open>sessionToken\<close> whenever the class name is \<^verbatim>\<open>_User\<close>, so the add-input type of
  that class (the type at address 2 after loading it) has this field too.
\<close>

theorem add_input_session_token_counterexample:
  "map_sum id b_inputType (fst (loadClass ''_User'' demo_schema emptyState)) = Inr 2
   \<and> map_sum id (map_option (map fst))
       (fst (getFields demo_mappers 2 (snd (loadClass ''_User'' demo_schema emptyState))))
     = Inr (Some [''sessionToken'', ''username'', ''favourite'', ''clientMutationId''])"
  by code_simp

text \<open>
  Claim C8, amended. For every class of the schema, the fields thunk of the add-input type
  returns, without changing the state, a field map that holds exactly: for each declared
  field that is not reserved (\<^verbatim>\<open>objectId\<close>, \<^verbatim>\<open>createdAt\<close>, \<^verbatim>\<open>updatedAt\<close>) and that
  the input mapper does not omit, what the input mapper returns; and
  \<^verbatim>\<open>clientMutationId\<close> of type \<^verbatim>\<open>GraphQLString\<close>; and, for the class \<^verbatim>\<open>_User\<close>
  only, the synthetic \<^verbatim>\<open>sessionToken\<close> field, unless a declared field of that name is
  mapped in its place; and nothing else. The synthetic field is not confined to the object
  type: every field set that is built for \<^verbatim>\<open>_User\<close> (object, query, add-input and
  update-input type) has a \<^verbatim>\<open>sessionToken\<close> field, and a field set of another class has
  one only if that class declares a field of that name.
\<close>

theorem add_input_field_set:
  assumes at: "deref st this = Some (ParseClassObj pc)"
    and cls: "pc_class pc = Declared cls"
  shows "(\<exists>fs. inputFields tm this st = (Inr (Some fs), st)
           \<and> (\<forall>n. map_of fs n =
                 (if n = ''clientMutationId'' then Some (typeOnly GraphQLString)
                  else case (case map_of (class_fields cls) n of
                               None \<Rightarrow> None
                             | Some f \<Rightarrow> if n \<in> set reservedFieldNames then None
                                         else graphQLInputField tm n f) of
                         Some d \<Rightarrow> Some d
                       | None \<Rightarrow> if pc_className pc = ''_User'' \<and> n = ''sessionToken''
                                 then Some sessionTokenField else None))
           \<and> fst ` set fs =
                 {n. n \<notin> set reservedFieldNames
                     \<and> (\<exists>f d. map_of (class_fields cls) n = Some f
                               \<and> graphQLInputField tm n f = Some d)}
                 \<union> {''clientMutationId''}
                 \<union> (if pc_className pc = ''_User'' then {''sessionToken''} else {}))
       \<and> (\<forall>fs' st'.
              objectFields tm this st = (Inr (Some fs'), st')
            \<or> queryFields tm this st = (Inr (Some fs'), st')
            \<or> inputFields tm this st = (Inr (Some fs'), st')
            \<or> updateFields tm this st = (Inr (Some fs'), st')
            \<longrightarrow> (pc_className pc = ''_User'' \<longrightarrow> ''sessionToken'' \<in> fst ` set fs')
              \<and> (''sessionToken'' \<in> fst ` set fs'
                   \<longrightarrow> pc_className pc = ''_User''
                       \<or> ''sessionToken'' \<in> fst ` set (class_fields cls)))"
proof -
  from inputFields_spec[OF at cls, of tm] obtain fs where
      rm: "inputFields tm this st = (Inr (Some fs), st)
         \<and> (\<forall>n. map_of fs n =
                 (if n = ''clientMutationId'' then Some (typeOnly GraphQLString)
                  else case (case map_of (class_fields cls) n of
                               None \<Rightarrow> None
                             | Some f \<Rightarrow> if n \<in> set reservedFieldNames then None
                                         else graphQLInputField tm n f) of
                         Some d \<Rightarrow> Some d
                       | None \<Rightarrow> if pc_className pc = ''_User'' \<and> n = ''sessionToken''
                                 then Some sessionTokenField else None))" ..
  from rm have run: "inputFields tm this st = (Inr (Some fs), st)" by (rule conjunct1)
  from rm have m: "\<forall>n. map_of fs n =
                 (if n = ''clientMutationId'' then Some (typeOnly GraphQLString)
                  else case (case map_of (class_fields cls) n of
                               None \<Rightarrow> None
                             | Some f \<Rightarrow> if n \<in> set reservedFieldNames then None
                                         else graphQLInputField tm n f) of
                         Some d \<Rightarrow> Some d
                       | None \<Rightarrow> if pc_className pc = ''_User'' \<and> n = ''sessionToken''
                                 then Some sessionTokenField else None)"
    by (rule conjunct2)
  have mem: "n \<in> fst ` set fs \<longleftrightarrow> map_of fs n \<noteq> None" for n
    by (simp add: map_of_eq_None_iff)
  have keys: "fst ` set fs =
                 {n. n \<notin> set reservedFieldNames
                     \<and> (\<exists>f d. map_of (class_fields cls) n = Some f
                               \<and> graphQLInputField tm n f = Some d)}
                 \<union> {''clientMutationId''}
                 \<union> (if pc_className pc = ''_User'' then {''sessionToken''} else {})"
  proof (rule set_eqI)
    fix n
    from m have mn: "map_of fs n =
                 (if n = ''clientMutationId'' then Some (typeOnly GraphQLString)
                  else case (case map_of (class_fields cls) n of
                               None \<Rightarrow> None
                             | Some f \<Rightarrow> if n \<in> set reservedFieldNames then None
                                         else graphQLInputField tm n f) of
                         Some d \<Rightarrow> Some d
                       | None \<Rightarrow> if pc_className pc = ''_User'' \<and> n = ''sessionToken''
                                 then Some sessionTokenField else None)"
      by (rule spec)
    show "n \<in> fst ` set fs \<longleftrightarrow>
            n \<in> {n. n \<notin> set reservedFieldNames
                     \<and> (\<exists>f d. map_of (class_fields cls) n = Some f
                               \<and> graphQLInputField tm n f = Some d)}
                 \<union> {''clientMutationId''}
                 \<union> (if pc_className pc = ''_User'' then {''sessionToken''} else {})"
      unfolding mem mn
      by (cases "map_of (class_fields cls) n"; cases "pc_className pc = ''_User''";
          cases "n = ''clientMutationId''"; cases "n \<in> set reservedFieldNames";
          cases "n = ''sessionToken''")
         (auto split: option.splits)
  qed
  have c1: "\<exists>fs. inputFields tm this st = (Inr (Some fs), st)
           \<and> (\<forall>n. map_of fs n =
                 (if n = ''clientMutationId'' then Some (typeOnly GraphQLString)
                  else case (case map_of (class_fields cls) n of
                               None \<Rightarrow> None
                             | Some f \<Rightarrow> if n \<in> set reservedFieldNames then None
                                         else graphQLInputField tm n f) of
                         Some d \<Rightarrow> Some d
                       | None \<Rightarrow> if pc_className pc = ''_User'' \<and> n = ''sessionToken''
                                 then Some sessionTokenField else None))
           \<and> fst ` set fs =
                 {n. n \<notin> set reservedFieldNames
                     \<and> (\<exists>f d. map_of (class_fields cls) n = Some f
                               \<and> graphQLInputField tm n f = Some d)}
                 \<union> {''clientMutationId''}
                 \<union> (if pc_className pc = ''_User'' then {''sessionToken''} else {})"
    by (rule exI[of _ fs]) (rule conjI[OF run conjI[OF m keys]])
  have c2: "\<forall>fs' st'.
              objectFields tm this st = (Inr (Some fs'), st')
            \<or> queryFields tm this st = (Inr (Some fs'), st')
            \<or> inputFields tm this st = (Inr (Some fs'), st')
            \<or> updateFields tm this st = (Inr (Some fs'), st')
            \<longrightarrow> (pc_className pc = ''_User'' \<longrightarrow> ''sessionToken'' \<in> fst ` set fs')
              \<and> (''sessionToken'' \<in> fst ` set fs'
                   \<longrightarrow> pc_className pc = ''_User''
                       \<or> ''sessionToken'' \<in> fst ` set (class_fields cls))"
    using field_thunks_sessionToken[OF at cls] by (intro allI impI)
  show ?thesis by (rule conjI[OF c1 c2])
qed

theorem add_input_field_set_witness:
  "deref (snd (loadClass ''_User'' demo_schema emptyState)) 0 = Some (ParseClassObj demo_user_pc)
   \<and> pc_class demo_user_pc = Declared demo_user_class
   \<and> pc_className demo_user_pc = ''_User''
   \<and> map_sum id (map_option (map fst)) (fst (inputFields demo_mappers 0 (snd (loadClass ''_User'' demo_schema emptyState))))
       = Inr (Some [''sessionToken'', ''username'', ''favourite'', ''clientMutationId''])
   \<and> map_sum id (map_option (map fst)) (fst (objectFields demo_mappers 0 (snd (loadClass ''_User'' demo_schema emptyState))))
       = Inr (Some [''id'', ''sessionToken'', ''objectId'', ''username'', ''favourite''])
   \<and> map_sum id (map_option (map fst)) (fst (queryFields demo_mappers 0 (snd (loadClass ''_User'' demo_schema emptyState))))
       = Inr (Some [''sessionToken'', ''username'', ''favourite''])
   \<and> map_sum id (map_option (map fst)) (fst (updateFields demo_mappers 0 (snd (loadClass ''_User'' demo_schema emptyState))))
       = Inr (Some [''sessionToken'', ''username'', ''favourite'', ''id'', ''objectId'',
                    ''clientMutationId''])
   \<and> (\<exists>fs. (inputFields demo_mappers 0 (snd (loadClass ''_User'' demo_schema emptyState)) = (Inr (Some fs), (snd (loadClass ''_User'' demo_schema emptyState)))
           \<and> (\<forall>n. map_of fs n =
                 (if n = ''clientMutationId'' then Some (typeOnly GraphQLString)
                  else case (case map_of (class_fields demo_user_class) n of
                               None \<Rightarrow> None
                             | Some f \<Rightarrow> if n \<in> set reservedFieldNames then None
                                         else graphQLInputField demo_mappers n f) of
                         Some d \<Rightarrow> Some d
                       | None \<Rightarrow> if pc_className demo_user_pc = ''_User''
                                    \<and> n = ''sessionToken''
                                 then Some sessionTokenField else None))
           \<and> fst ` set fs =
                 {n. n \<notin> set reservedFieldNames
                     \<and> (\<exists>f d. map_of (class_fields demo_user_class) n = Some f
                               \<and> graphQLInputField demo_mappers n f = Some d)}
                 \<union> {''clientMutationId''}
                 \<union> (if pc_className demo_user_pc = ''_User''
                    then {''sessionToken''} else {}))
           \<and> ''sessionToken'' \<in> fst ` set fs)"
proof -
  have at: "deref (snd (loadClass ''_User'' demo_schema emptyState)) 0 = Some (ParseClassObj demo_user_pc)"
    by code_simp
  have cls: "pc_class demo_user_pc = Declared demo_user_class"
    by (simp add: demo_user_pc_def)
  have nm: "pc_className demo_user_pc = ''_User''"
    by (simp add: demo_user_pc_def)
  have ev1: "map_sum id (map_option (map fst)) (fst (inputFields demo_mappers 0 (snd (loadClass ''_User'' demo_schema emptyState))))
       = Inr (Some [''sessionToken'', ''username'', ''favourite'', ''clientMutationId''])"
    by code_simp
  have ev2: "map_sum id (map_option (map fst)) (fst (objectFields demo_mappers 0 (snd (loadClass ''_User'' demo_schema emptyState))))
       = Inr (Some [''id'', ''sessionToken'', ''objectId'', ''username'', ''favourite''])"
    by code_simp
  have ev3: "map_sum id (map_option (map fst)) (fst (queryFields demo_mappers 0 (snd (loadClass ''_User'' demo_schema emptyState))))
       = Inr (Some [''sessionToken'', ''username'', ''favourite''])"
    by code_simp
  have ev4: "map_sum id (map_option (map fst)) (fst (updateFields demo_mappers 0 (snd (loadClass ''_User'' demo_schema emptyState))))
       = Inr (Some [''sessionToken'', ''username'', ''favourite'', ''id'', ''objectId'',
                    ''clientMutationId''])"
    by code_simp
  note t = add_input_field_set[OF at cls, of demo_mappers]
  from t have "\<exists>fs. inputFields demo_mappers 0 (snd (loadClass ''_User'' demo_schema emptyState)) = (Inr (Some fs), (snd (loadClass ''_User'' demo_schema emptyState)))
           \<and> (\<forall>n. map_of fs n =
                 (if n = ''clientMutationId'' then Some (typeOnly GraphQLString)
                  else case (case map_of (class_fields demo_user_class) n of
                               None \<Rightarrow> None
                             | Some f \<Rightarrow> if n \<in> set reservedFieldNames then None
                                         else graphQLInputField demo_mappers n f) of
                         Some d \<Rightarrow> Some d
                       | None \<Rightarrow> if pc_className demo_user_pc = ''_User''
                                    \<and> n = ''sessionToken''
                                 then Some sessionTokenField else None))
           \<and> fst ` set fs =
                 {n. n \<notin> set reservedFieldNames
                     \<and> (\<exists>f d. map_of (class_fields demo_user_class) n = Some f
                               \<and> graphQLInputField demo_mappers n f = Some d)}
                 \<union> {''clientMutationId''}
                 \<union> (if pc_className demo_user_pc = ''_User''
                    then {''sessionToken''} else {})"
    by (rule conjunct1)
  then obtain fs where r: "inputFields demo_mappers 0 (snd (loadClass ''_User'' demo_schema emptyState)) = (Inr (Some fs), (snd (loadClass ''_User'' demo_schema emptyState)))
           \<and> (\<forall>n. map_of fs n =
                 (if n = ''clientMutationId'' then Some (typeOnly GraphQLString)
                  else case (case map_of (class_fields demo_user_class) n of
                               None \<Rightarrow> None
                             | Some f \<Rightarrow> if n \<in> set reservedFieldNames then None
                                         else graphQLInputField demo_mappers n f) of
                         Some d \<Rightarrow> Some d
                       | None \<Rightarrow> if pc_className demo_user_pc = ''_User''
                                    \<and> n = ''sessionToken''
                                 then Some sessionTokenField else None))
           \<and> fst ` set fs =
                 {n. n \<notin> set reservedFieldNames
                     \<and> (\<exists>f d. map_of (class_fields demo_user_class) n = Some f
                               \<and> graphQLInputField demo_mappers n f = Some d)}
                 \<union> {''clientMutationId''}
                 \<union> (if pc_className demo_user_pc = ''_User''
                    then {''sessionToken''} else {})" ..
  from r have run: "inputFields demo_mappers 0 (snd (loadClass ''_User'' demo_schema emptyState)) = (Inr (Some fs), (snd (loadClass ''_User'' demo_schema emptyState)))"
    by (rule conjunct1)
  from t have t2: "\<forall>fs' st'.
              objectFields demo_mappers 0 (snd (loadClass ''_User'' demo_schema emptyState)) = (Inr (Some fs'), st')
            \<or> queryFields demo_mappers 0 (snd (loadClass ''_User'' demo_schema emptyState)) = (Inr (Some fs'), st')
            \<or> inputFields demo_mappers 0 (snd (loadClass ''_User'' demo_schema emptyState)) = (Inr (Some fs'), st')
            \<or> updateFields demo_mappers 0 (snd (loadClass ''_User'' demo_schema emptyState)) = (Inr (Some fs'), st')
            \<longrightarrow> (pc_className demo_user_pc = ''_User'' \<longrightarrow> ''sessionToken'' \<in> fst ` set fs')
              \<and> (''sessionToken'' \<in> fst ` set fs'
                   \<longrightarrow> pc_className demo_user_pc = ''_User''
                       \<or> ''sessionToken'' \<in> fst ` set (class_fields demo_user_class))"
    by (rule conjunct2)
  have tok: "''sessionToken'' \<in> fst ` set fs"
    using t2 run nm by blast
  have ex: "\<exists>fs. (inputFields demo_mappers 0 (snd (loadClass ''_User'' demo_schema emptyState)) = (Inr (Some fs), (snd (loadClass ''_User'' demo_schema emptyState)))
           \<and> (\<forall>n. map_of fs n =
                 (if n = ''clientMutationId'' then Some (typeOnly GraphQLString)
                  else case (case map_of (class_fields demo_user_class) n of
                               None \<Rightarrow> None
                             | Some f \<Rightarrow> if n \<in> set reservedFieldNames then None
                                         else graphQLInputField demo_mappers n f) of
                         Some d \<Rightarrow> Some d
                       | None \<Rightarrow> if pc_className demo_user_pc = ''_User''
                                    \<and> n = ''sessionToken''
                                 then Some sessionTokenField else None))
           \<and> fst ` set fs =
                 {n. n \<notin> set reservedFieldNames
                     \<and> (\<exists>f d. map_of (class_fields demo_user_class) n = Some f
                               \<and> graphQLInputField demo_mappers n f = Some d)}
                 \<union> {''clientMutationId''}
                 \<union> (if pc_className demo_user_pc = ''_User''
                    then {''sessionToken''} else {}))
           \<and> ''sessionToken'' \<in> fst ` set fs"
    by (rule exI[of _ fs]) (rule conjI[OF r tok])
  show ?thesis
    by (rule conjI[OF at conjI[OF cls conjI[OF nm conjI[OF ev1 conjI[OF ev2 conjI[OF ev3
                  conjI[OF ev4 ex]]]]]]])
qed

text \<open>
  Claim C9. The code does not degrade as the claim says. For every class name under which
  the schema declares no class (and that is not cached yet), \<^verbatim>\<open>loadClass\<close> returns
  a bundle. If \<^verbatim>\<open>schema[className]\<close> reads \<^verbatim>\<open>undefined\<close>, the constructor logs its
  warning and \<^verbatim>\<open>buildFields\<close> logs its warning and returns \<^verbatim>\<open>undefined\<close> for every
  mapper and flags; this \<^verbatim>\<open>undefined\<close> is what the fields thunk of the object type
  returns, while the fields thunks of the add-input, update-input and query types
  dereference it and raise a TypeError. If the name reads a member that the schema object
  inherits or its \<^verbatim>\<open>__classNames\<close> list, nothing is logged and \<^verbatim>\<open>buildFields\<close>
  itself raises a TypeError.
\<close>

theorem absent_class_field_thunks_raise:
  assumes con: "consistent st"
    and absent: "\<forall>c. schema_class sch className \<noteq> Declared c"
    and fresh: "map_of (cs_cache st) className = None"
  shows "\<exists>b st1. loadClass className sch st = (Inr b, st1)
            \<and> cs_console st1 = cs_console st
                 @ (if schema_class sch className = Undeclared
                    then missingClassWarning className else [])
            \<and> (schema_class sch className = Undeclared \<longrightarrow>
                 (\<forall>mapper filterReserved isObject.
                    buildFields mapper filterReserved isObject (b_parseClass b) st1
                      = (Inr None,
                         st1\<lparr>cs_console := cs_console st1 @ missingFieldsWarning className\<rparr>))
               \<and> objectFields tm (b_parseClass b) st1
                   = (Inr None,
                      st1\<lparr>cs_console := cs_console st1 @ missingFieldsWarning className\<rparr>)
               \<and> inputFields tm (b_parseClass b) st1
                   = (Inl TypeError,
                      st1\<lparr>cs_console := cs_console st1 @ missingFieldsWarning className\<rparr>)
               \<and> updateFields tm (b_parseClass b) st1
                   = (Inl TypeError,
                      st1\<lparr>cs_console := cs_console st1 @ missingFieldsWarning className\<rparr>)
               \<and> queryFields tm (b_parseClass b) st1
                   = (Inl TypeError,
                      st1\<lparr>cs_console := cs_console st1 @ missingFieldsWarning className\<rparr>))
            \<and> (schema_class sch className = NotAClass \<longrightarrow>
                 (\<forall>mapper filterReserved isObject.
                    buildFields mapper filterReserved isObject (b_parseClass b) st1
                      = (Inl TypeError, st1)))"
proof -
  obtain b st1 pc where
      l: "loadClass className sch st = (Inr b, st1)"
    and ld: "loaded st1 className b"
    and lg: "cs_console st1 = cs_console st
               @ (if schema_class sch className = Undeclared
                  then missingClassWarning className else [])"
    and d: "deref st1 (b_parseClass b) = Some (ParseClassObj pc)"
    and k: "pc_class pc = schema_class sch className"
    using loadClass_spec[OF con, of className sch] fresh by auto
  from ld d have n: "pc_className pc = className" by (auto simp: loaded_def)
  have u: "(\<forall>mapper filterReserved isObject.
                    buildFields mapper filterReserved isObject (b_parseClass b) st1
                      = (Inr None,
                         st1\<lparr>cs_console := cs_console st1 @ missingFieldsWarning className\<rparr>))
               \<and> objectFields tm (b_parseClass b) st1
                   = (Inr None,
                      st1\<lparr>cs_console := cs_console st1 @ missingFieldsWarning className\<rparr>)
               \<and> inputFields tm (b_parseClass b) st1
                   = (Inl TypeError,
                      st1\<lparr>cs_console := cs_console st1 @ missingFieldsWarning className\<rparr>)
               \<and> updateFields tm (b_parseClass b) st1
                   = (Inl TypeError,
                      st1\<lparr>cs_console := cs_console st1 @ missingFieldsWarning className\<rparr>)
               \<and> queryFields tm (b_parseClass b) st1
                   = (Inl TypeError,
                      st1\<lparr>cs_console := cs_console st1 @ missingFieldsWarning className\<rparr>)"
    if un: "schema_class sch className = Undeclared"
  proof -
    from k un have none: "pc_class pc = Undeclared" by simp
    show ?thesis
      using buildFields_absent[OF d none] field_thunks_of_absent_class[OF d none, of tm] n
      by simp
  qed
  have v: "\<forall>mapper filterReserved isObject.
                    buildFields mapper filterReserved isObject (b_parseClass b) st1
                      = (Inl TypeError, st1)"
    if nc: "schema_class sch className = NotAClass"
  proof -
    from k nc have "pc_class pc = NotAClass" by simp
    from buildFields_not_a_class[OF d this] show ?thesis by simp
  qed
  show ?thesis
    by (intro exI[of _ b] exI[of _ st1] conjI[OF l conjI[OF lg conjI]] impI) (fact u v)+
qed

theorem absent_class_field_thunks_raise_witness:
  "consistent emptyState
   \<and> schema_class demo_broken_schema ''Ghost'' = Undeclared
   \<and> map_of (cs_cache emptyState) ''Ghost'' = None
   \<and> (\<exists>b st1. loadClass ''Ghost'' demo_broken_schema emptyState = (Inr b, st1)
         \<and> cs_console st1 = missingClassWarning ''Ghost''
         \<and> (\<forall>mapper filterReserved isObject.
                    buildFields mapper filterReserved isObject (b_parseClass b) st1
                      = (Inr None, st1\<lparr>cs_console := cs_console st1 @ missingFieldsWarning ''Ghost''\<rparr>))
               \<and> objectFields demo_mappers (b_parseClass b) st1 = (Inr None, st1\<lparr>cs_console := cs_console st1 @ missingFieldsWarning ''Ghost''\<rparr>)
               \<and> inputFields demo_mappers (b_parseClass b) st1 = (Inl TypeError, st1\<lparr>cs_console := cs_console st1 @ missingFieldsWarning ''Ghost''\<rparr>)
               \<and> updateFields demo_mappers (b_parseClass b) st1 = (Inl TypeError, st1\<lparr>cs_console := cs_console st1 @ missingFieldsWarning ''Ghost''\<rparr>)
               \<and> queryFields demo_mappers (b_parseClass b) st1 = (Inl TypeError, st1\<lparr>cs_console := cs_console st1 @ missingFieldsWarning ''Ghost''\<rparr>))"
proof -
  have a: "schema_class demo_broken_schema ''Ghost'' = Undeclared"
    by (simp add: schema_class_def demo_broken_schema_def demo_schema_def
                  objectPrototypeNames_def)
  then have a': "\<forall>c. schema_class demo_broken_schema ''Ghost'' \<noteq> Declared c" by simp
  have f: "map_of (cs_cache emptyState) ''Ghost'' = None"
    by (simp add: emptyState_def)
  have e: "cs_console emptyState = []" by (simp add: emptyState_def)
  note t = absent_class_field_thunks_raise[OF consistent_emptyState a' f, of demo_mappers]
  from t obtain b where "\<exists>st1. loadClass ''Ghost'' demo_broken_schema emptyState = (Inr b, st1)
            \<and> cs_console st1 = cs_console emptyState
                 @ (if schema_class demo_broken_schema ''Ghost'' = Undeclared
                    then missingClassWarning ''Ghost'' else [])
            \<and> (schema_class demo_broken_schema ''Ghost'' = Undeclared \<longrightarrow>
                 (\<forall>mapper filterReserved isObject.
                    buildFields mapper filterReserved isObject (b_parseClass b) st1
                      = (Inr None, st1\<lparr>cs_console := cs_console st1 @ missingFieldsWarning ''Ghost''\<rparr>))
               \<and> objectFields demo_mappers (b_parseClass b) st1 = (Inr None, st1\<lparr>cs_console := cs_console st1 @ missingFieldsWarning ''Ghost''\<rparr>)
               \<and> inputFields demo_mappers (b_parseClass b) st1 = (Inl TypeError, st1\<lparr>cs_console := cs_console st1 @ missingFieldsWarning ''Ghost''\<rparr>)
               \<and> updateFields demo_mappers (b_parseClass b) st1 = (Inl TypeError, st1\<lparr>cs_console := cs_console st1 @ missingFieldsWarning ''Ghost''\<rparr>)
               \<and> queryFields demo_mappers (b_parseClass b) st1 = (Inl TypeError, st1\<lparr>cs_console := cs_console st1 @ missingFieldsWarning ''Ghost''\<rparr>))
            \<and> (schema_class demo_broken_schema ''Ghost'' = NotAClass \<longrightarrow>
                 (\<forall>mapper filterReserved isObject.
                    buildFields mapper filterReserved isObject (b_parseClass b) st1
                      = (Inl TypeError, st1)))" ..
  then obtain st1 where r: "loadClass ''Ghost'' demo_broken_schema emptyState = (Inr b, st1)
            \<and> cs_console st1 = cs_console emptyState
                 @ (if schema_class demo_broken_schema ''Ghost'' = Undeclared
                    then missingClassWarning ''Ghost'' else [])
            \<and> (schema_class demo_broken_schema ''Ghost'' = Undeclared \<longrightarrow>
                 (\<forall>mapper filterReserved isObject.
                    buildFields mapper filterReserved isObject (b_parseClass b) st1
                      = (Inr None, st1\<lparr>cs_console := cs_console st1 @ missingFieldsWarning ''Ghost''\<rparr>))
               \<and> objectFields demo_mappers (b_parseClass b) st1 = (Inr None, st1\<lparr>cs_console := cs_console st1 @ missingFieldsWarning ''Ghost''\<rparr>)
               \<and> inputFields demo_mappers (b_parseClass b) st1 = (Inl TypeError, st1\<lparr>cs_console := cs_console st1 @ missingFieldsWarning ''Ghost''\<rparr>)
               \<and> updateFields demo_mappers (b_parseClass b) st1 = (Inl TypeError, st1\<lparr>cs_console := cs_console st1 @ missingFieldsWarning ''Ghost''\<rparr>)
               \<and> queryFields demo_mappers (b_parseClass b) st1 = (Inl TypeError, st1\<lparr>cs_console := cs_console st1 @ missingFieldsWarning ''Ghost''\<rparr>))
            \<and> (schema_class demo_broken_schema ''Ghost'' = NotAClass \<longrightarrow>
                 (\<forall>mapper filterReserved isObject.
                    buildFields mapper filterReserved isObject (b_parseClass b) st1
                      = (Inl TypeError, st1)))" ..
  from r have l: "loadClass ''Ghost'' demo_broken_schema emptyState = (Inr b, st1)" by (rule conjunct1)
  from r have cn: "cs_console st1 = cs_console emptyState
                 @ (if schema_class demo_broken_schema ''Ghost'' = Undeclared
                    then missingClassWarning ''Ghost'' else [])"
    by (rule conjunct2[THEN conjunct1])
  from cn a e have cn': "cs_console st1 = missingClassWarning ''Ghost''" by simp
  from r have "schema_class demo_broken_schema ''Ghost'' = Undeclared \<longrightarrow>
                 (\<forall>mapper filterReserved isObject.
                    buildFields mapper filterReserved isObject (b_parseClass b) st1
                      = (Inr None, st1\<lparr>cs_console := cs_console st1 @ missingFieldsWarning ''Ghost''\<rparr>))
               \<and> objectFields demo_mappers (b_parseClass b) st1 = (Inr None, st1\<lparr>cs_console := cs_console st1 @ missingFieldsWarning ''Ghost''\<rparr>)
               \<and> inputFields demo_mappers (b_parseClass b) st1 = (Inl TypeError, st1\<lparr>cs_console := cs_console st1 @ missingFieldsWarning ''Ghost''\<rparr>)
               \<and> updateFields demo_mappers (b_parseClass b) st1 = (Inl TypeError, st1\<lparr>cs_console := cs_console st1 @ missingFieldsWarning ''Ghost''\<rparr>)
               \<and> queryFields demo_mappers (b_parseClass b) st1 = (Inl TypeError, st1\<lparr>cs_console := cs_console st1 @ missingFieldsWarning ''Ghost''\<rparr>)"
    by (rule conjunct2[THEN conjunct2, THEN conjunct1])
  then have x: "(\<forall>mapper filterReserved isObject.
                    buildFields mapper filterReserved isObject (b_parseClass b) st1
                      = (Inr None, st1\<lparr>cs_console := cs_console st1 @ missingFieldsWarning ''Ghost''\<rparr>))
               \<and> objectFields demo_mappers (b_parseClass b) st1 = (Inr None, st1\<lparr>cs_console := cs_console st1 @ missingFieldsWarning ''Ghost''\<rparr>)
               \<and> inputFields demo_mappers (b_parseClass b) st1 = (Inl TypeError, st1\<lparr>cs_console := cs_console st1 @ missingFieldsWarning ''Ghost''\<rparr>)
               \<and> updateFields demo_mappers (b_parseClass b) st1 = (Inl TypeError, st1\<lparr>cs_console := cs_console st1 @ missingFieldsWarning ''Ghost''\<rparr>)
               \<and> queryFields demo_mappers (b_parseClass b) st1 = (Inl TypeError, st1\<lparr>cs_console := cs_console st1 @ missingFieldsWarning ''Ghost''\<rparr>)"
    using a by (rule mp)
  have ex: "\<exists>b st1. loadClass ''Ghost'' demo_broken_schema emptyState = (Inr b, st1)
         \<and> cs_console st1 = missingClassWarning ''Ghost''
         \<and> (\<forall>mapper filterReserved isObject.
                    buildFields mapper filterReserved isObject (b_parseClass b) st1
                      = (Inr None, st1\<lparr>cs_console := cs_console st1 @ missingFieldsWarning ''Ghost''\<rparr>))
               \<and> objectFields demo_mappers (b_parseClass b) st1 = (Inr None, st1\<lparr>cs_console := cs_console st1 @ missingFieldsWarning ''Ghost''\<rparr>)
               \<and> inputFields demo_mappers (b_parseClass b) st1 = (Inl TypeError, st1\<lparr>cs_console := cs_console st1 @ missingFieldsWarning ''Ghost''\<rparr>)
               \<and> updateFields demo_mappers (b_parseClass b) st1 = (Inl TypeError, st1\<lparr>cs_console := cs_console st1 @ missingFieldsWarning ''Ghost''\<rparr>)
               \<and> queryFields demo_mappers (b_parseClass b) st1 = (Inl TypeError, st1\<lparr>cs_console := cs_console st1 @ missingFieldsWarning ''Ghost''\<rparr>)"
    by (rule exI[of _ b], rule exI[of _ st1]) (rule conjI[OF l conjI[OF cn' x]])
  show ?thesis
    by (rule conjI[OF consistent_emptyState conjI[OF a conjI[OF f ex]]])
qed

text \<open>
  The failing run of claim C9. The schema lists the class \<^verbatim>\<open>Ghost\<close> and declares none of
  that name: \<^verbatim>\<open>loadClass\<close> returns its bundle and logs the warning, both root field
  maps are built, and the object type (address 1) yields \<^verbatim>\<open>undefined\<close> for its fields;
  but asking the add-input, update-input or query type (addresses 2, 3, 4) for its fields
  raises a TypeError after the second warning. For the undeclared name
  \<^verbatim>\<open>constructor\<close>, which the schema object inherits, nothing is logged and the object
  type raises as well.
\<close>

theorem absent_class_thunks_counterexample:
  "map_sum id (\<lambda>b. (b_parseClass b, b_objectType b, b_inputType b, b_updateType b,
                     b_queryType b))
     (fst (loadClass ''Ghost'' demo_broken_schema emptyState)) = Inr (0, 1, 2, 3, 4)
   \<and> cs_console (snd (loadClass ''Ghost'' demo_broken_schema emptyState))
       = [Warn ''Attempting to load a class (Ghost) that doesn't exist...'', Trace]
   \<and> map_sum id (map fst) (fst (getParseClassQueryFields demo_broken_schema emptyState))
       = Inr [''Ghost'', ''findGhost'', ''Post'', ''findPost'']
   \<and> map_prod id cs_console
       (getFields demo_mappers 1 (snd (loadClass ''Ghost'' demo_broken_schema emptyState)))
       = (Inr None,
          [Warn ''Attempting to load a class (Ghost) that doesn't exist...'', Trace,
           Warn ''Attempting to build fields a class (Ghost) that doesn't exist...'', Trace])
   \<and> map_prod id cs_console
       (getFields demo_mappers 2 (snd (loadClass ''Ghost'' demo_broken_schema emptyState)))
       = (Inl TypeError,
          [Warn ''Attempting to load a class (Ghost) that doesn't exist...'', Trace,
           Warn ''Attempting to build fields a class (Ghost) that doesn't exist...'', Trace])
   \<and> map_prod id cs_console
       (getFields demo_mappers 3 (snd (loadClass ''Ghost'' demo_broken_schema emptyState)))
       = (Inl TypeError,
          [Warn ''Attempting to load a class (Ghost) that doesn't exist...'', Trace,
           Warn ''Attempting to build fields a class (Ghost) that doesn't exist...'', Trace])
   \<and> map_prod id cs_console
       (getFields demo_mappers 4 (snd (loadClass ''Ghost'' demo_broken_schema emptyState)))
       = (Inl TypeError,
          [Warn ''Attempting to load a class (Ghost) that doesn't exist...'', Trace,
           Warn ''Attempting to build fields a class (Ghost) that doesn't exist...'', Trace])
   \<and> schema_class demo_schema ''constructor'' = NotAClass
   \<and> map_sum id (\<lambda>b. (b_parseClass b, b_objectType b, b_inputType b))
       (fst (loadClass ''constructor'' demo_schema emptyState)) = Inr (0, 1, 2)
   \<and> cs_console (snd (loadClass ''constructor'' demo_schema emptyState)) = []
   \<and> map_prod id cs_console
       (getFields demo_mappers 1 (snd (loadClass ''constructor'' demo_schema emptyState)))
       = (Inl TypeError, [])
   \<and> map_prod id cs_console
       (getFields demo_mappers 2 (snd (loadClass ''constructor'' demo_schema emptyState)))
       = (Inl TypeError, [])"
  by code_simp

end
